theory Spec2Isabelle
  imports Complex_Main
begin

section \<open>Data model (pkg/models/types.go)\<close>

text \<open>
  A \<^verbatim>\<open>time.Time\<close> is modelled by its instant: the number of nanoseconds since Go's zero
  time (January 1, year 1, 00:00:00 UTC). \<^verbatim>\<open>IsZero\<close>, \<^verbatim>\<open>Before\<close>, \<^verbatim>\<open>After\<close> and \<^verbatim>\<open>Add\<close> only
  look at the instant. A \<^verbatim>\<open>time.Duration\<close> is a number of nanoseconds.
\<close>

type_synonym time = int
type_synonym duration = int

definition IsZero :: "time \<Rightarrow> bool" where
  "IsZero t = (t = 0)"

definition Before :: "time \<Rightarrow> time \<Rightarrow> bool" where
  "Before t u = (t < u)"

definition After :: "time \<Rightarrow> time \<Rightarrow> bool" where
  "After t u = (t > u)"

definition Add :: "time \<Rightarrow> duration \<Rightarrow> time" where
  "Add t d = t + d"

definition Second :: duration where
  "Second = 1000000000"

definition Minute :: duration where
  "Minute = 60 * Second"

definition Hour :: duration where
  "Hour = 60 * Minute"

text \<open>\<^verbatim>\<open>CollectionSource\<close> is a string type with three named constants.\<close>

type_synonym CollectionSource = string

definition SourceClaudeCode :: CollectionSource where
  "SourceClaudeCode = ''claude_code''"

definition SourceGeminiCLI :: CollectionSource where
  "SourceGeminiCLI = ''gemini_cli''"

definition SourceAmazonQ :: CollectionSource where
  "SourceAmazonQ = ''amazon_q''"

text \<open>
  The field names of \<^verbatim>\<open>Message\<close>, \<^verbatim>\<open>FileReference\<close> and \<^verbatim>\<open>Command\<close> carry a prefix, since
  \<^verbatim>\<open>SessionData\<close> uses the plain names. A Go map with string keys is a partial function.
\<close>

record Message =
  msg_ID :: string
  msg_Role :: string
  msg_Content :: string
  msg_Timestamp :: time
  msg_Metadata :: "string \<rightharpoonup> string"

record FileReference =
  file_Path :: string
  file_Name :: string
  file_Size :: int
  file_ModTime :: time
  file_ContentType :: string
  file_Hash :: string

record Command =
  cmd_ID :: string
  cmd_Command :: string
  cmd_Args :: "string list"
  cmd_Output :: string
  cmd_Error :: string
  cmd_ExitCode :: int
  cmd_Timestamp :: time
  cmd_Duration :: duration
  cmd_Environment :: "string \<rightharpoonup> string"

record SessionData =
  ID :: string
  Source :: CollectionSource
  Timestamp :: time
  Title :: string
  Messages :: "Message list"
  Metadata :: "string \<rightharpoonup> string"
  Files :: "FileReference list"
  Commands :: "Command list"

record DateRange =
  Start :: time
  End :: time

text \<open>\<^verbatim>\<open>DateRange *DateRange\<close> is a pointer: \<open>None\<close> is the nil pointer.\<close>

record CollectionConfig =
  Sources :: "CollectionSource list"
  IncludeFiles :: bool
  IncludeCommands :: bool
  DateRange :: "DateRange option"
  OutputPath :: string
  Template :: string

section \<open>Errors, log output, contexts\<close>

text \<open>
  A Go \<^verbatim>\<open>error\<close> value. \<open>Errorf format args\<close> is the value of \<^verbatim>\<open>fmt.Errorf(format, args...)\<close>; an
  error argument is the error wrapped with \<^verbatim>\<open>%w\<close> or printed with \<^verbatim>\<open>%v\<close>. \<open>Canceled\<close> and
  \<open>DeadlineExceeded\<close> are the two errors of package \<^verbatim>\<open>context\<close>, \<open>ErrNotExist\<close> is any error
  for which \<^verbatim>\<open>os.IsNotExist\<close> holds, and \<open>LibraryError\<close> is any other error made by the
  standard library (a permission error, a JSON syntax error, a line too long for the
  scanner).
\<close>

datatype error =
    Canceled
  | DeadlineExceeded
  | ErrNotExist
  | LibraryError string
  | Errorf string "fmtarg list"
and fmtarg =
    ArgInt int
  | ArgString string
  | ArgError error

definition IsNotExist :: "error \<Rightarrow> bool" where
  "IsNotExist err = (err = ErrNotExist)"

text \<open>
  The collectors write to a logger (\<^verbatim>\<open>Printf\<close>, \<^verbatim>\<open>Warnf\<close>, \<^verbatim>\<open>Errorf\<close>) or, in the Claude Code
  collector, to standard output. Every function of the model returns the entries it wrote,
  in order, next to its result.
\<close>

datatype log_entry =
    LogPrintf string "fmtarg list"
  | LogWarnf string "fmtarg list"
  | LogErrorf string "fmtarg list"
  | StdoutPrintf string "fmtarg list"

text \<open>
  A context is read at the places where the code polls \<^verbatim>\<open>ctx.Done()\<close>. The model names each
  such place and takes the context as the function that tells, for each place, what the
  poll finds when the program gets there: \<open>None\<close> while the context is live, the value of
  \<^verbatim>\<open>ctx.Err()\<close> once it is cancelled or its deadline has passed. The context is the one
  \<^verbatim>\<open>Collect\<close> derives with \<^verbatim>\<open>context.WithTimeout\<close>, which is done as soon as its parent is.
\<close>

datatype poll_site =
    HistoryLine nat
  | SessionResult nat
  | AWSPath nat
  | CollectEntry
  | HistoryEntry
  | HistoryRead
  | CollectMiddle
  | WalkEntry nat

type_synonym ctx = "poll_site \<Rightarrow> error option"

section \<open>The standard library and the file system\<close>

text \<open>A decoded JSON value; a number is kept as its literal.\<close>

datatype json =
    JNull
  | JBool bool
  | JNumber string
  | JString string
  | JArray "json list"
  | JObject "(string \<times> json) list"

text \<open>
  \<^verbatim>\<open>os.FileInfo\<close> and the entries a directory walk visits: the path, whether it is a
  directory, and the error the walk hands to the callback.
\<close>

record FileInfo =
  Size :: int
  IsDir :: bool
  ModTime :: time

record WalkItem =
  walk_path :: string
  walk_isDir :: bool
  walk_err :: "error option"

text \<open>
  The \<^verbatim>\<open>FileReader\<close> interface of the collectors. \<open>WalkDir root\<close> is the sequence of calls the
  walk makes to its callback as long as the callback returns nil; the walk stops at the
  first error the callback returns and returns it.
\<close>

record FileReader =
  ReadFile :: "string \<Rightarrow> error + string"
  Stat :: "string \<Rightarrow> error + FileInfo"
  WalkDir :: "string \<Rightarrow> WalkItem list"

text \<open>
  What a \<^verbatim>\<open>bufio.Scanner\<close> with the 64KB buffer yields on an opened file: the lines for
  which \<^verbatim>\<open>Scan\<close> returns true, and the value of \<^verbatim>\<open>scanner.Err()\<close> after \<open>k\<close> lines have been
  delivered.
\<close>

record Scanner =
  scan_lines :: "string list"
  scan_Err :: "nat \<Rightarrow> error option"

section \<open>The history-line schemas\<close>

record GeminiHistoryEntry =
  ghe_ID :: string
  ghe_Command :: string
  ghe_Prompt :: string
  ghe_Response :: string
  ghe_Timestamp :: string
  ghe_Model :: string
  ghe_Metadata :: "string \<rightharpoonup> json"

record AmazonQHistoryEntry =
  aqe_ID :: string
  aqe_ConversationID :: string
  aqe_Query :: string
  aqe_Response :: string
  aqe_Timestamp :: string
  aqe_Service :: string
  aqe_Region :: string
  aqe_UserID :: string
  aqe_SessionType :: string
  aqe_Context :: "string \<rightharpoonup> json"
  aqe_Metadata :: "string \<rightharpoonup> json"

section \<open>The session-file schemas\<close>

text \<open>A \<^verbatim>\<open>float64\<close> field is never read by the collectors; it is kept as a real number.\<close>

record GeminiMessagePart =
  gmp_Type :: string
  gmp_Text :: string

record GeminiMessage =
  gm_ID :: string
  gm_Role :: string
  gm_Content :: string
  gm_Parts :: "GeminiMessagePart list"
  gm_Timestamp :: string
  gm_Metadata :: "string \<rightharpoonup> json"

record GeminiSessionSettings =
  gss_Model :: string
  gss_Temperature :: real
  gss_MaxTokens :: int

record GeminiSessionData =
  gsd_ID :: string
  gsd_Title :: string
  gsd_CreatedAt :: string
  gsd_UpdatedAt :: string
  gsd_Model :: string
  gsd_Messages :: "GeminiMessage list"
  gsd_Metadata :: "string \<rightharpoonup> json"
  gsd_Settings :: "GeminiSessionSettings option"

record AmazonQMessage =
  aqm_ID :: string
  aqm_Role :: string
  aqm_Content :: string
  aqm_Timestamp :: string
  aqm_MessageType :: string
  aqm_Service :: string
  aqm_Context :: "string \<rightharpoonup> json"
  aqm_Metadata :: "string \<rightharpoonup> json"

record AmazonQSessionSettings =
  aqs_Service :: string
  aqs_Region :: string
  aqs_MaxTokens :: int
  aqs_Temperature :: real

record AmazonQSessionData =
  aqd_ID :: string
  aqd_ConversationID :: string
  aqd_Title :: string
  aqd_CreatedAt :: string
  aqd_UpdatedAt :: string
  aqd_Service :: string
  aqd_Region :: string
  aqd_UserID :: string
  aqd_Messages :: "AmazonQMessage list"
  aqd_Context :: "string \<rightharpoonup> json"
  aqd_Settings :: "AmazonQSessionSettings option"
  aqd_Metadata :: "string \<rightharpoonup> json"

section \<open>The Go library as a parameter\<close>

text \<open>
  The functions of the Go standard library and the state of the machine that the
  collectors read are a parameter of the model, so that every theorem holds whatever
  they return:
  \<^item> \<open>Now\<close>: the clock (\<^verbatim>\<open>time.Now()\<close>); one call of \<^verbatim>\<open>Collect\<close> reads one instant.
  \<^item> \<open>TrimSpace\<close>, \<open>ToLower\<close>: \<^verbatim>\<open>strings.TrimSpace\<close>, \<^verbatim>\<open>strings.ToLower\<close>.
  \<^item> \<open>DecodeValue\<close>: the first JSON value that a \<^verbatim>\<open>json.Decoder\<close> reads from a string, or its
    syntax error. \<open>EqualFold\<close>: whether a JSON key matches a struct field's name, as
    \<^verbatim>\<open>encoding/json\<close> matches them (exactly, or ignoring case).
  \<^item> \<open>UnmarshalGeminiSession\<close>, \<open>UnmarshalAmazonQSession\<close>, \<open>UnmarshalObject\<close>:
    \<^verbatim>\<open>json.Unmarshal\<close> of a whole file into the session struct, or into a
    \<^verbatim>\<open>map[string]interface{}\<close>.
  \<^item> \<open>ParseRFC3339\<close>: \<^verbatim>\<open>time.Parse(time.RFC3339, s)\<close>.
  \<^item> \<open>UserHomeDir\<close>, \<open>Join\<close>, \<open>Base\<close>, \<open>Ext\<close>, \<open>Match\<close>: \<^verbatim>\<open>os.UserHomeDir\<close> and the functions of
    \<^verbatim>\<open>path/filepath\<close>; \<open>Match\<close> is the boolean result, false when the pattern is malformed.
  \<^item> \<open>NumCPU\<close>: \<^verbatim>\<open>runtime.NumCPU()\<close>.
  \<^item> \<open>Open\<close>: \<^verbatim>\<open>os.Open\<close> followed by the line scanner over the opened file.
  \<^item> \<open>OS\<close>: \<^verbatim>\<open>os.ReadFile\<close>, \<^verbatim>\<open>os.Stat\<close> and \<^verbatim>\<open>filepath.Walk\<close>, called directly.
  \<^item> \<open>FormatValue\<close>: \<^verbatim>\<open>fmt.Sprintf("%v", v)\<close> of a decoded JSON value.
\<close>

record GoLib =
  Now :: time
  TrimSpace :: "string \<Rightarrow> string"
  ToLower :: "string \<Rightarrow> string"
  DecodeValue :: "string \<Rightarrow> error + json"
  EqualFold :: "string \<Rightarrow> string \<Rightarrow> bool"
  UnmarshalGeminiSession :: "string \<Rightarrow> error + GeminiSessionData"
  UnmarshalAmazonQSession :: "string \<Rightarrow> error + AmazonQSessionData"
  UnmarshalObject :: "string \<Rightarrow> error + (string \<rightharpoonup> json)"
  ParseRFC3339 :: "string \<Rightarrow> error + time"
  UserHomeDir :: "error + string"
  Join :: "string \<Rightarrow> string \<Rightarrow> string"
  Base :: "string \<Rightarrow> string"
  Ext :: "string \<Rightarrow> string"
  Match :: "string \<Rightarrow> string \<Rightarrow> bool"
  NumCPU :: nat
  Open :: "string \<Rightarrow> error + Scanner"
  OS :: FileReader
  FormatValue :: "json \<Rightarrow> string"

text \<open>
  Functions on byte strings that the model computes itself: \<^verbatim>\<open>strings.HasPrefix\<close>,
  \<^verbatim>\<open>strings.HasSuffix\<close>, \<^verbatim>\<open>strings.Contains\<close>, \<^verbatim>\<open>strings.TrimSuffix\<close>, \<^verbatim>\<open>strings.Split\<close> at a
  one-byte separator, \<^verbatim>\<open>strings.Join\<close>, and the decimal numeral that \<^verbatim>\<open>%d\<close> prints.
\<close>

definition HasPrefix :: "string \<Rightarrow> string \<Rightarrow> bool" where
  "HasPrefix s pre = (take (length pre) s = pre)"

definition HasSuffix :: "string \<Rightarrow> string \<Rightarrow> bool" where
  "HasSuffix s suf = (length suf \<le> length s \<and> drop (length s - length suf) s = suf)"

fun Contains :: "string \<Rightarrow> string \<Rightarrow> bool" where
  "Contains [] sub = (sub = [])"
| "Contains (c # cs) sub = (HasPrefix (c # cs) sub \<or> Contains cs sub)"

definition TrimSuffix :: "string \<Rightarrow> string \<Rightarrow> string" where
  "TrimSuffix s suf = (if HasSuffix s suf then take (length s - length suf) s else s)"

fun Split :: "string \<Rightarrow> char \<Rightarrow> string list" where
  "Split [] sep = [[]]"
| "Split (c # cs) sep =
     (if c = sep then [] # Split cs sep
      else (case Split cs sep of
              [] \<Rightarrow> [[c]]
            | piece # pieces \<Rightarrow> (c # piece) # pieces))"

fun JoinStrings :: "string list \<Rightarrow> string \<Rightarrow> string" where
  "JoinStrings [] sep = []"
| "JoinStrings [x] sep = x"
| "JoinStrings (x # y # ys) sep = x @ sep @ JoinStrings (y # ys) sep"

definition newline :: char where
  "newline = CHR 0x0A"

definition digit :: "nat \<Rightarrow> char" where
  "digit d = ''0123456789'' ! d"

function Itoa :: "nat \<Rightarrow> string" where
  "Itoa n = (if n < 10 then [digit n] else Itoa (n div 10) @ [digit (n mod 10)])"
  by pat_completeness auto
termination
  by (relation "measure id") auto

declare Itoa.simps [simp del]

definition FormatInt :: "int \<Rightarrow> string" where
  "FormatInt i = (if i < 0 then CHR ''-'' # Itoa (nat (- i)) else Itoa (nat i))"

text \<open>
  \<^verbatim>\<open>config.ExpandPath\<close>: a leading \<^verbatim>\<open>~\<close> is replaced by the home directory. Format strings
  that the source writes in Korean are given in English here and below.
\<close>

definition ExpandPath :: "GoLib \<Rightarrow> string \<Rightarrow> error + string" where
  "ExpandPath L path =
     (if path = [] \<or> hd path \<noteq> CHR ''~'' then Inr path
      else (case UserHomeDir L of
              Inl err \<Rightarrow> Inl (Errorf ''home directory not found: %w'' [ArgError err])
            | Inr home \<Rightarrow> Inr (Join L home (tl path))))"

text \<open>\<^verbatim>\<open>config.CLIToolConfig\<close>, the configuration of one collector.\<close>

record CLIToolConfig =
  SessionDir :: string
  HistoryFile :: string
  ConfigDir :: string
  LogsDir :: string
  CacheDir :: string
  IncludePatterns :: "string list"
  ExcludePatterns :: "string list"

section \<open>Decoding a history line into its schema\<close>

text \<open>
  \<^verbatim>\<open>decoder.Decode(&entry)\<close> on a struct, as \<^verbatim>\<open>encoding/json\<close> documents it. The members of the
  object are taken in order. A key selects the field whose name it equals, or else the
  first field whose name it matches ignoring case. A key that selects no field is skipped,
  unless \<^verbatim>\<open>DisallowUnknownFields\<close> was called on the decoder: then it is an error. A string
  field takes a JSON string, is left alone by \<^verbatim>\<open>null\<close>, and any other value is a type error;
  a map field takes an object or \<^verbatim>\<open>null\<close>. Decoding goes on after an error, and the first
  error is returned at the end.
\<close>

definition matchField :: "GoLib \<Rightarrow> string list \<Rightarrow> string \<Rightarrow> string option" where
  "matchField L names key =
     (if key \<in> set names then Some key else find (\<lambda>name. EqualFold L name key) names)"

definition saveError :: "error option \<Rightarrow> error \<Rightarrow> error option" where
  "saveError saved err = (case saved of None \<Rightarrow> Some err | Some first \<Rightarrow> Some first)"

definition typeError :: "string \<Rightarrow> error" where
  "typeError field = LibraryError (''json: cannot unmarshal value into Go struct field '' @ field)"

definition unknownField :: "string \<Rightarrow> error" where
  "unknownField key = LibraryError (''json: unknown field '' @ key)"

definition storeString :: "json \<Rightarrow> string \<Rightarrow> string \<Rightarrow> error + string" where
  "storeString v field old =
     (case v of JString str \<Rightarrow> Inr str | JNull \<Rightarrow> Inr old | _ \<Rightarrow> Inl (typeError field))"

definition storeMap :: "json \<Rightarrow> string \<Rightarrow> (string \<rightharpoonup> json) \<Rightarrow> error + (string \<rightharpoonup> json)" where
  "storeMap v field old =
     (case v of
        JObject members \<Rightarrow> Inr (old ++ map_of (rev members))
      | JNull \<Rightarrow> Inr Map.empty
      | _ \<Rightarrow> Inl (typeError field))"

definition gemini_fieldNames :: "string list" where
  "gemini_fieldNames =
     [''id'', ''command'', ''prompt'', ''response'', ''timestamp'', ''model'', ''metadata'']"

definition gemini_setField :: "string \<Rightarrow> json \<Rightarrow> GeminiHistoryEntry \<Rightarrow> error + GeminiHistoryEntry" where
  "gemini_setField field v e =
     (if field = ''id'' then map_sum id (\<lambda>x. e\<lparr>ghe_ID := x\<rparr>) (storeString v field (ghe_ID e))
      else if field = ''command'' then
        map_sum id (\<lambda>x. e\<lparr>ghe_Command := x\<rparr>) (storeString v field (ghe_Command e))
      else if field = ''prompt'' then
        map_sum id (\<lambda>x. e\<lparr>ghe_Prompt := x\<rparr>) (storeString v field (ghe_Prompt e))
      else if field = ''response'' then
        map_sum id (\<lambda>x. e\<lparr>ghe_Response := x\<rparr>) (storeString v field (ghe_Response e))
      else if field = ''timestamp'' then
        map_sum id (\<lambda>x. e\<lparr>ghe_Timestamp := x\<rparr>) (storeString v field (ghe_Timestamp e))
      else if field = ''model'' then
        map_sum id (\<lambda>x. e\<lparr>ghe_Model := x\<rparr>) (storeString v field (ghe_Model e))
      else map_sum id (\<lambda>x. e\<lparr>ghe_Metadata := x\<rparr>) (storeMap v field (ghe_Metadata e)))"

fun gemini_decodeObject ::
  "GoLib \<Rightarrow> bool \<Rightarrow> (string \<times> json) list \<Rightarrow> GeminiHistoryEntry \<Rightarrow> error option \<Rightarrow>
   GeminiHistoryEntry \<times> error option" where
  "gemini_decodeObject L disallowUnknownFields [] e saved = (e, saved)"
| "gemini_decodeObject L disallowUnknownFields ((key, v) # members) e saved =
     (case matchField L gemini_fieldNames key of
        None \<Rightarrow>
          (if disallowUnknownFields
           then gemini_decodeObject L disallowUnknownFields members e
                  (saveError saved (unknownField key))
           else gemini_decodeObject L disallowUnknownFields members e saved)
      | Some field \<Rightarrow>
          (case gemini_setField field v e of
             Inl err \<Rightarrow> gemini_decodeObject L disallowUnknownFields members e (saveError saved err)
           | Inr e' \<Rightarrow> gemini_decodeObject L disallowUnknownFields members e' saved))"

definition gemini_zeroEntry :: GeminiHistoryEntry where
  "gemini_zeroEntry =
     \<lparr>ghe_ID = [], ghe_Command = [], ghe_Prompt = [], ghe_Response = [], ghe_Timestamp = [],
      ghe_Model = [], ghe_Metadata = Map.empty\<rparr>"

definition gemini_Decode :: "GoLib \<Rightarrow> bool \<Rightarrow> string \<Rightarrow> error + GeminiHistoryEntry" where
  "gemini_Decode L disallowUnknownFields line =
     (case DecodeValue L line of
        Inl err \<Rightarrow> Inl err
      | Inr (JObject members) \<Rightarrow>
          (case gemini_decodeObject L disallowUnknownFields members gemini_zeroEntry None of
             (e, None) \<Rightarrow> Inr e
           | (e, Some err) \<Rightarrow> Inl err)
      | Inr JNull \<Rightarrow> Inr gemini_zeroEntry
      | Inr _ \<Rightarrow> Inl (typeError ''GeminiHistoryEntry''))"

definition amazonq_fieldNames :: "string list" where
  "amazonq_fieldNames =
     [''id'', ''conversation_id'', ''query'', ''response'', ''timestamp'', ''service'', ''region'',
      ''user_id'', ''session_type'', ''context'', ''metadata'']"

definition amazonq_setField :: "string \<Rightarrow> json \<Rightarrow> AmazonQHistoryEntry \<Rightarrow> error + AmazonQHistoryEntry" where
  "amazonq_setField field v e =
     (if field = ''id'' then map_sum id (\<lambda>x. e\<lparr>aqe_ID := x\<rparr>) (storeString v field (aqe_ID e))
      else if field = ''conversation_id'' then
        map_sum id (\<lambda>x. e\<lparr>aqe_ConversationID := x\<rparr>) (storeString v field (aqe_ConversationID e))
      else if field = ''query'' then
        map_sum id (\<lambda>x. e\<lparr>aqe_Query := x\<rparr>) (storeString v field (aqe_Query e))
      else if field = ''response'' then
        map_sum id (\<lambda>x. e\<lparr>aqe_Response := x\<rparr>) (storeString v field (aqe_Response e))
      else if field = ''timestamp'' then
        map_sum id (\<lambda>x. e\<lparr>aqe_Timestamp := x\<rparr>) (storeString v field (aqe_Timestamp e))
      else if field = ''service'' then
        map_sum id (\<lambda>x. e\<lparr>aqe_Service := x\<rparr>) (storeString v field (aqe_Service e))
      else if field = ''region'' then
        map_sum id (\<lambda>x. e\<lparr>aqe_Region := x\<rparr>) (storeString v field (aqe_Region e))
      else if field = ''user_id'' then
        map_sum id (\<lambda>x. e\<lparr>aqe_UserID := x\<rparr>) (storeString v field (aqe_UserID e))
      else if field = ''session_type'' then
        map_sum id (\<lambda>x. e\<lparr>aqe_SessionType := x\<rparr>) (storeString v field (aqe_SessionType e))
      else if field = ''context'' then
        map_sum id (\<lambda>x. e\<lparr>aqe_Context := x\<rparr>) (storeMap v field (aqe_Context e))
      else map_sum id (\<lambda>x. e\<lparr>aqe_Metadata := x\<rparr>) (storeMap v field (aqe_Metadata e)))"

fun amazonq_decodeObject ::
  "GoLib \<Rightarrow> bool \<Rightarrow> (string \<times> json) list \<Rightarrow> AmazonQHistoryEntry \<Rightarrow> error option \<Rightarrow>
   AmazonQHistoryEntry \<times> error option" where
  "amazonq_decodeObject L disallowUnknownFields [] e saved = (e, saved)"
| "amazonq_decodeObject L disallowUnknownFields ((key, v) # members) e saved =
     (case matchField L amazonq_fieldNames key of
        None \<Rightarrow>
          (if disallowUnknownFields
           then amazonq_decodeObject L disallowUnknownFields members e
                  (saveError saved (unknownField key))
           else amazonq_decodeObject L disallowUnknownFields members e saved)
      | Some field \<Rightarrow>
          (case amazonq_setField field v e of
             Inl err \<Rightarrow> amazonq_decodeObject L disallowUnknownFields members e (saveError saved err)
           | Inr e' \<Rightarrow> amazonq_decodeObject L disallowUnknownFields members e' saved))"

definition amazonq_zeroEntry :: AmazonQHistoryEntry where
  "amazonq_zeroEntry =
     \<lparr>aqe_ID = [], aqe_ConversationID = [], aqe_Query = [], aqe_Response = [],
      aqe_Timestamp = [], aqe_Service = [], aqe_Region = [], aqe_UserID = [],
      aqe_SessionType = [], aqe_Context = Map.empty, aqe_Metadata = Map.empty\<rparr>"

definition amazonq_Decode :: "GoLib \<Rightarrow> bool \<Rightarrow> string \<Rightarrow> error + AmazonQHistoryEntry" where
  "amazonq_Decode L disallowUnknownFields line =
     (case DecodeValue L line of
        Inl err \<Rightarrow> Inl err
      | Inr (JObject members) \<Rightarrow>
          (case amazonq_decodeObject L disallowUnknownFields members amazonq_zeroEntry None of
             (e, None) \<Rightarrow> Inr e
           | (e, Some err) \<Rightarrow> Inl err)
      | Inr JNull \<Rightarrow> Inr amazonq_zeroEntry
      | Inr _ \<Rightarrow> Inl (typeError ''AmazonQHistoryEntry''))"

section \<open>The streaming line parser\<close>

definition maxFileSize :: int where
  "maxFileSize = 100 * 1024 * 1024"

definition maxWorkers :: nat where
  "maxWorkers = 10"

definition bufferSize :: nat where
  "bufferSize = 64 * 1024"

definition maxMessagesPerFile :: nat where
  "maxMessagesPerFile = 10000"

definition amazonQMaxFileSize :: int where
  "amazonQMaxFileSize = 100 * 1024 * 1024"

definition amazonQMaxWorkers :: nat where
  "amazonQMaxWorkers = 10"

definition amazonQMaxMessagesPerFile :: nat where
  "amazonQMaxMessagesPerFile = 10000"

text \<open>
  The functions of the Gemini collector that turn one line into a session. \<^verbatim>\<open>lines[0]\<close> is
  \<open>hd\<close> of a list that \<open>Split\<close> never returns empty. A \<^verbatim>\<open>*SessionData\<close> result is an option,
  \<open>None\<close> for nil.
\<close>

definition gemini_extractTitleFromPrompt :: "GoLib \<Rightarrow> string \<Rightarrow> string" where
  "gemini_extractTitleFromPrompt L text =
     (if length text = 0 then ''Gemini CLI Session''
      else
        (let lines = Split text newline;
             title = TrimSpace L (hd lines);
             title = (if length title > 100 then take 97 title @ ''...'' else title)
         in if title = [] then ''Gemini CLI Session'' else title))"

definition gemini_convertHistoryEntryToSession :: "GoLib \<Rightarrow> GeminiHistoryEntry \<Rightarrow> nat \<Rightarrow> SessionData" where
  "gemini_convertHistoryEntryToSession L entry index =
     (let sessionID = (if ghe_ID entry = [] then ''gemini-cli-history-'' @ Itoa index else ghe_ID entry);
          timestamp =
            (if ghe_Timestamp entry \<noteq> []
             then (case ParseRFC3339 L (ghe_Timestamp entry) of
                     Inr parsed \<Rightarrow> parsed
                   | Inl err \<Rightarrow> Now L)
             else Now L);
          userMsgs =
            (if ghe_Prompt entry \<noteq> []
             then [\<lparr>msg_ID = sessionID @ ''-user'', msg_Role = ''user'',
                    msg_Content = ghe_Prompt entry, msg_Timestamp = timestamp,
                    msg_Metadata = Map.empty\<rparr>]
             else []);
          assistantMsgs =
            (if ghe_Response entry \<noteq> []
             then [\<lparr>msg_ID = sessionID @ ''-assistant'', msg_Role = ''assistant'',
                    msg_Content = ghe_Response entry, msg_Timestamp = Add timestamp (1 * Second),
                    msg_Metadata = Map.empty\<rparr>]
             else [])
      in \<lparr>ID = sessionID, Source = SourceGeminiCLI, Timestamp = timestamp,
          Title = gemini_extractTitleFromPrompt L (ghe_Prompt entry),
          Messages = userMsgs @ assistantMsgs,
          Metadata = [''model'' \<mapsto> ghe_Model entry, ''command'' \<mapsto> ghe_Command entry,
                      ''source_type'' \<mapsto> ''gemini_cli_history''],
          Files = [], Commands = []\<rparr>)"

definition gemini_parseTextHistoryEntry :: "GoLib \<Rightarrow> string \<Rightarrow> nat \<Rightarrow> SessionData option" where
  "gemini_parseTextHistoryEntry L line lineNum =
     (if length (TrimSpace L line) = 0 then None
      else
        (let sessionID = ''gemini-cli-text-'' @ Itoa lineNum
         in Some \<lparr>ID = sessionID, Source = SourceGeminiCLI, Timestamp = Now L,
                  Title = ''Gemini CLI History Entry'',
                  Messages =
                    [\<lparr>msg_ID = sessionID @ ''-user'', msg_Role = ''user'', msg_Content = line,
                      msg_Timestamp = Now L,
                      msg_Metadata = [''source_type'' \<mapsto> ''gemini_cli_text'']\<rparr>],
                  Metadata =
                    [''source_type'' \<mapsto> ''gemini_cli_history'', ''entry_number'' \<mapsto> Itoa lineNum],
                  Files = [], Commands = []\<rparr>))"

definition gemini_parseJSONHistoryEntry :: "GoLib \<Rightarrow> string \<Rightarrow> nat \<Rightarrow> error + SessionData option" where
  "gemini_parseJSONHistoryEntry L line lineNum =
     (case gemini_Decode L True line of
        Inl err \<Rightarrow> Inl (Errorf ''failed to parse JSON: %w'' [ArgError err])
      | Inr entry \<Rightarrow> Inr (Some (gemini_convertHistoryEntryToSession L entry lineNum)))"

definition gemini_parseHistoryLine :: "GoLib \<Rightarrow> string \<Rightarrow> nat \<Rightarrow> error + SessionData option" where
  "gemini_parseHistoryLine L line lineNum =
     (if HasPrefix line ''{'' then gemini_parseJSONHistoryEntry L line lineNum
      else Inr (gemini_parseTextHistoryEntry L line lineNum))"

text \<open>
  The scanning loop of \<^verbatim>\<open>parseHistoryFileStreaming\<close>. The arguments after the context are the
  lines the scanner has still to deliver, \<^verbatim>\<open>lineNum\<close>, \<^verbatim>\<open>sessions\<close>, and the log written so
  far. The loop is left by the return on a done context (\<open>Inl\<close>), at the end of the lines,
  or by the \<^verbatim>\<open>break\<close> at the record cap; the last two give the sessions and the number of
  lines delivered.
\<close>

fun gemini_scanLoop ::
  "GoLib \<Rightarrow> ctx \<Rightarrow> string list \<Rightarrow> nat \<Rightarrow> SessionData list \<Rightarrow> log_entry list \<Rightarrow>
   (error + SessionData list \<times> nat) \<times> log_entry list" where
  "gemini_scanLoop L ctx [] lineNum sessions logs = (Inr (sessions, lineNum), logs)"
| "gemini_scanLoop L ctx (text # rest) lineNum sessions logs =
     (case ctx (HistoryLine lineNum) of
        Some err \<Rightarrow> (Inl err, logs)
      | None \<Rightarrow>
          (let lineNum = lineNum + 1;
               line = TrimSpace L text
           in if line = [] then gemini_scanLoop L ctx rest lineNum sessions logs
              else
                (case gemini_parseHistoryLine L line lineNum of
                   Inl err \<Rightarrow>
                     gemini_scanLoop L ctx rest lineNum sessions
                       (logs @ [LogWarnf ''Failed to parse history line %d: %v''
                                  [ArgInt (int lineNum), ArgError err]])
                 | Inr session \<Rightarrow>
                     (let sessions = (case session of None \<Rightarrow> sessions | Some s \<Rightarrow> sessions @ [s])
                      in if length sessions \<ge> maxMessagesPerFile
                         then (Inr (sessions, lineNum),
                               logs @ [LogWarnf ''Reached maximum messages per file limit: %d''
                                         [ArgInt (int maxMessagesPerFile)]])
                         else gemini_scanLoop L ctx rest lineNum sessions logs))))"

definition gemini_parseHistoryFileStreaming ::
  "GoLib \<Rightarrow> ctx \<Rightarrow> string \<Rightarrow> CollectionConfig \<Rightarrow> (error + SessionData list) \<times> log_entry list" where
  "gemini_parseHistoryFileStreaming L ctx filePath collectConfig =
     (case Open L filePath of
        Inl err \<Rightarrow> (Inl (Errorf ''failed to open history file: %w'' [ArgError err]), [])
      | Inr scanner \<Rightarrow>
          (case gemini_scanLoop L ctx (scan_lines scanner) 0 [] [] of
             (Inl err, logs) \<Rightarrow> (Inl err, logs)
           | (Inr (sessions, delivered), logs) \<Rightarrow>
               (case scan_Err scanner delivered of
                  Some err \<Rightarrow> (Inl (Errorf ''error reading history file: %w'' [ArgError err]), logs)
                | None \<Rightarrow> (Inr sessions, logs))))"

text \<open>The same functions of the Amazon Q collector, whose decoder keeps its defaults.\<close>

definition amazonq_extractTitleFromQuery :: "GoLib \<Rightarrow> string \<Rightarrow> string" where
  "amazonq_extractTitleFromQuery L text =
     (if length text = 0 then ''Amazon Q CLI Session''
      else
        (let lines = Split text newline;
             title = TrimSpace L (hd lines);
             title = (if length title > 100 then take 97 title @ ''...'' else title)
         in if title = [] then ''Amazon Q CLI Session'' else title))"

definition amazonq_convertHistoryEntryToSession :: "GoLib \<Rightarrow> AmazonQHistoryEntry \<Rightarrow> nat \<Rightarrow> SessionData" where
  "amazonq_convertHistoryEntryToSession L entry index =
     (let sessionID = (if aqe_ID entry = [] then ''amazonq-history-'' @ Itoa index else aqe_ID entry);
          timestamp =
            (if aqe_Timestamp entry \<noteq> []
             then (case ParseRFC3339 L (aqe_Timestamp entry) of
                     Inr parsed \<Rightarrow> parsed
                   | Inl err \<Rightarrow> Now L)
             else Now L);
          userMsgs =
            (if aqe_Query entry \<noteq> []
             then [\<lparr>msg_ID = sessionID @ ''-user'', msg_Role = ''user'',
                    msg_Content = aqe_Query entry, msg_Timestamp = timestamp,
                    msg_Metadata = [''service'' \<mapsto> aqe_Service entry, ''region'' \<mapsto> aqe_Region entry]\<rparr>]
             else []);
          assistantMsgs =
            (if aqe_Response entry \<noteq> []
             then [\<lparr>msg_ID = sessionID @ ''-assistant'', msg_Role = ''assistant'',
                    msg_Content = aqe_Response entry, msg_Timestamp = Add timestamp (1 * Second),
                    msg_Metadata = [''service'' \<mapsto> aqe_Service entry, ''region'' \<mapsto> aqe_Region entry]\<rparr>]
             else [])
      in \<lparr>ID = sessionID, Source = SourceAmazonQ, Timestamp = timestamp,
          Title = amazonq_extractTitleFromQuery L (aqe_Query entry),
          Messages = userMsgs @ assistantMsgs,
          Metadata = [''service'' \<mapsto> aqe_Service entry, ''region'' \<mapsto> aqe_Region entry,
                      ''user_id'' \<mapsto> aqe_UserID entry,
                      ''conversation_id'' \<mapsto> aqe_ConversationID entry,
                      ''session_type'' \<mapsto> aqe_SessionType entry,
                      ''source_type'' \<mapsto> ''amazon_q_history''],
          Files = [], Commands = []\<rparr>)"

definition amazonq_parseTextHistoryEntry :: "GoLib \<Rightarrow> string \<Rightarrow> nat \<Rightarrow> SessionData option" where
  "amazonq_parseTextHistoryEntry L line lineNum =
     (if length (TrimSpace L line) = 0 then None
      else
        (let sessionID = ''amazonq-text-'' @ Itoa lineNum
         in Some \<lparr>ID = sessionID, Source = SourceAmazonQ, Timestamp = Now L,
                  Title = ''Amazon Q CLI History Entry'',
                  Messages =
                    [\<lparr>msg_ID = sessionID @ ''-user'', msg_Role = ''user'', msg_Content = line,
                      msg_Timestamp = Now L,
                      msg_Metadata = [''source_type'' \<mapsto> ''amazon_q_text'']\<rparr>],
                  Metadata =
                    [''source_type'' \<mapsto> ''amazon_q_history'', ''entry_number'' \<mapsto> Itoa lineNum],
                  Files = [], Commands = []\<rparr>))"

definition amazonq_parseJSONHistoryEntry :: "GoLib \<Rightarrow> string \<Rightarrow> nat \<Rightarrow> error + SessionData option" where
  "amazonq_parseJSONHistoryEntry L line lineNum =
     (case amazonq_Decode L False line of
        Inl err \<Rightarrow> Inl (Errorf ''failed to parse JSON: %w'' [ArgError err])
      | Inr entry \<Rightarrow> Inr (Some (amazonq_convertHistoryEntryToSession L entry lineNum)))"

definition amazonq_parseHistoryLine :: "GoLib \<Rightarrow> string \<Rightarrow> nat \<Rightarrow> error + SessionData option" where
  "amazonq_parseHistoryLine L line lineNum =
     (if HasPrefix line ''{'' then amazonq_parseJSONHistoryEntry L line lineNum
      else Inr (amazonq_parseTextHistoryEntry L line lineNum))"

text \<open>
  The Amazon Q collector reads the whole file through its file reader and splits it at
  newlines; \<^verbatim>\<open>lineNum\<close> is the index of the line in the split.
\<close>

fun amazonq_lineLoop ::
  "GoLib \<Rightarrow> ctx \<Rightarrow> string list \<Rightarrow> nat \<Rightarrow> SessionData list \<Rightarrow> log_entry list \<Rightarrow>
   (error + SessionData list) \<times> log_entry list" where
  "amazonq_lineLoop L ctx [] lineNum sessions logs = (Inr sessions, logs)"
| "amazonq_lineLoop L ctx (text # rest) lineNum sessions logs =
     (case ctx (HistoryLine lineNum) of
        Some err \<Rightarrow> (Inl err, logs)
      | None \<Rightarrow>
          (let line = TrimSpace L text
           in if line = [] then amazonq_lineLoop L ctx rest (lineNum + 1) sessions logs
              else
                (case amazonq_parseHistoryLine L line (lineNum + 1) of
                   Inl err \<Rightarrow>
                     amazonq_lineLoop L ctx rest (lineNum + 1) sessions
                       (logs @ [LogWarnf ''Failed to parse Amazon Q history line %d: %v\<newline>''
                                  [ArgInt (int (lineNum + 1)), ArgError err]])
                 | Inr session \<Rightarrow>
                     (let sessions = (case session of None \<Rightarrow> sessions | Some s \<Rightarrow> sessions @ [s])
                      in if length sessions \<ge> amazonQMaxMessagesPerFile
                         then (Inr sessions,
                               logs @ [LogWarnf ''Reached maximum messages per file limit: %d\<newline>''
                                         [ArgInt (int amazonQMaxMessagesPerFile)]])
                         else amazonq_lineLoop L ctx rest (lineNum + 1) sessions logs))))"

definition amazonq_parseHistoryFileStreaming ::
  "GoLib \<Rightarrow> FileReader \<Rightarrow> ctx \<Rightarrow> string \<Rightarrow> CollectionConfig \<Rightarrow>
   (error + SessionData list) \<times> log_entry list" where
  "amazonq_parseHistoryFileStreaming L fileReader ctx filePath collectConfig =
     (case ReadFile fileReader filePath of
        Inl err \<Rightarrow> (Inl (Errorf ''failed to read history file: %w'' [ArgError err]), [])
      | Inr content \<Rightarrow> amazonq_lineLoop L ctx (Split content newline) 0 [] [])"

section \<open>The date-range filter\<close>

text \<open>
  \<^verbatim>\<open>isWithinDateRange\<close> and \<^verbatim>\<open>filterByDateRange\<close> of the Gemini collector. The loop appends
  the retained sessions in order.
\<close>

definition gemini_isWithinDateRange :: "time \<Rightarrow> DateRange \<Rightarrow> bool" where
  "gemini_isWithinDateRange timestamp dateRange =
     (if \<not> IsZero (Start dateRange) \<and> Before timestamp (Start dateRange) then False
      else if \<not> IsZero (End dateRange) \<and> After timestamp (End dateRange) then False
      else True)"

fun gemini_filterLoop :: "DateRange \<Rightarrow> SessionData list \<Rightarrow> SessionData list \<Rightarrow> SessionData list" where
  "gemini_filterLoop dateRange filtered [] = filtered"
| "gemini_filterLoop dateRange filtered (session # rest) =
     (if gemini_isWithinDateRange (Timestamp session) dateRange
      then gemini_filterLoop dateRange (filtered @ [session]) rest
      else gemini_filterLoop dateRange filtered rest)"

definition gemini_filterByDateRange :: "SessionData list \<Rightarrow> DateRange option \<Rightarrow> SessionData list" where
  "gemini_filterByDateRange sessions dateRange =
     (case dateRange of
        None \<Rightarrow> sessions
      | Some r \<Rightarrow> gemini_filterLoop r [] sessions)"

text \<open>The same two functions of the Amazon Q collector.\<close>

definition amazonq_isWithinDateRange :: "time \<Rightarrow> DateRange \<Rightarrow> bool" where
  "amazonq_isWithinDateRange timestamp dateRange =
     (if \<not> IsZero (Start dateRange) \<and> Before timestamp (Start dateRange) then False
      else if \<not> IsZero (End dateRange) \<and> After timestamp (End dateRange) then False
      else True)"

fun amazonq_filterLoop :: "DateRange \<Rightarrow> SessionData list \<Rightarrow> SessionData list \<Rightarrow> SessionData list" where
  "amazonq_filterLoop dateRange filtered [] = filtered"
| "amazonq_filterLoop dateRange filtered (session # rest) =
     (if amazonq_isWithinDateRange (Timestamp session) dateRange
      then amazonq_filterLoop dateRange (filtered @ [session]) rest
      else amazonq_filterLoop dateRange filtered rest)"

definition amazonq_filterByDateRange :: "SessionData list \<Rightarrow> DateRange option \<Rightarrow> SessionData list" where
  "amazonq_filterByDateRange sessions dateRange =
     (case dateRange of
        None \<Rightarrow> sessions
      | Some r \<Rightarrow> amazonq_filterLoop r [] sessions)"

text \<open>
  The Claude Code collector tests the two bounds inside the loop, with \<^verbatim>\<open>continue\<close>.
\<close>

fun claude_filterLoop :: "DateRange \<Rightarrow> SessionData list \<Rightarrow> SessionData list \<Rightarrow> SessionData list" where
  "claude_filterLoop dateRange filtered [] = filtered"
| "claude_filterLoop dateRange filtered (session # rest) =
     (if \<not> IsZero (Start dateRange) \<and> Before (Timestamp session) (Start dateRange)
      then claude_filterLoop dateRange filtered rest
      else if \<not> IsZero (End dateRange) \<and> After (Timestamp session) (End dateRange)
      then claude_filterLoop dateRange filtered rest
      else claude_filterLoop dateRange (filtered @ [session]) rest)"

definition claude_filterByDateRange :: "SessionData list \<Rightarrow> DateRange option \<Rightarrow> SessionData list" where
  "claude_filterByDateRange sessions dateRange =
     (case dateRange of
        None \<Rightarrow> sessions
      | Some r \<Rightarrow> claude_filterLoop r [] sessions)"

section \<open>The Gemini collector\<close>

text \<open>
  The collector struct: its configuration and its file reader. What it sends to its logger
  is returned by each function.
\<close>

record ImprovedGeminiCLICollector =
  g_config :: CLIToolConfig
  g_fileReader :: FileReader

definition gemini_validateConfigDirectory :: "GoLib \<Rightarrow> ImprovedGeminiCLICollector \<Rightarrow> error option" where
  "gemini_validateConfigDirectory L g =
     (case ExpandPath L (ConfigDir (g_config g)) of
        Inl err \<Rightarrow> Some (Errorf ''failed to expand config directory path: %w'' [ArgError err])
      | Inr configDir \<Rightarrow>
          (case Stat (g_fileReader g) configDir of
             Inl err \<Rightarrow>
               (if IsNotExist err
                then Some (Errorf ''gemini CLI config directory does not exist: %s''
                             [ArgString configDir])
                else None)
           | Inr info \<Rightarrow> None))"

definition gemini_collectFromHistoryWithRetry ::
  "GoLib \<Rightarrow> ImprovedGeminiCLICollector \<Rightarrow> ctx \<Rightarrow> CollectionConfig \<Rightarrow>
   (error + SessionData list) \<times> log_entry list" where
  "gemini_collectFromHistoryWithRetry L g ctx collectConfig =
     (case ExpandPath L (HistoryFile (g_config g)) of
        Inl err \<Rightarrow> (Inl (Errorf ''failed to expand history file path: %w'' [ArgError err]), [])
      | Inr historyPath \<Rightarrow>
          (case Stat (g_fileReader g) historyPath of
             Inl err \<Rightarrow> (Inl (Errorf ''failed to stat history file: %w'' [ArgError err]), [])
           | Inr info \<Rightarrow>
               (if Size info > maxFileSize
                then (Inl (Errorf ''history file too large: %d bytes (max: %d)''
                             [ArgInt (Size info), ArgInt maxFileSize]), [])
                else gemini_parseHistoryFileStreaming L ctx historyPath collectConfig)))"

fun gemini_partsLoop :: "GeminiMessagePart list \<Rightarrow> string list \<Rightarrow> string list" where
  "gemini_partsLoop [] contents = contents"
| "gemini_partsLoop (part # parts) contents =
     (if gmp_Type part = ''text'' \<and> gmp_Text part \<noteq> []
      then gemini_partsLoop parts (contents @ [gmp_Text part])
      else gemini_partsLoop parts contents)"

definition gemini_extractContentFromGeminiMessage :: "GeminiMessage \<Rightarrow> string" where
  "gemini_extractContentFromGeminiMessage msg =
     (if gm_Content msg \<noteq> [] then gm_Content msg
      else JoinStrings (gemini_partsLoop (gm_Parts msg) []) [newline])"

definition gemini_convertMessage :: "GoLib \<Rightarrow> time \<Rightarrow> GeminiMessage \<Rightarrow> Message" where
  "gemini_convertMessage L sessionTimestamp geminiMsg =
     \<lparr>msg_ID = gm_ID geminiMsg, msg_Role = gm_Role geminiMsg,
      msg_Content = gemini_extractContentFromGeminiMessage geminiMsg,
      msg_Timestamp =
        (if gm_Timestamp geminiMsg \<noteq> []
         then (case ParseRFC3339 L (gm_Timestamp geminiMsg) of
                 Inr msgTime \<Rightarrow> msgTime
               | Inl err \<Rightarrow> sessionTimestamp)
         else sessionTimestamp),
      msg_Metadata = Map.empty\<rparr>"

definition gemini_convertGeminiSessionToModel :: "GoLib \<Rightarrow> GeminiSessionData \<Rightarrow> string \<Rightarrow> SessionData" where
  "gemini_convertGeminiSessionToModel L geminiSession filePath =
     (let timestamp =
            (if gsd_CreatedAt geminiSession \<noteq> []
             then (case ParseRFC3339 L (gsd_CreatedAt geminiSession) of
                     Inr parsed \<Rightarrow> parsed
                   | Inl err \<Rightarrow> Now L)
             else Now L)
      in \<lparr>ID = (if gsd_ID geminiSession = [] then ''gemini-cli-'' @ Base L filePath
                else gsd_ID geminiSession),
          Source = SourceGeminiCLI, Timestamp = timestamp, Title = gsd_Title geminiSession,
          Messages = map (gemini_convertMessage L timestamp) (gsd_Messages geminiSession),
          Metadata = [''file_path'' \<mapsto> filePath, ''model'' \<mapsto> gsd_Model geminiSession,
                      ''source_type'' \<mapsto> ''gemini_cli_session''],
          Files = [], Commands = []\<rparr>)"

definition gemini_parseTextSession :: "GoLib \<Rightarrow> string \<Rightarrow> string \<Rightarrow> SessionData" where
  "gemini_parseTextSession L content path =
     (let fileName = Base L path;
          sessionID = ''gemini-cli-text-'' @ TrimSuffix fileName (Ext L fileName)
      in \<lparr>ID = sessionID, Source = SourceGeminiCLI, Timestamp = Now L,
          Title = ''Gemini CLI Session: '' @ fileName,
          Messages =
            [\<lparr>msg_ID = sessionID @ ''-content'', msg_Role = ''user'', msg_Content = content,
              msg_Timestamp = Now L,
              msg_Metadata = [''source_type'' \<mapsto> ''gemini_cli_text'']\<rparr>],
          Metadata = [''file_path'' \<mapsto> path, ''source_type'' \<mapsto> ''gemini_cli_text''],
          Files = [], Commands = []\<rparr>)"

definition gemini_parseSessionFileSafe ::
  "GoLib \<Rightarrow> ImprovedGeminiCLICollector \<Rightarrow> string \<Rightarrow> CollectionConfig \<Rightarrow> error + SessionData option" where
  "gemini_parseSessionFileSafe L g path collectConfig =
     (case Stat (g_fileReader g) path of
        Inl err \<Rightarrow> Inl (Errorf ''failed to stat file: %w'' [ArgError err])
      | Inr info \<Rightarrow>
          (if Size info > maxFileSize
           then Inl (Errorf ''file too large: %d bytes'' [ArgInt (Size info)])
           else
             (case ReadFile (g_fileReader g) path of
                Inl err \<Rightarrow> Inl (Errorf ''failed to read file: %w'' [ArgError err])
              | Inr data \<Rightarrow>
                  (case UnmarshalGeminiSession L data of
                     Inl err \<Rightarrow> Inr (Some (gemini_parseTextSession L data path))
                   | Inr sessionData \<Rightarrow>
                       Inr (Some (gemini_convertGeminiSessionToModel L sessionData path))))))"

text \<open>
  The callback of the directory walk, folded over the entries the walk visits: an entry
  with an error ends the walk with that error, and the paths found so far are lost.
\<close>

fun gemini_walk :: "WalkItem list \<Rightarrow> string list \<Rightarrow> error + string list" where
  "gemini_walk [] filePaths = Inr filePaths"
| "gemini_walk (item # items) filePaths =
     (case walk_err item of
        Some err \<Rightarrow> Inl err
      | None \<Rightarrow>
          (if walk_isDir item \<or> \<not> HasSuffix (walk_path item) ''.json''
           then gemini_walk items filePaths
           else gemini_walk items (filePaths @ [walk_path item])))"

fun gemini_min :: "nat list \<Rightarrow> nat" where
  "gemini_min [] = 0"
| "gemini_min (first # others) = fold (\<lambda>v result. if v < result then v else result) others first"

text \<open>
  The worker pool, the feeder and the collecting \<^verbatim>\<open>select\<close> loop run concurrently; the model
  follows one schedule of them. The results arrive in the order of the file list, and before
  each receive, and before the loop sees both channels closed, the context is polled: a
  done context makes the loop return the context's error and drop what it has received.
  The arguments after the context are the files still to come, the number of receives so
  far, \<^verbatim>\<open>sessions\<close> and \<^verbatim>\<open>errors\<close>.
\<close>

fun gemini_selectLoop ::
  "GoLib \<Rightarrow> ImprovedGeminiCLICollector \<Rightarrow> ctx \<Rightarrow> CollectionConfig \<Rightarrow> string list \<Rightarrow> nat \<Rightarrow>
   SessionData list \<Rightarrow> error list \<Rightarrow> error + SessionData list \<times> error list" where
  "gemini_selectLoop L g ctx collectConfig [] i sessions errors =
     (case ctx (SessionResult i) of
        Some err \<Rightarrow> Inl err
      | None \<Rightarrow> Inr (sessions, errors))"
| "gemini_selectLoop L g ctx collectConfig (filePath # rest) i sessions errors =
     (case ctx (SessionResult i) of
        Some err \<Rightarrow> Inl err
      | None \<Rightarrow>
          (case gemini_parseSessionFileSafe L g filePath collectConfig of
             Inl err \<Rightarrow>
               gemini_selectLoop L g ctx collectConfig rest (i + 1) sessions
                 (errors @ [Errorf ''failed to parse session file %s: %w''
                              [ArgString filePath, ArgError err]])
           | Inr None \<Rightarrow> gemini_selectLoop L g ctx collectConfig rest (i + 1) sessions errors
           | Inr (Some session) \<Rightarrow>
               gemini_selectLoop L g ctx collectConfig rest (i + 1) (sessions @ [session]) errors))"

definition gemini_collectFromSessionDirConcurrent ::
  "GoLib \<Rightarrow> ImprovedGeminiCLICollector \<Rightarrow> ctx \<Rightarrow> CollectionConfig \<Rightarrow>
   (error + SessionData list) \<times> log_entry list" where
  "gemini_collectFromSessionDirConcurrent L g ctx collectConfig =
     (case ExpandPath L (SessionDir (g_config g)) of
        Inl err \<Rightarrow> (Inl (Errorf ''failed to expand session directory path: %w'' [ArgError err]), [])
      | Inr sessionDirPath \<Rightarrow>
          (case gemini_walk (WalkDir (g_fileReader g) sessionDirPath) [] of
             Inl err \<Rightarrow> (Inl (Errorf ''failed to walk session directory: %w'' [ArgError err]), [])
           | Inr filePaths \<Rightarrow>
               (if gemini_min [maxWorkers, length filePaths, NumCPU L] = 0 then (Inr [], [])
                else
                  (case gemini_selectLoop L g ctx collectConfig filePaths 0 [] [] of
                     Inl err \<Rightarrow> (Inl err, [])
                   | Inr (sessions, errors) \<Rightarrow>
                       (Inr sessions,
                        map (\<lambda>err. LogWarnf ''Session file processing error: %v'' [ArgError err])
                          errors)))))"

text \<open>
  The result of a call of \<^verbatim>\<open>Collect\<close>: the two values it returns, or a run-time panic. The
  nil slice and the empty slice are both the empty list.
\<close>

datatype collect_result =
    Returned "SessionData list" "error option"
  | Panicked string

text \<open>
  \<^verbatim>\<open>Collect\<close>. The request pointer is an option, \<open>None\<close> for nil. The two goroutines are run
  one after the other, the history file first; each appends its sessions to
  \<^verbatim>\<open>allSessions\<close> or its wrapped error to \<^verbatim>\<open>errs\<close>.
\<close>

definition gemini_Collect ::
  "GoLib \<Rightarrow> ImprovedGeminiCLICollector \<Rightarrow> ctx \<Rightarrow> CollectionConfig option \<Rightarrow>
   collect_result \<times> log_entry list" where
  "gemini_Collect L g ctx collectConfig =
     (case collectConfig of
        None \<Rightarrow> (Returned [] (Some (Errorf ''collection config is nil'' [])), [])
      | Some cc \<Rightarrow>
          (case gemini_validateConfigDirectory L g of
             Some err \<Rightarrow>
               (Returned [] (Some (Errorf ''config directory validation failed: %w'' [ArgError err])),
                [])
           | None \<Rightarrow>
               (let (historySessions, historyErrs, historyLogs) =
                      (if HistoryFile (g_config g) \<noteq> []
                       then (case gemini_collectFromHistoryWithRetry L g ctx cc of
                               (Inl err, logs) \<Rightarrow>
                                 ([], [Errorf ''history collection failed: %w'' [ArgError err]], logs)
                             | (Inr sessions, logs) \<Rightarrow> (sessions, [], logs))
                       else ([], [], []));
                    (dirSessions, dirErrs, dirLogs) =
                      (if SessionDir (g_config g) \<noteq> []
                       then (case gemini_collectFromSessionDirConcurrent L g ctx cc of
                               (Inl err, logs) \<Rightarrow>
                                 ([], [Errorf ''session directory collection failed: %w''
                                         [ArgError err]], logs)
                             | (Inr sessions, logs) \<Rightarrow> (sessions, [], logs))
                       else ([], [], []));
                    allSessions = historySessions @ dirSessions;
                    errs = historyErrs @ dirErrs;
                    warnings = map (\<lambda>err. LogWarnf ''Collection warning: %v\<newline>'' [ArgError err]) errs;
                    allSessions =
                      (if DateRange cc \<noteq> None
                       then gemini_filterByDateRange allSessions (DateRange cc)
                       else allSessions)
                in (Returned allSessions None, historyLogs @ dirLogs @ warnings))))"

section \<open>The Amazon Q collector\<close>

record AmazonQCollector =
  a_config :: CLIToolConfig
  a_fileReader :: FileReader

definition amazonq_validateConfigDirectory :: "GoLib \<Rightarrow> AmazonQCollector \<Rightarrow> error option" where
  "amazonq_validateConfigDirectory L a =
     (case ExpandPath L (ConfigDir (a_config a)) of
        Inl err \<Rightarrow> Some (Errorf ''failed to expand config directory path: %w'' [ArgError err])
      | Inr configDir \<Rightarrow>
          (case Stat (a_fileReader a) configDir of
             Inl err \<Rightarrow>
               (if IsNotExist err
                then Some (Errorf ''Amazon Q CLI config directory does not exist: %s''
                             [ArgString configDir])
                else None)
           | Inr info \<Rightarrow> None))"

definition amazonq_collectFromHistoryWithRetry ::
  "GoLib \<Rightarrow> AmazonQCollector \<Rightarrow> ctx \<Rightarrow> CollectionConfig \<Rightarrow>
   (error + SessionData list) \<times> log_entry list" where
  "amazonq_collectFromHistoryWithRetry L a ctx collectConfig =
     (case ExpandPath L (HistoryFile (a_config a)) of
        Inl err \<Rightarrow> (Inl (Errorf ''failed to expand history file path: %w'' [ArgError err]), [])
      | Inr historyPath \<Rightarrow>
          (case Stat (a_fileReader a) historyPath of
             Inl err \<Rightarrow>
               (if IsNotExist err
                then (Inr [],
                      [LogWarnf ''Amazon Q CLI history file not found: %s\<newline>'' [ArgString historyPath]])
                else (Inl (Errorf ''failed to stat history file: %w'' [ArgError err]), []))
           | Inr info \<Rightarrow>
               (if Size info > amazonQMaxFileSize
                then (Inl (Errorf ''history file too large: %d bytes (max: %d)''
                             [ArgInt (Size info), ArgInt amazonQMaxFileSize]), [])
                else amazonq_parseHistoryFileStreaming L (a_fileReader a) ctx historyPath
                       collectConfig)))"

definition amazonq_convertMessage :: "GoLib \<Rightarrow> time \<Rightarrow> AmazonQMessage \<Rightarrow> Message" where
  "amazonq_convertMessage L sessionTimestamp amazonQMsg =
     \<lparr>msg_ID = aqm_ID amazonQMsg, msg_Role = aqm_Role amazonQMsg,
      msg_Content = aqm_Content amazonQMsg,
      msg_Timestamp =
        (if aqm_Timestamp amazonQMsg \<noteq> []
         then (case ParseRFC3339 L (aqm_Timestamp amazonQMsg) of
                 Inr msgTime \<Rightarrow> msgTime
               | Inl err \<Rightarrow> sessionTimestamp)
         else sessionTimestamp),
      msg_Metadata = [''service'' \<mapsto> aqm_Service amazonQMsg,
                      ''message_type'' \<mapsto> aqm_MessageType amazonQMsg]\<rparr>"

definition amazonq_convertAmazonQSessionToModel ::
  "GoLib \<Rightarrow> AmazonQSessionData \<Rightarrow> string \<Rightarrow> SessionData" where
  "amazonq_convertAmazonQSessionToModel L amazonQSession filePath =
     (let timestamp =
            (if aqd_CreatedAt amazonQSession \<noteq> []
             then (case ParseRFC3339 L (aqd_CreatedAt amazonQSession) of
                     Inr parsed \<Rightarrow> parsed
                   | Inl err \<Rightarrow> Now L)
             else Now L)
      in \<lparr>ID = (if aqd_ID amazonQSession = [] then ''amazonq-'' @ Base L filePath
                else aqd_ID amazonQSession),
          Source = SourceAmazonQ, Timestamp = timestamp, Title = aqd_Title amazonQSession,
          Messages = map (amazonq_convertMessage L timestamp) (aqd_Messages amazonQSession),
          Metadata = [''file_path'' \<mapsto> filePath, ''service'' \<mapsto> aqd_Service amazonQSession,
                      ''region'' \<mapsto> aqd_Region amazonQSession,
                      ''user_id'' \<mapsto> aqd_UserID amazonQSession,
                      ''conversation_id'' \<mapsto> aqd_ConversationID amazonQSession,
                      ''source_type'' \<mapsto> ''amazon_q_session''],
          Files = [], Commands = []\<rparr>)"

definition amazonq_parseTextSession :: "GoLib \<Rightarrow> string \<Rightarrow> string \<Rightarrow> SessionData" where
  "amazonq_parseTextSession L content path =
     (let fileName = Base L path;
          sessionID = ''amazonq-text-'' @ TrimSuffix fileName (Ext L fileName)
      in \<lparr>ID = sessionID, Source = SourceAmazonQ, Timestamp = Now L,
          Title = ''Amazon Q CLI Session: '' @ fileName,
          Messages =
            [\<lparr>msg_ID = sessionID @ ''-content'', msg_Role = ''user'', msg_Content = content,
              msg_Timestamp = Now L,
              msg_Metadata = [''source_type'' \<mapsto> ''amazon_q_text'']\<rparr>],
          Metadata = [''file_path'' \<mapsto> path, ''source_type'' \<mapsto> ''amazon_q_text''],
          Files = [], Commands = []\<rparr>)"

definition amazonq_parseSessionFileSafe ::
  "GoLib \<Rightarrow> AmazonQCollector \<Rightarrow> string \<Rightarrow> CollectionConfig \<Rightarrow> error + SessionData option" where
  "amazonq_parseSessionFileSafe L a path collectConfig =
     (case Stat (a_fileReader a) path of
        Inl err \<Rightarrow> Inl (Errorf ''failed to stat file: %w'' [ArgError err])
      | Inr info \<Rightarrow>
          (if Size info > amazonQMaxFileSize
           then Inl (Errorf ''file too large: %d bytes'' [ArgInt (Size info)])
           else
             (case ReadFile (a_fileReader a) path of
                Inl err \<Rightarrow> Inl (Errorf ''failed to read file: %w'' [ArgError err])
              | Inr data \<Rightarrow>
                  (case UnmarshalAmazonQSession L data of
                     Inl err \<Rightarrow> Inr (Some (amazonq_parseTextSession L data path))
                   | Inr sessionData \<Rightarrow>
                       Inr (Some (amazonq_convertAmazonQSessionToModel L sessionData path))))))"

definition amazonQPatterns :: "string list" where
  "amazonQPatterns = [''.json'', ''.log'', ''.session'', ''amazonq'', ''aws-q'', ''q-cli'']"

fun amazonq_patternLoop :: "GoLib \<Rightarrow> string \<Rightarrow> string \<Rightarrow> string list \<Rightarrow> bool" where
  "amazonq_patternLoop L fileName fileExt [] = False"
| "amazonq_patternLoop L fileName fileExt (pattern # patterns) =
     (if Contains (ToLower L fileName) pattern \<or> ToLower L fileExt = pattern then True
      else amazonq_patternLoop L fileName fileExt patterns)"

definition amazonq_isAmazonQFile :: "GoLib \<Rightarrow> string \<Rightarrow> bool" where
  "amazonq_isAmazonQFile L filePath =
     (let fileName = Base L filePath; fileExt = Ext L fileName
      in amazonq_patternLoop L fileName fileExt amazonQPatterns)"

fun amazonq_walk :: "GoLib \<Rightarrow> WalkItem list \<Rightarrow> string list \<Rightarrow> error + string list" where
  "amazonq_walk L [] filePaths = Inr filePaths"
| "amazonq_walk L (item # items) filePaths =
     (case walk_err item of
        Some err \<Rightarrow> Inl err
      | None \<Rightarrow>
          (if walk_isDir item then amazonq_walk L items filePaths
           else if amazonq_isAmazonQFile L (walk_path item)
           then amazonq_walk L items (filePaths @ [walk_path item])
           else amazonq_walk L items filePaths))"

fun minInts :: "nat list \<Rightarrow> nat" where
  "minInts [] = 0"
| "minInts (first # others) = fold (\<lambda>v result. if v < result then v else result) others first"

text \<open>The collecting loop, on the same schedule as the Gemini collector's.\<close>

fun amazonq_selectLoop ::
  "GoLib \<Rightarrow> AmazonQCollector \<Rightarrow> ctx \<Rightarrow> CollectionConfig \<Rightarrow> string list \<Rightarrow> nat \<Rightarrow>
   SessionData list \<Rightarrow> error list \<Rightarrow> error + SessionData list \<times> error list" where
  "amazonq_selectLoop L a ctx collectConfig [] i sessions errors =
     (case ctx (SessionResult i) of
        Some err \<Rightarrow> Inl err
      | None \<Rightarrow> Inr (sessions, errors))"
| "amazonq_selectLoop L a ctx collectConfig (filePath # rest) i sessions errors =
     (case ctx (SessionResult i) of
        Some err \<Rightarrow> Inl err
      | None \<Rightarrow>
          (case amazonq_parseSessionFileSafe L a filePath collectConfig of
             Inl err \<Rightarrow>
               amazonq_selectLoop L a ctx collectConfig rest (i + 1) sessions
                 (errors @ [Errorf ''failed to parse Amazon Q session file %s: %w''
                              [ArgString filePath, ArgError err]])
           | Inr None \<Rightarrow> amazonq_selectLoop L a ctx collectConfig rest (i + 1) sessions errors
           | Inr (Some session) \<Rightarrow>
               amazonq_selectLoop L a ctx collectConfig rest (i + 1) (sessions @ [session]) errors))"

definition amazonq_collectFromSessionDirConcurrent ::
  "GoLib \<Rightarrow> AmazonQCollector \<Rightarrow> ctx \<Rightarrow> CollectionConfig \<Rightarrow>
   (error + SessionData list) \<times> log_entry list" where
  "amazonq_collectFromSessionDirConcurrent L a ctx collectConfig =
     (case ExpandPath L (SessionDir (a_config a)) of
        Inl err \<Rightarrow> (Inl (Errorf ''failed to expand session directory path: %w'' [ArgError err]), [])
      | Inr sessionDirPath \<Rightarrow>
          (if (case Stat (a_fileReader a) sessionDirPath of
                 Inl err \<Rightarrow> IsNotExist err
               | Inr info \<Rightarrow> False)
           then (Inr [],
                 [LogWarnf ''Amazon Q CLI session directory not found: %s\<newline>''
                    [ArgString sessionDirPath]])
           else
             (case amazonq_walk L (WalkDir (a_fileReader a) sessionDirPath) [] of
                Inl err \<Rightarrow> (Inl (Errorf ''failed to walk session directory: %w'' [ArgError err]), [])
              | Inr filePaths \<Rightarrow>
                  (if minInts [amazonQMaxWorkers, length filePaths, NumCPU L] = 0 then (Inr [], [])
                   else
                     (case amazonq_selectLoop L a ctx collectConfig filePaths 0 [] [] of
                        Inl err \<Rightarrow> (Inl err, [])
                      | Inr (sessions, errors) \<Rightarrow>
                          (Inr sessions,
                           map (\<lambda>err. LogWarnf ''Amazon Q session file processing error: %v\<newline>''
                                        [ArgError err])
                             errors))))))"

definition awsPaths :: "string list" where
  "awsPaths =
     [''~/.aws/config'', ''~/.aws/credentials'', ''~/.amazon-q/config'', ''~/.amazon-q/session.json'']"

definition amazonq_awsSession :: "GoLib \<Rightarrow> string \<Rightarrow> string \<Rightarrow> SessionData" where
  "amazonq_awsSession L expandedPath data =
     \<lparr>ID = ''amazonq-aws-config-'' @ Base L expandedPath, Source = SourceAmazonQ,
      Timestamp = Now L, Title = ''AWS Configuration: '' @ Base L expandedPath,
      Messages =
        [\<lparr>msg_ID = ''aws-config-'' @ Base L expandedPath, msg_Role = ''system'',
          msg_Content = data, msg_Timestamp = Now L,
          msg_Metadata = [''source_type'' \<mapsto> ''aws_config'', ''config_file'' \<mapsto> expandedPath]\<rparr>],
      Metadata = [''source_type'' \<mapsto> ''aws_config'', ''config_path'' \<mapsto> expandedPath],
      Files = [], Commands = []\<rparr>"

fun amazonq_awsLoop ::
  "GoLib \<Rightarrow> AmazonQCollector \<Rightarrow> ctx \<Rightarrow> string list \<Rightarrow> nat \<Rightarrow> SessionData list \<Rightarrow>
   error + SessionData list" where
  "amazonq_awsLoop L a ctx [] i sessions = Inr sessions"
| "amazonq_awsLoop L a ctx (awsPath # rest) i sessions =
     (case ctx (AWSPath i) of
        Some err \<Rightarrow> Inl err
      | None \<Rightarrow>
          (case ExpandPath L awsPath of
             Inl err \<Rightarrow> amazonq_awsLoop L a ctx rest (i + 1) sessions
           | Inr expandedPath \<Rightarrow>
               (if (case Stat (a_fileReader a) expandedPath of
                      Inl err \<Rightarrow> IsNotExist err
                    | Inr info \<Rightarrow> False)
                then amazonq_awsLoop L a ctx rest (i + 1) sessions
                else
                  (case ReadFile (a_fileReader a) expandedPath of
                     Inl err \<Rightarrow> amazonq_awsLoop L a ctx rest (i + 1) sessions
                   | Inr data \<Rightarrow>
                       amazonq_awsLoop L a ctx rest (i + 1)
                         (sessions @ [amazonq_awsSession L expandedPath data])))))"

definition amazonq_collectFromAWSConfig ::
  "GoLib \<Rightarrow> AmazonQCollector \<Rightarrow> ctx \<Rightarrow> CollectionConfig \<Rightarrow> error + SessionData list" where
  "amazonq_collectFromAWSConfig L a ctx collectConfig = amazonq_awsLoop L a ctx awsPaths 0 []"

text \<open>The Fallback Generator.\<close>

definition amazonq_generateDummyData :: "GoLib \<Rightarrow> SessionData list" where
  "amazonq_generateDummyData L =
     (let now = Now L
      in [\<lparr>ID = ''amazonq-dummy-1'', Source = SourceAmazonQ, Timestamp = Add now (- 24 * Hour),
         Title = ''AWS EC2 Instance Management'',
         Messages =
           [\<lparr>msg_ID = ''amazonq-dummy-1-user'', msg_Role = ''user'',
             msg_Content = ''How do I create an EC2 instance with auto-scaling?'',
             msg_Timestamp = Add now (- 24 * Hour),
             msg_Metadata = [''service'' \<mapsto> ''ec2'', ''region'' \<mapsto> ''us-west-2'']\<rparr>,
            \<lparr>msg_ID = ''amazonq-dummy-1-assistant'', msg_Role = ''assistant'',
             msg_Content = ''To create an EC2 instance with auto-scaling, you need to: 1) Create a launch template 2) Create an auto-scaling group 3) Configure scaling policies...'',
             msg_Timestamp = Add now (- 24 * Hour + Minute),
             msg_Metadata = [''service'' \<mapsto> ''ec2'', ''region'' \<mapsto> ''us-west-2'']\<rparr>],
         Metadata = [''service'' \<mapsto> ''ec2'', ''region'' \<mapsto> ''us-west-2'',
                     ''source_type'' \<mapsto> ''amazon_q_dummy'', ''user_id'' \<mapsto> ''demo-user''],
         Files = [], Commands = []\<rparr>,
          \<lparr>ID = ''amazonq-dummy-2'', Source = SourceAmazonQ, Timestamp = Add now (- 12 * Hour),
         Title = ''S3 Bucket Security Configuration'',
         Messages =
           [\<lparr>msg_ID = ''amazonq-dummy-2-user'', msg_Role = ''user'',
             msg_Content = ''What are the best practices for securing S3 buckets?'',
             msg_Timestamp = Add now (- 12 * Hour),
             msg_Metadata = [''service'' \<mapsto> ''s3'', ''region'' \<mapsto> ''us-east-1'']\<rparr>,
            \<lparr>msg_ID = ''amazonq-dummy-2-assistant'', msg_Role = ''assistant'',
             msg_Content = ''Here are the key S3 security best practices: 1) Enable versioning 2) Configure bucket policies 3) Use IAM roles 4) Enable access logging...'',
             msg_Timestamp = Add now (- 12 * Hour + Minute),
             msg_Metadata = [''service'' \<mapsto> ''s3'', ''region'' \<mapsto> ''us-east-1'']\<rparr>],
         Metadata = [''service'' \<mapsto> ''s3'', ''region'' \<mapsto> ''us-east-1'',
                     ''source_type'' \<mapsto> ''amazon_q_dummy'', ''user_id'' \<mapsto> ''demo-user''],
         Files = [], Commands = []\<rparr>,
          \<lparr>ID = ''amazonq-dummy-3'', Source = SourceAmazonQ, Timestamp = Add now (- 6 * Hour),
         Title = ''Lambda Function Optimization'',
         Messages =
           [\<lparr>msg_ID = ''amazonq-dummy-3-user'', msg_Role = ''user'',
             msg_Content = ''How can I optimize my Lambda function for better performance?'',
             msg_Timestamp = Add now (- 6 * Hour),
             msg_Metadata = [''service'' \<mapsto> ''lambda'', ''region'' \<mapsto> ''eu-west-1'']\<rparr>,
            \<lparr>msg_ID = ''amazonq-dummy-3-assistant'', msg_Role = ''assistant'',
             msg_Content = ''To optimize Lambda performance: 1) Right-size memory allocation 2) Minimize cold starts 3) Use connection pooling 4) Optimize code and dependencies...'',
             msg_Timestamp = Add now (- 6 * Hour + Minute),
             msg_Metadata = [''service'' \<mapsto> ''lambda'', ''region'' \<mapsto> ''eu-west-1'']\<rparr>],
         Metadata = [''service'' \<mapsto> ''lambda'', ''region'' \<mapsto> ''eu-west-1'',
                     ''source_type'' \<mapsto> ''amazon_q_dummy'', ''user_id'' \<mapsto> ''demo-user''],
         Files = [], Commands = []\<rparr>])"

text \<open>
  \<^verbatim>\<open>Collect\<close>. The three goroutines are run one after the other: the history file, the
  session directory, the AWS configuration files.
\<close>

definition amazonq_Collect ::
  "GoLib \<Rightarrow> AmazonQCollector \<Rightarrow> ctx \<Rightarrow> CollectionConfig option \<Rightarrow>
   collect_result \<times> log_entry list" where
  "amazonq_Collect L a ctx collectConfig =
     (case collectConfig of
        None \<Rightarrow> (Returned [] (Some (Errorf ''collection config is nil'' [])), [])
      | Some cc \<Rightarrow>
          (case amazonq_validateConfigDirectory L a of
             Some err \<Rightarrow>
               (Returned (amazonq_generateDummyData L) None,
                [LogWarnf ''Amazon Q CLI not found, returning dummy data: %v\<newline>'' [ArgError err]])
           | None \<Rightarrow>
               (let (historySessions, historyErrs, historyLogs) =
                      (if HistoryFile (a_config a) \<noteq> []
                       then (case amazonq_collectFromHistoryWithRetry L a ctx cc of
                               (Inl err, logs) \<Rightarrow>
                                 ([], [Errorf ''Amazon Q history collection failed: %w''
                                         [ArgError err]], logs)
                             | (Inr sessions, logs) \<Rightarrow> (sessions, [], logs))
                       else ([], [], []));
                    (dirSessions, dirErrs, dirLogs) =
                      (if SessionDir (a_config a) \<noteq> []
                       then (case amazonq_collectFromSessionDirConcurrent L a ctx cc of
                               (Inl err, logs) \<Rightarrow>
                                 ([], [Errorf ''Amazon Q session directory collection failed: %w''
                                         [ArgError err]], logs)
                             | (Inr sessions, logs) \<Rightarrow> (sessions, [], logs))
                       else ([], [], []));
                    (awsSessions, awsErrs) =
                      (case amazonq_collectFromAWSConfig L a ctx cc of
                         Inl err \<Rightarrow> ([], [Errorf ''AWS config collection failed: %w'' [ArgError err]])
                       | Inr sessions \<Rightarrow> (sessions, []));
                    allSessions = historySessions @ dirSessions @ awsSessions;
                    errs = historyErrs @ dirErrs @ awsErrs;
                    warnings = map (\<lambda>err. LogWarnf ''Collection warning: %v\<newline>'' [ArgError err]) errs;
                    (allSessions, dummyLogs) =
                      (if length allSessions = 0
                       then (amazonq_generateDummyData L,
                             [LogPrintf ''No Amazon Q CLI data found, generating dummy data\<newline>'' []])
                       else (allSessions, []));
                    allSessions =
                      (if DateRange cc \<noteq> None
                       then amazonq_filterByDateRange allSessions (DateRange cc)
                       else allSessions)
                in (Returned allSessions None, historyLogs @ dirLogs @ warnings @ dummyLogs))))"

section \<open>The Claude Code collector\<close>

text \<open>
  The Claude Code collector decodes files into \<^verbatim>\<open>map[string]interface{}\<close> and reads the map
  with type assertions. An object decoded into a Go map keeps the last value of a repeated
  key. It calls \<^verbatim>\<open>os.Stat\<close>, \<^verbatim>\<open>os.ReadFile\<close> and \<^verbatim>\<open>filepath.Walk\<close> directly, and prints its
  warnings on standard output.
\<close>

record ClaudeCodeCollector =
  c_config :: CLIToolConfig

definition objectMap :: "(string \<times> json) list \<Rightarrow> (string \<rightharpoonup> json)" where
  "objectMap members = map_of (rev members)"

definition UnixNano :: "time \<Rightarrow> int" where
  "UnixNano t = t - 62135596800 * 1000000000"

definition asString :: "json option \<Rightarrow> string option" where
  "asString v = (case v of Some (JString str) \<Rightarrow> Some str | _ \<Rightarrow> None)"

definition claude_parseMessage :: "GoLib \<Rightarrow> (string \<rightharpoonup> json) \<Rightarrow> nat \<Rightarrow> Message" where
  "claude_parseMessage L msgMap index =
     (let timestamp =
            (case asString (msgMap ''timestamp'') of
               Some str \<Rightarrow> (case ParseRFC3339 L str of Inr t \<Rightarrow> t | Inl err \<Rightarrow> 0)
             | None \<Rightarrow> 0)
      in \<lparr>msg_ID = (case asString (msgMap ''id'') of
                      Some ident \<Rightarrow> ident
                    | None \<Rightarrow> ''msg-'' @ Itoa (index + 1)),
          msg_Role = (case asString (msgMap ''role'') of
                        Some role \<Rightarrow> role
                      | None \<Rightarrow>
                          (case asString (msgMap ''sender'') of
                             Some sender \<Rightarrow> sender
                           | None \<Rightarrow> ''unknown'')),
          msg_Content = (case asString (msgMap ''content'') of
                           Some content \<Rightarrow> content
                         | None \<Rightarrow>
                             (case asString (msgMap ''text'') of
                                Some txt \<Rightarrow> txt
                              | None \<Rightarrow>
                                  (case asString (msgMap ''body'') of
                                     Some body \<Rightarrow> body
                                   | None \<Rightarrow> []))),
          msg_Timestamp = (if IsZero timestamp then Now L else timestamp),
          msg_Metadata = Map.empty\<rparr>)"

fun claude_messagesLoop :: "GoLib \<Rightarrow> json list \<Rightarrow> nat \<Rightarrow> Message list \<Rightarrow> Message list" where
  "claude_messagesLoop L [] i messages = messages"
| "claude_messagesLoop L (msgInterface # rest) i messages =
     (case msgInterface of
        JObject members \<Rightarrow>
          claude_messagesLoop L rest (i + 1)
            (messages @ [claude_parseMessage L (objectMap members) i])
      | _ \<Rightarrow> claude_messagesLoop L rest (i + 1) messages)"

definition claude_parseSessionMap :: "GoLib \<Rightarrow> (string \<rightharpoonup> json) \<Rightarrow> SessionData" where
  "claude_parseSessionMap L sessionMap =
     (let timestamp =
            (case asString (sessionMap ''timestamp'') of
               Some str \<Rightarrow> (case ParseRFC3339 L str of Inr t \<Rightarrow> t | Inl err \<Rightarrow> 0)
             | None \<Rightarrow>
                 (case asString (sessionMap ''created_at'') of
                    Some createdAt \<Rightarrow>
                      (case ParseRFC3339 L createdAt of Inr t \<Rightarrow> t | Inl err \<Rightarrow> 0)
                  | None \<Rightarrow> 0))
      in \<lparr>ID = (case asString (sessionMap ''id'') of
                  Some ident \<Rightarrow> ident
                | None \<Rightarrow> ''claude-session-'' @ FormatInt (UnixNano (Now L))),
          Source = SourceClaudeCode,
          Timestamp = (if IsZero timestamp then Now L else timestamp),
          Title = (case asString (sessionMap ''title'') of
                     Some title \<Rightarrow> title
                   | None \<Rightarrow>
                       (case asString (sessionMap ''name'') of
                          Some name \<Rightarrow> name
                        | None \<Rightarrow> [])),
          Messages = (case sessionMap ''messages'' of
                        Some (JArray messages) \<Rightarrow> claude_messagesLoop L messages 0 []
                      | _ \<Rightarrow> []),
          Metadata = (case sessionMap ''metadata'' of
                        Some (JObject members) \<Rightarrow>
                          (\<lambda>k. case objectMap members k of
                                 None \<Rightarrow> None
                               | Some (JString str) \<Rightarrow> Some str
                               | Some v \<Rightarrow> Some (FormatValue L v))
                      | _ \<Rightarrow> Map.empty),
          Files = [], Commands = []\<rparr>)"

fun claude_itemsLoop :: "GoLib \<Rightarrow> json list \<Rightarrow> SessionData list \<Rightarrow> SessionData list" where
  "claude_itemsLoop L [] sessions = sessions"
| "claude_itemsLoop L (item # rest) sessions =
     (case item of
        JObject members \<Rightarrow>
          claude_itemsLoop L rest (sessions @ [claude_parseSessionMap L (objectMap members)])
      | _ \<Rightarrow> claude_itemsLoop L rest sessions)"

fun claude_keysLoop ::
  "GoLib \<Rightarrow> (string \<rightharpoonup> json) \<Rightarrow> string list \<Rightarrow> SessionData list \<Rightarrow> SessionData list" where
  "claude_keysLoop L historyData [] sessions = sessions"
| "claude_keysLoop L historyData (key # keys) sessions =
     (case historyData key of
        Some (JArray items) \<Rightarrow>
          claude_keysLoop L historyData keys (claude_itemsLoop L items sessions)
      | _ \<Rightarrow> claude_keysLoop L historyData keys sessions)"

definition claude_parseHistoryData :: "GoLib \<Rightarrow> (string \<rightharpoonup> json) \<Rightarrow> SessionData list" where
  "claude_parseHistoryData L historyData =
     (let sessions =
            (case historyData ''sessions'' of
               Some (JArray sessionsData) \<Rightarrow> claude_itemsLoop L sessionsData []
             | _ \<Rightarrow> [])
      in claude_keysLoop L historyData [''conversations'', ''chats'', ''history'', ''data''] sessions)"

definition claude_parseTextSession :: "GoLib \<Rightarrow> string \<Rightarrow> string \<Rightarrow> error + SessionData option" where
  "claude_parseTextSession L filePath content =
     (let timestamp = (case Stat (OS L) filePath of
                         Inr info \<Rightarrow> ModTime info
                       | Inl err \<Rightarrow> Now L)
      in Inr (Some \<lparr>ID = ''claude-text-session-'' @ FormatInt (UnixNano (Now L)),
                    Source = SourceClaudeCode, Timestamp = timestamp, Title = Base L filePath,
                    Messages =
                      [\<lparr>msg_ID = ''msg-1'', msg_Role = ''content'', msg_Content = content,
                        msg_Timestamp = timestamp, msg_Metadata = Map.empty\<rparr>],
                    Metadata = [''file_path'' \<mapsto> filePath, ''file_type'' \<mapsto> ''text''],
                    Files = [], Commands = []\<rparr>))"

definition claude_parseSessionFile :: "GoLib \<Rightarrow> string \<Rightarrow> error + SessionData option" where
  "claude_parseSessionFile L filePath =
     (case ReadFile (OS L) filePath of
        Inl err \<Rightarrow> Inl (Errorf ''failed to read file: %w'' [ArgError err])
      | Inr data \<Rightarrow>
          (case UnmarshalObject L data of
             Inl err \<Rightarrow> claude_parseTextSession L filePath data
           | Inr sessionData \<Rightarrow> Inr (Some (claude_parseSessionMap L sessionData))))"

fun claude_matchLoop :: "GoLib \<Rightarrow> string \<Rightarrow> string list \<Rightarrow> bool" where
  "claude_matchLoop L fileName [] = False"
| "claude_matchLoop L fileName (pattern # patterns) =
     (if Match L pattern fileName then True else claude_matchLoop L fileName patterns)"

definition claude_matchesIncludePattern :: "GoLib \<Rightarrow> ClaudeCodeCollector \<Rightarrow> string \<Rightarrow> bool" where
  "claude_matchesIncludePattern L c filePath =
     (if length (IncludePatterns (c_config c)) = 0 then True
      else claude_matchLoop L (Base L filePath) (IncludePatterns (c_config c)))"

definition claude_matchesExcludePattern :: "GoLib \<Rightarrow> ClaudeCodeCollector \<Rightarrow> string \<Rightarrow> bool" where
  "claude_matchesExcludePattern L c filePath =
     (if length (ExcludePatterns (c_config c)) = 0 then False
      else claude_matchLoop L (Base L filePath) (ExcludePatterns (c_config c)))"

definition claude_collectFromHistory ::
  "GoLib \<Rightarrow> ClaudeCodeCollector \<Rightarrow> ctx \<Rightarrow> CollectionConfig option \<Rightarrow> error + SessionData list" where
  "claude_collectFromHistory L c ctx collectConfig =
     (case ctx HistoryEntry of
        Some err \<Rightarrow> Inl err
      | None \<Rightarrow>
          (case ExpandPath L (HistoryFile (c_config c)) of
             Inl err \<Rightarrow> Inl (Errorf ''failed to expand history file path: %w'' [ArgError err])
           | Inr historyPath \<Rightarrow>
               (if (case Stat (OS L) historyPath of
                      Inl err \<Rightarrow> IsNotExist err
                    | Inr info \<Rightarrow> False)
                then Inl (Errorf ''history file does not exist: %s'' [ArgString historyPath])
                else
                  (case ReadFile (OS L) historyPath of
                     Inl err \<Rightarrow> Inl (Errorf ''failed to read history file: %w'' [ArgError err])
                   | Inr data \<Rightarrow>
                       (case ctx HistoryRead of
                          Some err \<Rightarrow> Inl err
                        | None \<Rightarrow>
                            (case UnmarshalObject L data of
                               Inl err \<Rightarrow>
                                 Inl (Errorf ''failed to parse history file JSON: %w'' [ArgError err])
                             | Inr historyData \<Rightarrow> Inr (claude_parseHistoryData L historyData)))))))"

text \<open>
  The callback of \<^verbatim>\<open>filepath.Walk\<close>, folded over the entries the walk visits; \<open>i\<close> counts the
  entries, for the poll of the context.
\<close>

fun claude_walk ::
  "GoLib \<Rightarrow> ClaudeCodeCollector \<Rightarrow> ctx \<Rightarrow> WalkItem list \<Rightarrow> nat \<Rightarrow> SessionData list \<Rightarrow>
   log_entry list \<Rightarrow> (error + SessionData list) \<times> log_entry list" where
  "claude_walk L c ctx [] i sessions logs = (Inr sessions, logs)"
| "claude_walk L c ctx (item # items) i sessions logs =
     (case walk_err item of
        Some err \<Rightarrow> (Inl err, logs)
      | None \<Rightarrow>
          (case ctx (WalkEntry i) of
             Some err \<Rightarrow> (Inl err, logs)
           | None \<Rightarrow>
               (if walk_isDir item then claude_walk L c ctx items (i + 1) sessions logs
                else if \<not> claude_matchesIncludePattern L c (walk_path item)
                then claude_walk L c ctx items (i + 1) sessions logs
                else if claude_matchesExcludePattern L c (walk_path item)
                then claude_walk L c ctx items (i + 1) sessions logs
                else
                  (case claude_parseSessionFile L (walk_path item) of
                     Inl err \<Rightarrow>
                       claude_walk L c ctx items (i + 1) sessions
                         (logs @ [StdoutPrintf ''session file parse failed (skipped): %s - %v\<newline>''
                                    [ArgString (walk_path item), ArgError err]])
                   | Inr None \<Rightarrow> claude_walk L c ctx items (i + 1) sessions logs
                   | Inr (Some sessionData) \<Rightarrow>
                       claude_walk L c ctx items (i + 1) (sessions @ [sessionData]) logs))))"

definition claude_collectFromSessionDir ::
  "GoLib \<Rightarrow> ClaudeCodeCollector \<Rightarrow> ctx \<Rightarrow> CollectionConfig option \<Rightarrow>
   (error + SessionData list) \<times> log_entry list" where
  "claude_collectFromSessionDir L c ctx collectConfig =
     (case ExpandPath L (SessionDir (c_config c)) of
        Inl err \<Rightarrow> (Inl (Errorf ''failed to expand session directory path: %w'' [ArgError err]), [])
      | Inr sessionDir \<Rightarrow>
          (if (case Stat (OS L) sessionDir of
                 Inl err \<Rightarrow> IsNotExist err
               | Inr info \<Rightarrow> False)
           then (Inl (Errorf ''session directory does not exist: %s'' [ArgString sessionDir]), [])
           else
             (case claude_walk L c ctx (WalkDir (OS L) sessionDir) 0 [] [] of
                (Inl err, logs) \<Rightarrow>
                  (Inl (Errorf ''failed to walk session directory: %w'' [ArgError err]), logs)
              | (Inr sessions, logs) \<Rightarrow> (Inr sessions, logs))))"

text \<open>
  \<^verbatim>\<open>Collect\<close>. The request is first dereferenced at \<^verbatim>\<open>collectConfig.DateRange\<close>, after both
  strategies have run: a nil request that gets there is a nil-pointer panic.
\<close>

definition claude_Collect ::
  "GoLib \<Rightarrow> ClaudeCodeCollector \<Rightarrow> ctx \<Rightarrow> CollectionConfig option \<Rightarrow>
   collect_result \<times> log_entry list" where
  "claude_Collect L c ctx collectConfig =
     (case ctx CollectEntry of
        Some err \<Rightarrow> (Returned [] (Some err), [])
      | None \<Rightarrow>
          (case ExpandPath L (ConfigDir (c_config c)) of
             Inl err \<Rightarrow>
               (Returned [] (Some (Errorf ''failed to expand config directory path: %w''
                                     [ArgError err])), [])
           | Inr configDir \<Rightarrow>
               (if (case Stat (OS L) configDir of
                      Inl err \<Rightarrow> IsNotExist err
                    | Inr info \<Rightarrow> False)
                then (Returned [] (Some (Errorf ''Claude Code config directory does not exist: %s''
                                           [ArgString configDir])), [])
                else
                  (let (sessions, historyLogs) =
                         (if HistoryFile (c_config c) \<noteq> []
                          then (case claude_collectFromHistory L c ctx collectConfig of
                                  Inl err \<Rightarrow>
                                    ([], [StdoutPrintf ''warning: history file collection failed: %v\<newline>''
                                            [ArgError err]])
                                | Inr historySessions \<Rightarrow> (historySessions, []))
                          else ([], []))
                   in case ctx CollectMiddle of
                        Some err \<Rightarrow> (Returned [] (Some err), historyLogs)
                      | None \<Rightarrow>
                          (let (sessions, dirLogs) =
                                 (if SessionDir (c_config c) \<noteq> []
                                  then (case claude_collectFromSessionDir L c ctx collectConfig of
                                          (Inl err, logs) \<Rightarrow>
                                            (sessions,
                                             logs @
                                             [StdoutPrintf
                                                ''warning: session directory collection failed: %v\<newline>''
                                                [ArgError err]])
                                        | (Inr sessionSessions, logs) \<Rightarrow>
                                            (sessions @ sessionSessions, logs))
                                  else (sessions, []))
                           in case collectConfig of
                                None \<Rightarrow>
                                  (Panicked ''invalid memory address or nil pointer dereference'',
                                   historyLogs @ dirLogs)
                              | Some cc \<Rightarrow>
                                  (Returned
                                     (if DateRange cc \<noteq> None
                                      then claude_filterByDateRange sessions (DateRange cc)
                                      else sessions)
                                     None,
                                   historyLogs @ dirLogs))))))"

section \<open>The registry and the top-level orchestrator\<close>

text \<open>
  A value of the \<^verbatim>\<open>models.Collector\<close> interface is given by its \<^verbatim>\<open>Collect\<close> method. A
  configuration passed as \<^verbatim>\<open>interface{}\<close> is a \<^verbatim>\<open>CLIToolConfig\<close> or a value of another type.
  The registry is the package-level map from sources to constructors; the two \<^verbatim>\<open>init\<close>
  functions register the Gemini and the Amazon Q collector, each built with the default
  file reader.
\<close>

record Collector =
  Collect :: "ctx \<Rightarrow> CollectionConfig option \<Rightarrow> collect_result \<times> log_entry list"

datatype config_value =
    ToolConfig CLIToolConfig
  | OtherValue

type_synonym CollectorConstructor = "config_value \<Rightarrow> Collector"

type_synonym registry = "CollectionSource \<rightharpoonup> CollectorConstructor"

definition zeroConfig :: CLIToolConfig where
  "zeroConfig =
     \<lparr>SessionDir = [], HistoryFile = [], ConfigDir = [], LogsDir = [], CacheDir = [],
      IncludePatterns = [], ExcludePatterns = []\<rparr>"

definition NewImprovedGeminiCLICollector :: "GoLib \<Rightarrow> CLIToolConfig \<Rightarrow> ImprovedGeminiCLICollector" where
  "NewImprovedGeminiCLICollector L cfg = \<lparr>g_config = cfg, g_fileReader = OS L\<rparr>"

definition NewAmazonQCollector :: "GoLib \<Rightarrow> CLIToolConfig \<Rightarrow> AmazonQCollector" where
  "NewAmazonQCollector L cfg = \<lparr>a_config = cfg, a_fileReader = OS L\<rparr>"

definition NewClaudeCodeCollector :: "CLIToolConfig \<Rightarrow> ClaudeCodeCollector" where
  "NewClaudeCodeCollector cfg = \<lparr>c_config = cfg\<rparr>"

definition Register :: "registry \<Rightarrow> CollectionSource \<Rightarrow> CollectorConstructor \<Rightarrow> registry" where
  "Register reg source constructor = reg(source \<mapsto> constructor)"

definition geminiConstructor :: "GoLib \<Rightarrow> CollectorConstructor" where
  "geminiConstructor L configInterface =
     \<lparr>Collect = gemini_Collect L
        (NewImprovedGeminiCLICollector L
           (case configInterface of ToolConfig cfg \<Rightarrow> cfg | OtherValue \<Rightarrow> zeroConfig))\<rparr>"

definition amazonqConstructor :: "GoLib \<Rightarrow> CollectorConstructor" where
  "amazonqConstructor L configInterface =
     \<lparr>Collect = amazonq_Collect L
        (NewAmazonQCollector L
           (case configInterface of ToolConfig cfg \<Rightarrow> cfg | OtherValue \<Rightarrow> zeroConfig))\<rparr>"

definition initRegistry :: "GoLib \<Rightarrow> registry" where
  "initRegistry L =
     Register (Register Map.empty SourceAmazonQ (amazonqConstructor L))
       SourceGeminiCLI (geminiConstructor L)"

definition GetCollector :: "registry \<Rightarrow> CollectionSource \<Rightarrow> config_value \<Rightarrow> error + Collector" where
  "GetCollector reg source config =
     (case reg source of
        None \<Rightarrow> Inl (Errorf ''no collector registered for source: %s'' [ArgString source])
      | Some constructor \<Rightarrow> Inr (constructor config))"

text \<open>
  \<^verbatim>\<open>CollectionResult\<close>. An entry of \<^verbatim>\<open>Errors\<close> is the string \<^verbatim>\<open>fmt.Sprintf\<close> makes; the model keeps
  the format and the arguments of the call.
\<close>

record CollectionResult =
  res_Sessions :: "SessionData list"
  res_TotalCount :: nat
  res_Sources :: "CollectionSource list"
  res_CollectedAt :: time
  res_Duration :: duration
  res_Errors :: "(string \<times> fmtarg list) list"

datatype collect_all_result =
    AllReturned "CollectionResult option" "error option"
  | AllPanicked string

fun sourcesLoop ::
  "registry \<Rightarrow> ctx \<Rightarrow> CollectionConfig \<Rightarrow> (CollectionSource \<rightharpoonup> config_value) \<Rightarrow>
   CollectionSource list \<Rightarrow> CollectionResult \<Rightarrow> log_entry list \<Rightarrow>
   (string + CollectionResult) \<times> log_entry list" where
  "sourcesLoop reg ctx collectionConfig configs [] result logs = (Inr result, logs)"
| "sourcesLoop reg ctx collectionConfig configs (source # rest) result logs =
     (case configs source of
        None \<Rightarrow>
          sourcesLoop reg ctx collectionConfig configs rest
            (result\<lparr>res_Errors := res_Errors result @
                       [(''no configuration for source %s'', [ArgString source])]\<rparr>) logs
      | Some config \<Rightarrow>
          (case GetCollector reg source config of
             Inl err \<Rightarrow>
               sourcesLoop reg ctx collectionConfig configs rest
                 (result\<lparr>res_Errors := res_Errors result @
                            [(''failed to create the collector of source %s: %v'',
                              [ArgString source, ArgError err])]\<rparr>) logs
           | Inr collector \<Rightarrow>
               (case Collect collector ctx (Some collectionConfig) of
                  (Panicked msg, collectLogs) \<Rightarrow> (Inl msg, logs @ collectLogs)
                | (Returned sessions (Some err), collectLogs) \<Rightarrow>
                    sourcesLoop reg ctx collectionConfig configs rest
                      (result\<lparr>res_Errors := res_Errors result @
                                 [(''failed to collect data from source %s: %v'',
                                   [ArgString source, ArgError err])]\<rparr>) (logs @ collectLogs)
                | (Returned sessions None, collectLogs) \<Rightarrow>
                    sourcesLoop reg ctx collectionConfig configs rest
                      (result\<lparr>res_Sessions := res_Sessions result @ sessions,
                              res_Sources := res_Sources result @ [source]\<rparr>)
                      (logs @ collectLogs))))"

definition CollectAllSources ::
  "GoLib \<Rightarrow> registry \<Rightarrow> ctx \<Rightarrow> CollectionConfig option \<Rightarrow> (CollectionSource \<rightharpoonup> config_value) \<Rightarrow>
   collect_all_result \<times> log_entry list" where
  "CollectAllSources L reg ctx collectionConfig configs =
     (let result = \<lparr>res_Sessions = [], res_TotalCount = 0, res_Sources = [],
                     res_CollectedAt = Now L, res_Duration = 0, res_Errors = []\<rparr>
      in case collectionConfig of
           None \<Rightarrow> (AllPanicked ''invalid memory address or nil pointer dereference'', [])
         | Some cc \<Rightarrow>
             (case sourcesLoop reg ctx cc configs (Sources cc) result [] of
                (Inl msg, logs) \<Rightarrow> (AllPanicked msg, logs)
              | (Inr result, logs) \<Rightarrow>
                  (AllReturned (Some (result\<lparr>res_TotalCount := length (res_Sessions result)\<rparr>)) None,
                   logs)))"

section \<open>Test doubles\<close>

text \<open>
  The repository's tests run the collectors on a mock file reader that holds files and
  directories in maps (\<^verbatim>\<open>MockFileReader\<close>, \<^verbatim>\<open>MockAmazonQFileReader\<close>). The same double is
  defined here, on a list of files and a list of directories, to run the model on concrete
  inputs. Its walk visits the files below the root in the order of the list.
\<close>

definition mockFileReader :: "(string \<times> string) list \<Rightarrow> string list \<Rightarrow> FileReader" where
  "mockFileReader files dirs =
     \<lparr>ReadFile = (\<lambda>filename. case map_of files filename of
                                 Some content \<Rightarrow> Inr content
                               | None \<Rightarrow> Inl ErrNotExist),
      Stat = (\<lambda>filename. case map_of files filename of
                             Some content \<Rightarrow>
                               Inr \<lparr>Size = int (length content), IsDir = False, ModTime = 0\<rparr>
                           | None \<Rightarrow>
                               (if filename \<in> set dirs
                                then Inr \<lparr>Size = 0, IsDir = True, ModTime = 0\<rparr>
                                else Inl ErrNotExist)),
      WalkDir = (\<lambda>root. map (\<lambda>(path, content).
                                  \<lparr>walk_path = path, walk_isDir = False, walk_err = None\<rparr>)
                           (filter (\<lambda>(path, content). HasPrefix path root) files))\<rparr>"

text \<open>
  A double of the library for the same purpose. It knows ASCII only: white space and
  letter case are those of ASCII. Its JSON decoder reads an object of one level whose keys
  and values are strings without escapes, and reports a syntax error on anything else. It
  knows no session-file format and no time stamp: every session file is taken as text
  and every time stamp is rejected; it prints every JSON value as \<^verbatim>\<open><value>\<close>. The home directory is \<^verbatim>\<open>/home/user\<close>, and \<open>Join\<close> appends a
  path that begins with a slash. The scanner delivers the lines of a file without their
  line ends, up to the first line that does not fit its buffer with its line end, a line of
  64KB or more: there \<^verbatim>\<open>Scan\<close> returns false and \<^verbatim>\<open>scanner.Err()\<close> is \<^verbatim>\<open>bufio.ErrTooLong\<close>.
\<close>

definition asciiSpace :: "char \<Rightarrow> bool" where
  "asciiSpace c = (c \<in> set [CHR '' '', CHR 0x09, CHR 0x0A, CHR 0x0B, CHR 0x0C, CHR 0x0D])"

definition mock_TrimSpace :: "string \<Rightarrow> string" where
  "mock_TrimSpace str = rev (dropWhile asciiSpace (rev (dropWhile asciiSpace str)))"

definition asciiLower :: "char \<Rightarrow> char" where
  "asciiLower c =
     (case List.find (\<lambda>(upper, lower). upper = c)
             (zip ''ABCDEFGHIJKLMNOPQRSTUVWXYZ'' ''abcdefghijklmnopqrstuvwxyz'') of
        Some (upper, lower) \<Rightarrow> lower
      | None \<Rightarrow> c)"

definition mock_ToLower :: "string \<Rightarrow> string" where
  "mock_ToLower str = map asciiLower str"

definition syntaxError :: error where
  "syntaxError = LibraryError ''invalid character in JSON input''"

definition mock_string :: "string \<Rightarrow> (string \<times> string) option" where
  "mock_string str =
     (case str of
        [] \<Rightarrow> None
      | c # rest \<Rightarrow>
          (if c = CHR 0x22
           then (case dropWhile (\<lambda>c. c \<noteq> CHR 0x22) rest of
                   [] \<Rightarrow> None
                 | quote # after \<Rightarrow>
                     (if CHR 0x5C \<in> set (takeWhile (\<lambda>c. c \<noteq> CHR 0x22) rest) then None
                      else Some (takeWhile (\<lambda>c. c \<noteq> CHR 0x22) rest, after)))
           else None))"

fun mock_members :: "string \<Rightarrow> string \<Rightarrow> (string \<times> json) list \<Rightarrow> error + json" where
  "mock_members [] str members = Inl syntaxError"
| "mock_members (f # fuel) str members =
     (case mock_string (dropWhile asciiSpace str) of
        None \<Rightarrow> Inl syntaxError
      | Some (key, afterKey) \<Rightarrow>
          (case dropWhile asciiSpace afterKey of
             [] \<Rightarrow> Inl syntaxError
           | colon # afterColon \<Rightarrow>
               (if colon \<noteq> CHR '':'' then Inl syntaxError
                else
                  (case mock_string (dropWhile asciiSpace afterColon) of
                     None \<Rightarrow> Inl syntaxError
                   | Some (v, afterValue) \<Rightarrow>
                       (case dropWhile asciiSpace afterValue of
                          [] \<Rightarrow> Inl syntaxError
                        | c # remaining \<Rightarrow>
                            (if c = CHR '','' then mock_members fuel remaining (members @ [(key, JString v)])
                             else if c = CHR ''}'' then Inr (JObject (members @ [(key, JString v)]))
                             else Inl syntaxError))))))"

definition mock_DecodeValue :: "string \<Rightarrow> error + json" where
  "mock_DecodeValue str =
     (case dropWhile asciiSpace str of
        [] \<Rightarrow> Inl syntaxError
      | c # rest \<Rightarrow>
          (if c \<noteq> CHR ''{'' then Inl syntaxError
           else (case dropWhile asciiSpace rest of
                   [] \<Rightarrow> Inl syntaxError
                 | d # remaining \<Rightarrow>
                     (if d = CHR ''}'' then Inr (JObject []) else mock_members str rest []))))"

definition mock_Base :: "string \<Rightarrow> string" where
  "mock_Base path = rev (takeWhile (\<lambda>c. c \<noteq> CHR ''/'') (rev path))"

definition mock_Ext :: "string \<Rightarrow> string" where
  "mock_Ext path =
     (if CHR ''.'' \<in> set (mock_Base path)
      then CHR ''.'' # rev (takeWhile (\<lambda>c. c \<noteq> CHR ''.'') (rev (mock_Base path)))
      else [])"

definition ErrTooLong :: error where
  "ErrTooLong = LibraryError ''bufio.Scanner: token too long''"

definition mock_Scanner :: "string \<Rightarrow> Scanner" where
  "mock_Scanner content =
     (let pieces = (if content = [] then []
                    else if last content = newline then butlast (Split content newline)
                    else Split content newline);
          delivered = takeWhile (\<lambda>piece. length piece < bufferSize) pieces
      in \<lparr>scan_lines = delivered,
          scan_Err = (\<lambda>k. if k = length delivered \<and> length delivered < length pieces
                          then Some ErrTooLong else None)\<rparr>)"

definition mockLib :: "(string \<times> string) list \<Rightarrow> string list \<Rightarrow> GoLib" where
  "mockLib files dirs =
     \<lparr>Now = 63900000000 * Second,
      TrimSpace = mock_TrimSpace,
      ToLower = mock_ToLower,
      DecodeValue = mock_DecodeValue,
      EqualFold = (\<lambda>name key. mock_ToLower name = mock_ToLower key),
      UnmarshalGeminiSession = (\<lambda>data. Inl syntaxError),
      UnmarshalAmazonQSession = (\<lambda>data. Inl syntaxError),
      UnmarshalObject = (\<lambda>data. Inl syntaxError),
      ParseRFC3339 = (\<lambda>str. Inl (LibraryError ''parsing time: cannot parse'')),
      UserHomeDir = Inr ''/home/user'',
      Join = (\<lambda>dir path. dir @ path),
      Base = mock_Base,
      Ext = mock_Ext,
      Match = (\<lambda>pattern name. pattern = name),
      NumCPU = 4,
      Open = (\<lambda>name. case map_of files name of
                         Some content \<Rightarrow> Inr (mock_Scanner content)
                       | None \<Rightarrow> Inl ErrNotExist),
      OS = mockFileReader files dirs,
      FormatValue = (\<lambda>v. ''<value>'')\<rparr>"

text \<open>The contexts of the tests: one that is never done, one cancelled before the call.\<close>

definition background :: ctx where
  "background = (\<lambda>site. None)"

definition cancelled :: ctx where
  "cancelled = (\<lambda>site. Some Canceled)"

text \<open>
  A context that is cancelled while \<^verbatim>\<open>Collect\<close> runs: the polls of the history loop find it
  live, the polls of the session loop find it cancelled.
\<close>

definition cancelledLater :: ctx where
  "cancelledLater = (\<lambda>site. case site of SessionResult i \<Rightarrow> Some Canceled | _ \<Rightarrow> None)"

text \<open>The request of the tests that set no field.\<close>

definition emptyConfig :: CollectionConfig where
  "emptyConfig =
     \<lparr>Sources = [], IncludeFiles = False, IncludeCommands = False, DateRange = None,
      OutputPath = [], Template = []\<rparr>"

text \<open>
  The content of a file of one byte more than 100MB, which is not JSON, and a line of
  exactly 64KB.
\<close>

definition oversizedContent :: string where
  "oversizedContent = replicate 104857601 (CHR ''a'')"

definition overlongLine :: string where
  "overlongLine = replicate 65536 (CHR ''a'')"

text \<open>
  A JSON file of one byte more than 100MB: the object \<^verbatim>\<open>{"sessions":[{}]}\<close> with white space
  before its closing brace. The double \<open>jsonLib\<close> is \<open>mockLib\<close> with a decoder that knows this
  one file.
\<close>

definition oversizedJSON :: string where
  \<open>oversizedJSON = ''{"sessions":[{}]'' @ replicate 104857584 (CHR '' '') @ ''}''\<close>

definition jsonLib :: "(string \<times> string) list \<Rightarrow> string list \<Rightarrow> GoLib" where
  "jsonLib files dirs =
     (mockLib files dirs)
       \<lparr>UnmarshalObject :=
          (\<lambda>data. if data = oversizedJSON then Inr [''sessions'' \<mapsto> JArray [JObject []]]
                   else Inl syntaxError)\<rparr>"

section \<open>Notions of the statements\<close>

text \<open>The configuration with no history file configured.\<close>

definition withoutHistoryFile :: "CLIToolConfig \<Rightarrow> CLIToolConfig" where
  "withoutHistoryFile cfg = cfg\<lparr>HistoryFile := []\<rparr>"

text \<open>The sessions a strategy hands to \<^verbatim>\<open>Collect\<close>: none when it fails.\<close>

definition recordsOf :: "error + SessionData list \<Rightarrow> SessionData list" where
  "recordsOf r = (case r of Inl err \<Rightarrow> [] | Inr sessions \<Rightarrow> sessions)"

text \<open>The mark of a record of the Fallback Generator.\<close>

definition synthetic :: "SessionData \<Rightarrow> bool" where
  "synthetic s = (Metadata s ''source_type'' = Some ''amazon_q_dummy'')"

text \<open>
  What one requested source comes to, taken alone: the sessions of its collector, or the
  entry for the error list, or the panic of its collector.
\<close>

datatype source_outcome =
    Collected "SessionData list"
  | Failed "string \<times> fmtarg list"
  | Crashed string

definition sourceOutcome ::
  "registry \<Rightarrow> ctx \<Rightarrow> CollectionConfig \<Rightarrow> (CollectionSource \<rightharpoonup> config_value) \<Rightarrow>
   CollectionSource \<Rightarrow> source_outcome" where
  "sourceOutcome reg ctx cc configs source =
     (case configs source of
        None \<Rightarrow> Failed (''no configuration for source %s'', [ArgString source])
      | Some config \<Rightarrow>
          (case reg source of
             None \<Rightarrow>
               Failed (''failed to create the collector of source %s: %v'',
                       [ArgString source,
                        ArgError (Errorf ''no collector registered for source: %s''
                                    [ArgString source])])
           | Some constructor \<Rightarrow>
               (case fst (Collect (constructor config) ctx (Some cc)) of
                  Panicked msg \<Rightarrow> Crashed msg
                | Returned sessions (Some err) \<Rightarrow>
                    Failed (''failed to collect data from source %s: %v'',
                            [ArgString source, ArgError err])
                | Returned sessions None \<Rightarrow> Collected sessions)))"

definition sessionsOf :: "source_outcome \<Rightarrow> SessionData list" where
  "sessionsOf outcome = (case outcome of Collected sessions \<Rightarrow> sessions | _ \<Rightarrow> [])"

definition errorsOf :: "source_outcome \<Rightarrow> (string \<times> fmtarg list) list" where
  "errorsOf outcome = (case outcome of Failed msg \<Rightarrow> [msg] | _ \<Rightarrow> [])"

definition isCollected :: "source_outcome \<Rightarrow> bool" where
  "isCollected outcome = (case outcome of Collected sessions \<Rightarrow> True | _ \<Rightarrow> False)"

definition isCrashed :: "source_outcome \<Rightarrow> bool" where
  "isCrashed outcome = (case outcome of Crashed msg \<Rightarrow> True | _ \<Rightarrow> False)"

text \<open>The role and the content of a message.\<close>

definition roleAndContent :: "Message \<Rightarrow> string \<times> string" where
  "roleAndContent m = (msg_Role m, msg_Content m)"

text \<open>The predicate the filter is specified by: a zero bound does not bound.\<close>

definition retained :: "DateRange \<Rightarrow> SessionData \<Rightarrow> bool" where
  "retained r s =
     ((IsZero (Start r) \<or> Start r \<le> Timestamp s) \<and> (IsZero (End r) \<or> Timestamp s \<le> End r))"

text \<open>
  What one line of a history file comes to in the scanning loop, given its number: the
  sessions it adds and the warnings it logs.
\<close>

definition gemini_lineRecords :: "GoLib \<Rightarrow> string \<Rightarrow> nat \<Rightarrow> SessionData list" where
  "gemini_lineRecords L raw lineNum =
     (if TrimSpace L raw = [] then []
      else (case gemini_parseHistoryLine L (TrimSpace L raw) lineNum of
              Inr (Some session) \<Rightarrow> [session]
            | _ \<Rightarrow> []))"

definition gemini_lineWarnings :: "GoLib \<Rightarrow> string \<Rightarrow> nat \<Rightarrow> log_entry list" where
  "gemini_lineWarnings L raw lineNum =
     (if TrimSpace L raw = [] then []
      else (case gemini_parseHistoryLine L (TrimSpace L raw) lineNum of
              Inl err \<Rightarrow> [LogWarnf ''Failed to parse history line %d: %v''
                           [ArgInt (int lineNum), ArgError err]]
            | _ \<Rightarrow> []))"

definition amazonq_lineRecords :: "GoLib \<Rightarrow> string \<Rightarrow> nat \<Rightarrow> SessionData list" where
  "amazonq_lineRecords L raw lineNum =
     (if TrimSpace L raw = [] then []
      else (case amazonq_parseHistoryLine L (TrimSpace L raw) lineNum of
              Inr (Some session) \<Rightarrow> [session]
            | _ \<Rightarrow> []))"

definition amazonq_lineWarnings :: "GoLib \<Rightarrow> string \<Rightarrow> nat \<Rightarrow> log_entry list" where
  "amazonq_lineWarnings L raw lineNum =
     (if TrimSpace L raw = [] then []
      else (case amazonq_parseHistoryLine L (TrimSpace L raw) lineNum of
              Inl err \<Rightarrow> [LogWarnf ''Failed to parse Amazon Q history line %d: %v\<newline>''
                           [ArgInt (int lineNum), ArgError err]]
            | _ \<Rightarrow> []))"

text \<open>The lines with their numbers, the first line having the number \<open>n + 1\<close>.\<close>

fun numbered :: "nat \<Rightarrow> string list \<Rightarrow> (nat \<times> string) list" where
  "numbered n [] = []"
| "numbered n (raw # rest) = (n + 1, raw) # numbered (n + 1) rest"

text \<open>The sessions and the warnings of a list of lines, in the order of the lines.\<close>

definition gemini_linesRecords :: "GoLib \<Rightarrow> nat \<Rightarrow> string list \<Rightarrow> SessionData list" where
  "gemini_linesRecords L n texts =
     concat (map (\<lambda>(k, raw). gemini_lineRecords L raw k) (numbered n texts))"

definition gemini_linesWarnings :: "GoLib \<Rightarrow> nat \<Rightarrow> string list \<Rightarrow> log_entry list" where
  "gemini_linesWarnings L n texts =
     concat (map (\<lambda>(k, raw). gemini_lineWarnings L raw k) (numbered n texts))"

definition amazonq_linesRecords :: "GoLib \<Rightarrow> nat \<Rightarrow> string list \<Rightarrow> SessionData list" where
  "amazonq_linesRecords L n texts =
     concat (map (\<lambda>(k, raw). amazonq_lineRecords L raw k) (numbered n texts))"

definition amazonq_linesWarnings :: "GoLib \<Rightarrow> nat \<Rightarrow> string list \<Rightarrow> log_entry list" where
  "amazonq_linesWarnings L n texts =
     concat (map (\<lambda>(k, raw). amazonq_lineWarnings L raw k) (numbered n texts))"

text \<open>The sessions one session file adds in the collecting loop: none when it is rejected.\<close>

definition gemini_fileRecords ::
  "GoLib \<Rightarrow> ImprovedGeminiCLICollector \<Rightarrow> CollectionConfig \<Rightarrow> string \<Rightarrow> SessionData list" where
  "gemini_fileRecords L g cc path =
     (case gemini_parseSessionFileSafe L g path cc of
        Inr (Some session) \<Rightarrow> [session]
      | _ \<Rightarrow> [])"

definition amazonq_fileRecords ::
  "GoLib \<Rightarrow> AmazonQCollector \<Rightarrow> CollectionConfig \<Rightarrow> string \<Rightarrow> SessionData list" where
  "amazonq_fileRecords L a cc path =
     (case amazonq_parseSessionFileSafe L a path cc of
        Inr (Some session) \<Rightarrow> [session]
      | _ \<Rightarrow> [])"

section \<open>Properties of the date-range filter\<close>

lemma gemini_isWithinDateRange_retained:
  "gemini_isWithinDateRange (Timestamp s) r = retained r s"
  by (auto simp: gemini_isWithinDateRange_def retained_def Before_def After_def)

lemma amazonq_isWithinDateRange_retained:
  "amazonq_isWithinDateRange (Timestamp s) r = retained r s"
  by (auto simp: amazonq_isWithinDateRange_def retained_def Before_def After_def)

lemma gemini_filterLoop_filter:
  "gemini_filterLoop r acc xs = acc @ filter (retained r) xs"
  by (induction xs arbitrary: acc) (simp_all add: gemini_isWithinDateRange_retained)

lemma amazonq_filterLoop_filter:
  "amazonq_filterLoop r acc xs = acc @ filter (retained r) xs"
  by (induction xs arbitrary: acc) (simp_all add: amazonq_isWithinDateRange_retained)

lemma claude_filterLoop_filter:
  "claude_filterLoop r acc xs = acc @ filter (retained r) xs"
  by (induction xs arbitrary: acc) (auto simp: retained_def Before_def After_def)

lemma retained_all_zero: "retained \<lparr>Start = 0, End = 0\<rparr> s"
  by (simp add: retained_def IsZero_def)

text \<open>
  C4. With a range given, each collector's filter keeps exactly the sessions whose timestamp
  has the start bound zero or not after it and the end bound zero or not before it, in
  their original order; timestamps equal to a bound are kept, and the range with both
  bounds zero keeps every session.
\<close>

theorem date_filter_retains_iff:
  "gemini_filterByDateRange sessions (Some r) =
     filter (\<lambda>s. (IsZero (Start r) \<or> Start r \<le> Timestamp s) \<and>
                  (IsZero (End r) \<or> Timestamp s \<le> End r)) sessions
   \<and> amazonq_filterByDateRange sessions (Some r) =
     filter (\<lambda>s. (IsZero (Start r) \<or> Start r \<le> Timestamp s) \<and>
                  (IsZero (End r) \<or> Timestamp s \<le> End r)) sessions
   \<and> claude_filterByDateRange sessions (Some r) =
     filter (\<lambda>s. (IsZero (Start r) \<or> Start r \<le> Timestamp s) \<and>
                  (IsZero (End r) \<or> Timestamp s \<le> End r)) sessions
   \<and> gemini_filterByDateRange sessions (Some \<lparr>Start = 0, End = 0\<rparr>) = sessions
   \<and> amazonq_filterByDateRange sessions (Some \<lparr>Start = 0, End = 0\<rparr>) = sessions
   \<and> claude_filterByDateRange sessions (Some \<lparr>Start = 0, End = 0\<rparr>) = sessions"
proof -
  have eq: "(\<lambda>s. (IsZero (Start r) \<or> Start r \<le> Timestamp s) \<and>
                  (IsZero (End r) \<or> Timestamp s \<le> End r)) = retained r"
    by (rule ext) (simp add: retained_def)
  have all: "filter (retained \<lparr>Start = 0, End = 0\<rparr>) sessions = sessions"
    by (simp add: retained_all_zero)
  have g: "gemini_filterByDateRange sessions (Some r) = filter (retained r) sessions"
    by (simp add: gemini_filterByDateRange_def gemini_filterLoop_filter)
  have a: "amazonq_filterByDateRange sessions (Some r) = filter (retained r) sessions"
    by (simp add: amazonq_filterByDateRange_def amazonq_filterLoop_filter)
  have c: "claude_filterByDateRange sessions (Some r) = filter (retained r) sessions"
    by (simp add: claude_filterByDateRange_def claude_filterLoop_filter)
  have g0: "gemini_filterByDateRange sessions (Some \<lparr>Start = 0, End = 0\<rparr>) = sessions"
    by (simp add: gemini_filterByDateRange_def gemini_filterLoop_filter all)
  have a0: "amazonq_filterByDateRange sessions (Some \<lparr>Start = 0, End = 0\<rparr>) = sessions"
    by (simp add: amazonq_filterByDateRange_def amazonq_filterLoop_filter all)
  have c0: "claude_filterByDateRange sessions (Some \<lparr>Start = 0, End = 0\<rparr>) = sessions"
    by (simp add: claude_filterByDateRange_def claude_filterLoop_filter all)
  show ?thesis
    unfolding eq using g a c g0 a0 c0 by simp
qed

text \<open>
  C10. Filtering twice with the same range, nil or not, gives the same list as filtering
  once, and the nil range returns the list it was given.
\<close>

theorem date_filter_idempotent:
  "gemini_filterByDateRange (gemini_filterByDateRange sessions dr) dr =
     gemini_filterByDateRange sessions dr
   \<and> amazonq_filterByDateRange (amazonq_filterByDateRange sessions dr) dr =
     amazonq_filterByDateRange sessions dr
   \<and> gemini_filterByDateRange sessions None = sessions
   \<and> amazonq_filterByDateRange sessions None = sessions"
  by (cases dr)
    (simp_all add: gemini_filterByDateRange_def amazonq_filterByDateRange_def
      gemini_filterLoop_filter amazonq_filterLoop_filter)

section \<open>Evaluating the test doubles\<close>

lemmas mock_defs =
  mockLib_def mockFileReader_def mock_Scanner_def mock_TrimSpace_def mock_ToLower_def
  mock_DecodeValue_def mock_string_def mock_Base_def mock_Ext_def asciiSpace_def asciiLower_def
  syntaxError_def background_def cancelled_def emptyConfig_def newline_def HasPrefix_def
  HasSuffix_def TrimSuffix_def bufferSize_def ErrTooLong_def

lemmas gemini_line_defs =
  gemini_parseHistoryFileStreaming_def gemini_parseHistoryLine_def gemini_parseTextHistoryEntry_def
  gemini_parseJSONHistoryEntry_def maxMessagesPerFile_def

lemmas amazonq_line_defs =
  amazonq_parseHistoryFileStreaming_def amazonq_parseHistoryLine_def
  amazonq_parseTextHistoryEntry_def amazonq_parseJSONHistoryEntry_def amazonQMaxMessagesPerFile_def

section \<open>The record cap of the streaming line parser\<close>





section \<open>The classification of history lines\<close>

lemma saveError_Some: "saveError (Some first) err = Some first"
  by (simp add: saveError_def)

lemma saveError_not_None: "saveError saved err \<noteq> None"
  by (simp add: saveError_def split: option.splits)

lemma gemini_decodeObject_first:
  "snd (gemini_decodeObject L strict members e (Some first)) = Some first"
  by (induction members arbitrary: e)
    (auto simp: saveError_Some split: option.splits sum.splits)

lemma gemini_decodeObject_saved:
  "saved \<noteq> None \<Longrightarrow> snd (gemini_decodeObject L strict members e saved) \<noteq> None"
  using gemini_decodeObject_first by (cases saved) auto

lemma gemini_decodeObject_unknown:
  "(key, v) \<in> set members \<Longrightarrow> matchField L gemini_fieldNames key = None \<Longrightarrow>
   snd (gemini_decodeObject L True members e saved) \<noteq> None"
proof (induction members arbitrary: e saved)
  case Nil
  then show ?case by simp
next
  case (Cons member members)
  obtain key' v' where member: "member = (key', v')" by (cases member)
  show ?case
  proof (cases "(key, v) = member")
    case True
    with member Cons.prems show ?thesis
      by (simp add: gemini_decodeObject_saved saveError_not_None)
  next
    case False
    with Cons.prems have "(key, v) \<in> set members" by simp
    from Cons.IH[OF this Cons.prems(2)] show ?thesis
      unfolding member by (simp split: option.splits sum.splits)
  qed
qed

lemma amazonq_decodeObject_lenient:
  "amazonq_decodeObject L False members e saved =
   amazonq_decodeObject L False
     (filter (\<lambda>(key, v). matchField L amazonq_fieldNames key \<noteq> None) members) e saved"
proof (induction members arbitrary: e saved)
  case Nil
  then show ?case by simp
next
  case (Cons member members)
  obtain key v where member: "member = (key, v)" by (cases member)
  show ?case
    unfolding member using Cons.IH
    by (auto split: option.splits sum.splits)
qed

lemma gemini_unknown_field_rejected:
  assumes "DecodeValue L t = Inr (JObject members)" and "(key, v) \<in> set members"
    and "matchField L gemini_fieldNames key = None"
  shows "isl (gemini_Decode L True t)"
proof -
  from gemini_decodeObject_unknown[OF assms(2,3)]
  have "snd (gemini_decodeObject L True members gemini_zeroEntry None) \<noteq> None" .
  with assms(1) show ?thesis
    by (auto simp: gemini_Decode_def split: prod.splits option.splits)
qed

lemmas decode_defs =
  gemini_Decode_def amazonq_Decode_def matchField_def gemini_fieldNames_def amazonq_fieldNames_def
  gemini_setField_def amazonq_setField_def storeString_def storeMap_def saveError_def
  unknownField_def typeError_def gemini_zeroEntry_def amazonq_zeroEntry_def

lemma gemini_scanLoop_closed_form:
  "(\<And>i. ctx (HistoryLine i) = None) \<Longrightarrow>
   length acc + length (concat (map (\<lambda>(k, raw). gemini_lineRecords L raw k) (numbered n texts)))
     < maxMessagesPerFile \<Longrightarrow>
   gemini_scanLoop L ctx texts n acc logs =
     (Inr (acc @ concat (map (\<lambda>(k, raw). gemini_lineRecords L raw k) (numbered n texts)),
           n + length texts),
      logs @ concat (map (\<lambda>(k, raw). gemini_lineWarnings L raw k) (numbered n texts)))"
proof (induction texts arbitrary: n acc logs)
  case Nil
  then show ?case by simp
next
  case (Cons raw rest)
  show ?case
  proof (cases "TrimSpace L raw = []")
    case True
    with Cons.prems Cons.IH[of acc "n + 1" logs] show ?thesis
      by (simp add: gemini_lineRecords_def gemini_lineWarnings_def)
  next
    case False
    show ?thesis
    proof (cases "gemini_parseHistoryLine L (TrimSpace L raw) (n + 1)")
      case (Inl err)
      with False Cons.prems
        Cons.IH[of acc "n + 1" "logs @ [LogWarnf ''Failed to parse history line %d: %v''
                           [ArgInt (int (n + 1)), ArgError err]]"]
      show ?thesis
        by (simp add: gemini_lineRecords_def gemini_lineWarnings_def)
    next
      case (Inr session)
      show ?thesis
      proof (cases session)
        case None
        with Inr False Cons.prems Cons.IH[of acc "n + 1" logs] show ?thesis
          by (simp add: gemini_lineRecords_def gemini_lineWarnings_def)
      next
        case (Some s)
        with Inr False Cons.prems Cons.IH[of "acc @ [s]" "n + 1" logs] show ?thesis
          by (simp add: gemini_lineRecords_def gemini_lineWarnings_def)
      qed
    qed
  qed
qed

lemma amazonq_lineLoop_closed_form:
  "(\<And>i. ctx (HistoryLine i) = None) \<Longrightarrow>
   length acc + length (concat (map (\<lambda>(k, raw). amazonq_lineRecords L raw k) (numbered n texts)))
     < amazonQMaxMessagesPerFile \<Longrightarrow>
   amazonq_lineLoop L ctx texts n acc logs =
     (Inr (acc @ concat (map (\<lambda>(k, raw). amazonq_lineRecords L raw k) (numbered n texts))),
      logs @ concat (map (\<lambda>(k, raw). amazonq_lineWarnings L raw k) (numbered n texts)))"
proof (induction texts arbitrary: n acc logs)
  case Nil
  then show ?case by simp
next
  case (Cons raw rest)
  show ?case
  proof (cases "TrimSpace L raw = []")
    case True
    with Cons.prems Cons.IH[of acc "n + 1" logs] show ?thesis
      by (simp add: amazonq_lineRecords_def amazonq_lineWarnings_def)
  next
    case False
    show ?thesis
    proof (cases "amazonq_parseHistoryLine L (TrimSpace L raw) (n + 1)")
      case (Inl err)
      with False Cons.prems
        Cons.IH[of acc "n + 1" "logs @ [LogWarnf ''Failed to parse Amazon Q history line %d: %v\<newline>''
                           [ArgInt (int (n + 1)), ArgError err]]"]
      show ?thesis
        by (simp add: amazonq_lineRecords_def amazonq_lineWarnings_def)
    next
      case (Inr session)
      show ?thesis
      proof (cases session)
        case None
        with Inr False Cons.prems Cons.IH[of acc "n + 1" logs] show ?thesis
          by (simp add: amazonq_lineRecords_def amazonq_lineWarnings_def)
      next
        case (Some s)
        with Inr False Cons.prems Cons.IH[of "acc @ [s]" "n + 1" logs] show ?thesis
          by (simp add: amazonq_lineRecords_def amazonq_lineWarnings_def)
      qed
    qed
  qed
qed


lemma gemini_scanLoop_lines:
  assumes "\<forall>i. ctx (HistoryLine i) = None"
    and "length acc + length (gemini_linesRecords L n texts) < 10000"
  shows "gemini_scanLoop L ctx texts n acc logs =
     (Inr (acc @ gemini_linesRecords L n texts, n + length texts),
      logs @ gemini_linesWarnings L n texts)"
  using assms gemini_scanLoop_closed_form[of ctx acc L n texts logs]
  by (simp add: gemini_linesRecords_def gemini_linesWarnings_def maxMessagesPerFile_def)

lemma amazonq_lineLoop_lines:
  assumes "\<forall>i. ctx (HistoryLine i) = None"
    and "length acc + length (amazonq_linesRecords L n texts) < 10000"
  shows "amazonq_lineLoop L ctx texts n acc logs =
     (Inr (acc @ amazonq_linesRecords L n texts),
      logs @ amazonq_linesWarnings L n texts)"
  using assms amazonq_lineLoop_closed_form[of ctx acc L n texts logs]
  by (simp add: amazonq_linesRecords_def amazonq_linesWarnings_def amazonQMaxMessagesPerFile_def)

lemma gemini_file_lines:
  assumes "Open L path = Inr scanner" and "scan_Err scanner (length (scan_lines scanner)) = None"
    and "\<forall>i. ctx (HistoryLine i) = None"
    and "length (gemini_linesRecords L 0 (scan_lines scanner)) < 10000"
  shows "gemini_parseHistoryFileStreaming L ctx path cc =
     (Inr (gemini_linesRecords L 0 (scan_lines scanner)),
      gemini_linesWarnings L 0 (scan_lines scanner))"
  using assms gemini_scanLoop_lines[of ctx "[]" L 0 "scan_lines scanner" "[]"]
  by (simp add: gemini_parseHistoryFileStreaming_def)

lemma amazonq_file_lines:
  assumes "ReadFile fileReader path = Inr content"
    and "\<forall>i. ctx (HistoryLine i) = None"
    and "length (amazonq_linesRecords L 0 (Split content newline)) < 10000"
  shows "amazonq_parseHistoryFileStreaming L fileReader ctx path cc =
     (Inr (amazonq_linesRecords L 0 (Split content newline)),
      amazonq_linesWarnings L 0 (Split content newline))"
  using assms amazonq_lineLoop_lines[of ctx "[]" L 0 "Split content newline" "[]"]
  by (simp add: amazonq_parseHistoryFileStreaming_def)

text \<open>
  C5, as amended. Each line the line reader delivers from a history file is trimmed of its
  surrounding white space, and a line that is then empty gives nothing. A line that begins
  with \<^verbatim>\<open>{\<close> is decoded into the line schema: by the Gemini collector with a decoder that
  rejects a key no field matches, by the Amazon Q collector with a decoder that ignores
  such keys. A decoded entry becomes a session with a user message when its prompt (its
  query) is not empty, followed by an assistant message when its response is not empty.
  Any other line becomes a session of one user message that holds the line. A line whose
  decoding fails gives one warning and no session. As long as the context is live and fewer
  than 10,000 sessions are made, the loop returns the sessions of the lines in the order
  of the file, and the warnings in that order, so a line that fails does not end the
  parsing of the lines after it; this is also what the parser returns for the file, in the
  Gemini collector when its scanner has reached the end of the file without an error.
\<close>

theorem history_line_classification:
  "(TrimSpace L raw = t \<and> t \<noteq> [] \<and> HasPrefix t ''{'' \<and> gemini_Decode L True t = Inr e \<longrightarrow>
      gemini_lineRecords L raw n = [gemini_convertHistoryEntryToSession L e n] \<and>
      gemini_lineWarnings L raw n = [] \<and>
      map roleAndContent (Messages (gemini_convertHistoryEntryToSession L e n)) =
        (if ghe_Prompt e = [] then [] else [(''user'', ghe_Prompt e)]) @
        (if ghe_Response e = [] then [] else [(''assistant'', ghe_Response e)]))
   \<and> (DecodeValue L t = Inr (JObject members) \<and> (key, v) \<in> set members \<and>
      matchField L gemini_fieldNames key = None \<longrightarrow>
      isl (gemini_Decode L True t))
   \<and> (TrimSpace L raw = t \<and> t \<noteq> [] \<and> HasPrefix t ''{'' \<and> gemini_Decode L True t = Inl err \<longrightarrow>
      gemini_lineRecords L raw n = [] \<and>
      gemini_lineWarnings L raw n =
        [LogWarnf ''Failed to parse history line %d: %v''
           [ArgInt (int n), ArgError (Errorf ''failed to parse JSON: %w'' [ArgError err])]])
   \<and> (TrimSpace L raw = t \<and> t \<noteq> [] \<and> \<not> HasPrefix t ''{'' \<and> TrimSpace L t \<noteq> [] \<longrightarrow>
      map (\<lambda>s. map roleAndContent (Messages s)) (gemini_lineRecords L raw n) = [[(''user'', t)]] \<and>
      gemini_lineWarnings L raw n = [])
   \<and> (TrimSpace L raw = [] \<longrightarrow>
      gemini_lineRecords L raw n = [] \<and> gemini_lineWarnings L raw n = [])
   \<and> ((\<forall>i. ctx (HistoryLine i) = None) \<and>
      length acc + length (gemini_linesRecords L n texts) < 10000 \<longrightarrow>
      gemini_scanLoop L ctx texts n acc logs =
        (Inr (acc @ gemini_linesRecords L n texts, n + length texts),
         logs @ gemini_linesWarnings L n texts))
   \<and> (Open L path = Inr scanner \<and> scan_Err scanner (length (scan_lines scanner)) = None \<and>
      (\<forall>i. ctx (HistoryLine i) = None) \<and>
      length (gemini_linesRecords L 0 (scan_lines scanner)) < 10000 \<longrightarrow>
      gemini_parseHistoryFileStreaming L ctx path cc =
        (Inr (gemini_linesRecords L 0 (scan_lines scanner)),
         gemini_linesWarnings L 0 (scan_lines scanner)))
   \<and> (TrimSpace L raw = t \<and> t \<noteq> [] \<and> HasPrefix t ''{'' \<and> amazonq_Decode L False t = Inr a \<longrightarrow>
      amazonq_lineRecords L raw n = [amazonq_convertHistoryEntryToSession L a n] \<and>
      amazonq_lineWarnings L raw n = [] \<and>
      map roleAndContent (Messages (amazonq_convertHistoryEntryToSession L a n)) =
        (if aqe_Query a = [] then [] else [(''user'', aqe_Query a)]) @
        (if aqe_Response a = [] then [] else [(''assistant'', aqe_Response a)]))
   \<and> amazonq_decodeObject L False members a0 saved =
      amazonq_decodeObject L False
        (filter (\<lambda>(key, v). matchField L amazonq_fieldNames key \<noteq> None) members) a0 saved
   \<and> (TrimSpace L raw = t \<and> t \<noteq> [] \<and> HasPrefix t ''{'' \<and> amazonq_Decode L False t = Inl err \<longrightarrow>
      amazonq_lineRecords L raw n = [] \<and>
      amazonq_lineWarnings L raw n =
        [LogWarnf ''Failed to parse Amazon Q history line %d: %v\<newline>''
           [ArgInt (int n), ArgError (Errorf ''failed to parse JSON: %w'' [ArgError err])]])
   \<and> (TrimSpace L raw = t \<and> t \<noteq> [] \<and> \<not> HasPrefix t ''{'' \<and> TrimSpace L t \<noteq> [] \<longrightarrow>
      map (\<lambda>s. map roleAndContent (Messages s)) (amazonq_lineRecords L raw n) = [[(''user'', t)]] \<and>
      amazonq_lineWarnings L raw n = [])
   \<and> (TrimSpace L raw = [] \<longrightarrow>
      amazonq_lineRecords L raw n = [] \<and> amazonq_lineWarnings L raw n = [])
   \<and> ((\<forall>i. ctx (HistoryLine i) = None) \<and>
      length acc + length (amazonq_linesRecords L n texts) < 10000 \<longrightarrow>
      amazonq_lineLoop L ctx texts n acc logs =
        (Inr (acc @ amazonq_linesRecords L n texts), logs @ amazonq_linesWarnings L n texts))
   \<and> (ReadFile fileReader path = Inr content \<and> (\<forall>i. ctx (HistoryLine i) = None) \<and>
      length (amazonq_linesRecords L 0 (Split content newline)) < 10000 \<longrightarrow>
      amazonq_parseHistoryFileStreaming L fileReader ctx path cc =
        (Inr (amazonq_linesRecords L 0 (Split content newline)),
         amazonq_linesWarnings L 0 (Split content newline)))"
proof -
  have g1: "TrimSpace L raw = t \<and> t \<noteq> [] \<and> HasPrefix t ''{'' \<and> gemini_Decode L True t = Inr e \<longrightarrow>
      gemini_lineRecords L raw n = [gemini_convertHistoryEntryToSession L e n] \<and>
      gemini_lineWarnings L raw n = [] \<and>
      map roleAndContent (Messages (gemini_convertHistoryEntryToSession L e n)) =
        (if ghe_Prompt e = [] then [] else [(''user'', ghe_Prompt e)]) @
        (if ghe_Response e = [] then [] else [(''assistant'', ghe_Response e)])"
    by (auto simp: gemini_lineRecords_def gemini_lineWarnings_def gemini_parseHistoryLine_def
        gemini_parseJSONHistoryEntry_def gemini_convertHistoryEntryToSession_def
        roleAndContent_def Let_def)
  have g2: "DecodeValue L t = Inr (JObject members) \<and> (key, v) \<in> set members \<and>
      matchField L gemini_fieldNames key = None \<longrightarrow>
      isl (gemini_Decode L True t)"
    using gemini_unknown_field_rejected[of L t members key v] by blast
  have g3: "TrimSpace L raw = t \<and> t \<noteq> [] \<and> HasPrefix t ''{'' \<and> gemini_Decode L True t = Inl err \<longrightarrow>
      gemini_lineRecords L raw n = [] \<and>
      gemini_lineWarnings L raw n =
        [LogWarnf ''Failed to parse history line %d: %v''
           [ArgInt (int n), ArgError (Errorf ''failed to parse JSON: %w'' [ArgError err])]]"
    by (auto simp: gemini_lineRecords_def gemini_lineWarnings_def gemini_parseHistoryLine_def
        gemini_parseJSONHistoryEntry_def)
  have g4: "TrimSpace L raw = t \<and> t \<noteq> [] \<and> \<not> HasPrefix t ''{'' \<and> TrimSpace L t \<noteq> [] \<longrightarrow>
      map (\<lambda>s. map roleAndContent (Messages s)) (gemini_lineRecords L raw n) = [[(''user'', t)]] \<and>
      gemini_lineWarnings L raw n = []"
    by (auto simp: gemini_lineRecords_def gemini_lineWarnings_def gemini_parseHistoryLine_def
        gemini_parseTextHistoryEntry_def roleAndContent_def Let_def)
  have g5: "TrimSpace L raw = [] \<longrightarrow>
      gemini_lineRecords L raw n = [] \<and> gemini_lineWarnings L raw n = []"
    by (simp add: gemini_lineRecords_def gemini_lineWarnings_def)
  have g6: "(\<forall>i. ctx (HistoryLine i) = None) \<and>
      length acc + length (gemini_linesRecords L n texts) < 10000 \<longrightarrow>
      gemini_scanLoop L ctx texts n acc logs =
        (Inr (acc @ gemini_linesRecords L n texts, n + length texts),
         logs @ gemini_linesWarnings L n texts)"
    using gemini_scanLoop_lines[of ctx acc L n texts logs] by blast
  have g7: "Open L path = Inr scanner \<and> scan_Err scanner (length (scan_lines scanner)) = None \<and>
      (\<forall>i. ctx (HistoryLine i) = None) \<and>
      length (gemini_linesRecords L 0 (scan_lines scanner)) < 10000 \<longrightarrow>
      gemini_parseHistoryFileStreaming L ctx path cc =
        (Inr (gemini_linesRecords L 0 (scan_lines scanner)),
         gemini_linesWarnings L 0 (scan_lines scanner))"
    using gemini_file_lines[of L path scanner ctx cc] by blast
  have a1: "TrimSpace L raw = t \<and> t \<noteq> [] \<and> HasPrefix t ''{'' \<and> amazonq_Decode L False t = Inr a \<longrightarrow>
      amazonq_lineRecords L raw n = [amazonq_convertHistoryEntryToSession L a n] \<and>
      amazonq_lineWarnings L raw n = [] \<and>
      map roleAndContent (Messages (amazonq_convertHistoryEntryToSession L a n)) =
        (if aqe_Query a = [] then [] else [(''user'', aqe_Query a)]) @
        (if aqe_Response a = [] then [] else [(''assistant'', aqe_Response a)])"
    by (auto simp: amazonq_lineRecords_def amazonq_lineWarnings_def amazonq_parseHistoryLine_def
        amazonq_parseJSONHistoryEntry_def amazonq_convertHistoryEntryToSession_def
        roleAndContent_def Let_def)
  have a3: "TrimSpace L raw = t \<and> t \<noteq> [] \<and> HasPrefix t ''{'' \<and> amazonq_Decode L False t = Inl err \<longrightarrow>
      amazonq_lineRecords L raw n = [] \<and>
      amazonq_lineWarnings L raw n =
        [LogWarnf ''Failed to parse Amazon Q history line %d: %v\<newline>''
           [ArgInt (int n), ArgError (Errorf ''failed to parse JSON: %w'' [ArgError err])]]"
    by (auto simp: amazonq_lineRecords_def amazonq_lineWarnings_def amazonq_parseHistoryLine_def
        amazonq_parseJSONHistoryEntry_def)
  have a4: "TrimSpace L raw = t \<and> t \<noteq> [] \<and> \<not> HasPrefix t ''{'' \<and> TrimSpace L t \<noteq> [] \<longrightarrow>
      map (\<lambda>s. map roleAndContent (Messages s)) (amazonq_lineRecords L raw n) = [[(''user'', t)]] \<and>
      amazonq_lineWarnings L raw n = []"
    by (auto simp: amazonq_lineRecords_def amazonq_lineWarnings_def amazonq_parseHistoryLine_def
        amazonq_parseTextHistoryEntry_def roleAndContent_def Let_def)
  have a5: "TrimSpace L raw = [] \<longrightarrow>
      amazonq_lineRecords L raw n = [] \<and> amazonq_lineWarnings L raw n = []"
    by (simp add: amazonq_lineRecords_def amazonq_lineWarnings_def)
  have a6: "(\<forall>i. ctx (HistoryLine i) = None) \<and>
      length acc + length (amazonq_linesRecords L n texts) < 10000 \<longrightarrow>
      amazonq_lineLoop L ctx texts n acc logs =
        (Inr (acc @ amazonq_linesRecords L n texts), logs @ amazonq_linesWarnings L n texts)"
    using amazonq_lineLoop_lines[of ctx acc L n texts logs] by blast
  have a7: "ReadFile fileReader path = Inr content \<and> (\<forall>i. ctx (HistoryLine i) = None) \<and>
      length (amazonq_linesRecords L 0 (Split content newline)) < 10000 \<longrightarrow>
      amazonq_parseHistoryFileStreaming L fileReader ctx path cc =
        (Inr (amazonq_linesRecords L 0 (Split content newline)),
         amazonq_linesWarnings L 0 (Split content newline))"
    using amazonq_file_lines[of fileReader path content ctx L cc] by blast
  from g1 g2 g3 g4 g5 g6 g7 a1 amazonq_decodeObject_lenient[of L members a0 saved] a3 a4 a5 a6 a7
  show ?thesis by blast
qed

lemma Split_replicate: "c \<noteq> sep \<Longrightarrow> Split (replicate k c) sep = [replicate k c]"
  by (induction k) simp_all

lemma overlongLine_length: "length overlongLine = 65536"
  unfolding overlongLine_def by (rule length_replicate)

lemma overlongLine_not_Nil: "overlongLine \<noteq> []"
  using overlongLine_length by auto

lemma overlongLine_last: "last overlongLine = CHR ''a''"
  unfolding overlongLine_def by (rule last_replicate) simp

lemma overlongLine_Split: "Split overlongLine newline = [overlongLine]"
  unfolding overlongLine_def by (rule Split_replicate) (simp add: newline_def)

text \<open>
  C5 as stated fails on the Amazon Q collector: its decoder is not strict. The first line
  below has the key \<^verbatim>\<open>extra\<close>, which no field of the schema matches, and is turned into a
  session. It fails on a line of white space, which is not empty and does not begin
  with \<^verbatim>\<open>{\<close>: both parsers skip it and make no text record. And it fails in the Gemini
  collector on a file with a line of 64KB: the scanner delivers the line \<^verbatim>\<open>hello\<close> before it
  and then stops with an error, and the parser returns the error and no record for any
  line of the file.
\<close>

theorem history_line_claim_fails:
  \<open>matchField (mockLib [] []) amazonq_fieldNames ''extra'' = None
   \<and> amazonq_parseHistoryLine (mockLib [] []) ''{"id":"a","extra":"x"}'' 1 =
       Inr (Some (amazonq_convertHistoryEntryToSession (mockLib [] [])
                    (amazonq_zeroEntry\<lparr>aqe_ID := ''a''\<rparr>) 1))
   \<and> ID (amazonq_convertHistoryEntryToSession (mockLib [] [])
           (amazonq_zeroEntry\<lparr>aqe_ID := ''a''\<rparr>) 1) = ''a''
   \<and> gemini_scanLoop (mockLib [] []) background [''   ''] 0 [] [] = (Inr ([], 1), [])
   \<and> amazonq_lineLoop (mockLib [] []) background [''   ''] 0 [] [] = (Inr [], [])
   \<and> length overlongLine = 64 * 1024
   \<and> scan_lines (mock_Scanner (''hello\<newline>'' @ overlongLine)) = [''hello'']
   \<and> scan_Err (mock_Scanner (''hello\<newline>'' @ overlongLine)) 1 = Some ErrTooLong
   \<and> gemini_parseHistoryFileStreaming
       (mockLib [(''/test/history.jsonl'', ''hello\<newline>'' @ overlongLine)] [])
       background ''/test/history.jsonl'' emptyConfig =
       (Inl (Errorf ''error reading history file: %w'' [ArgError ErrTooLong]), [])\<close>
proof -
  have a: \<open>matchField (mockLib [] []) amazonq_fieldNames ''extra'' = None
   \<and> amazonq_parseHistoryLine (mockLib [] []) ''{"id":"a","extra":"x"}'' 1 =
       Inr (Some (amazonq_convertHistoryEntryToSession (mockLib [] [])
                    (amazonq_zeroEntry\<lparr>aqe_ID := ''a''\<rparr>) 1))
   \<and> ID (amazonq_convertHistoryEntryToSession (mockLib [] [])
           (amazonq_zeroEntry\<lparr>aqe_ID := ''a''\<rparr>) 1) = ''a''
   \<and> gemini_scanLoop (mockLib [] []) background [''   ''] 0 [] [] = (Inr ([], 1), [])
   \<and> amazonq_lineLoop (mockLib [] []) background [''   ''] 0 [] [] = (Inr [], [])\<close>
    by (simp add: amazonq_line_defs decode_defs mock_defs
        amazonq_convertHistoryEntryToSession_def Let_def)
  have s: "mock_Scanner (''hello\<newline>'' @ overlongLine) =
      \<lparr>scan_lines = [''hello''],
       scan_Err = (\<lambda>k. if k = 1 then Some ErrTooLong else None)\<rparr>"
    by (simp add: mock_Scanner_def bufferSize_def newline_def overlongLine_length
        overlongLine_not_Nil overlongLine_last overlongLine_Split[unfolded newline_def] Let_def)
  have g: "gemini_parseHistoryFileStreaming
       (mockLib [(''/test/history.jsonl'', ''hello\<newline>'' @ overlongLine)] [])
       background ''/test/history.jsonl'' emptyConfig =
       (Inl (Errorf ''error reading history file: %w'' [ArgError ErrTooLong]), [])"
    by (simp add: gemini_line_defs mockLib_def s[simplified] mock_TrimSpace_def asciiSpace_def
        HasPrefix_def background_def Let_def)
  show ?thesis
    using a g by (simp add: s[simplified] overlongLine_length)
qed

theorem history_line_classification_witness:
  \<open>scan_lines (mock_Scanner ''{"prompt":"p","response":"r"}\<newline> {broken \<newline>hello\<newline>   \<newline>'') =
     [''{"prompt":"p","response":"r"}'', '' {broken '', ''hello'', ''   '']
   \<and> map (\<lambda>s. map roleAndContent (Messages s))
       (recordsOf (fst (gemini_parseHistoryFileStreaming
          (mockLib [(''/test/history.jsonl'',
                     ''{"prompt":"p","response":"r"}\<newline> {broken \<newline>hello\<newline>   \<newline>'')] [])
          background ''/test/history.jsonl'' emptyConfig))) =
     [[(''user'', ''p''), (''assistant'', ''r'')], [(''user'', ''hello'')]]
   \<and> snd (gemini_parseHistoryFileStreaming
          (mockLib [(''/test/history.jsonl'',
                     ''{"prompt":"p","response":"r"}\<newline> {broken \<newline>hello\<newline>   \<newline>'')] [])
          background ''/test/history.jsonl'' emptyConfig) =
     [LogWarnf ''Failed to parse history line %d: %v''
        [ArgInt 2, ArgError (Errorf ''failed to parse JSON: %w'' [ArgError syntaxError])]]
   \<and> isl (gemini_Decode (mockLib [] []) True ''{"query":"q","extra":"x"}'')
   \<and> Split ''{"query":"q","extra":"x"}\<newline> {broken \<newline>hello\<newline>   \<newline>'' newline =
     [''{"query":"q","extra":"x"}'', '' {broken '', ''hello'', ''   '', []]
   \<and> map (\<lambda>s. map roleAndContent (Messages s))
       (recordsOf (fst (amazonq_parseHistoryFileStreaming (mockLib [] [])
          (mockFileReader
             [(''/test/history.jsonl'',
               ''{"query":"q","extra":"x"}\<newline> {broken \<newline>hello\<newline>   \<newline>'')] [])
          background ''/test/history.jsonl'' emptyConfig))) =
     [[(''user'', ''q'')], [(''user'', ''hello'')]]
   \<and> snd (amazonq_parseHistoryFileStreaming (mockLib [] [])
          (mockFileReader
             [(''/test/history.jsonl'',
               ''{"query":"q","extra":"x"}\<newline> {broken \<newline>hello\<newline>   \<newline>'')] [])
          background ''/test/history.jsonl'' emptyConfig) =
     [LogWarnf ''Failed to parse Amazon Q history line %d: %v\<newline>''
        [ArgInt 2, ArgError (Errorf ''failed to parse JSON: %w'' [ArgError syntaxError])]]\<close>
proof -
  let ?gc = \<open>''{"prompt":"p","response":"r"}\<newline> {broken \<newline>hello\<newline>   \<newline>''\<close>
  let ?ac = \<open>''{"query":"q","extra":"x"}\<newline> {broken \<newline>hello\<newline>   \<newline>''\<close>
  let ?gl = \<open>''{"prompt":"p","response":"r"}''\<close>
  let ?al = \<open>''{"query":"q","extra":"x"}''\<close>
  let ?G = "mockLib [(''/test/history.jsonl'', ?gc)] []"
  let ?L = "mockLib [] []"
  let ?fr = "mockFileReader [(''/test/history.jsonl'', ?ac)] []"
  let ?ge = "gemini_zeroEntry\<lparr>ghe_Prompt := ''p'', ghe_Response := ''r''\<rparr>"
  let ?ae = "amazonq_zeroEntry\<lparr>aqe_Query := ''q''\<rparr>"
  note c = history_line_classification
  have live: "\<forall>i. background (HistoryLine i) = None"
    by (simp add: background_def)
  have hg1: "TrimSpace ?G ?gl = ?gl \<and> ?gl \<noteq> [] \<and> HasPrefix ?gl ''{''
      \<and> gemini_Decode ?G True ?gl = Inr ?ge"
    by (simp add: decode_defs mock_defs)
  have hg2: "TrimSpace ?G '' {broken '' = ''{broken'' \<and> ''{broken'' \<noteq> [] \<and> HasPrefix ''{broken'' ''{''
      \<and> gemini_Decode ?G True ''{broken'' = Inl syntaxError"
    by (simp add: decode_defs mock_defs)
  have hg3: "TrimSpace ?G ''hello'' = ''hello'' \<and> ''hello'' \<noteq> [] \<and> \<not> HasPrefix ''hello'' ''{''
      \<and> TrimSpace ?G ''hello'' \<noteq> []"
    by (simp add: mock_defs)
  have hg4: "TrimSpace ?G ''   '' = []"
    by (simp add: mock_defs)
  from c[where L = ?G and raw = ?gl and t = ?gl and n = 1 and e = ?ge,
            THEN conjunct1] hg1
  have g1: "gemini_lineRecords ?G ?gl 1 = [gemini_convertHistoryEntryToSession ?G ?ge 1]
      \<and> gemini_lineWarnings ?G ?gl 1 = []
      \<and> map roleAndContent (Messages (gemini_convertHistoryEntryToSession ?G ?ge 1)) =
          [(''user'', ''p''), (''assistant'', ''r'')]"
    by (simp add: gemini_zeroEntry_def)
  from c[where L = ?G and raw = "'' {broken ''" and t = "''{broken''" and n = 2
      and err = syntaxError,
            THEN conjunct2, THEN conjunct2, THEN conjunct1] hg2
  have g2: "gemini_lineRecords ?G '' {broken '' 2 = []
      \<and> gemini_lineWarnings ?G '' {broken '' 2 =
          [LogWarnf ''Failed to parse history line %d: %v''
             [ArgInt 2, ArgError (Errorf ''failed to parse JSON: %w'' [ArgError syntaxError])]]"
    by simp
  from c[where L = ?G and raw = "''hello''" and t = "''hello''" and n = 3,
            THEN conjunct2, THEN conjunct2, THEN conjunct2, THEN conjunct1] hg3
  have g3: "map (\<lambda>s. map roleAndContent (Messages s)) (gemini_lineRecords ?G ''hello'' 3) =
          [[(''user'', ''hello'')]]
      \<and> gemini_lineWarnings ?G ''hello'' 3 = []"
    by blast
  from c[where L = ?G and raw = "''   ''" and n = 4,
            THEN conjunct2, THEN conjunct2, THEN conjunct2, THEN conjunct2, THEN conjunct1] hg4
  have g4: "gemini_lineRecords ?G ''   '' 4 = [] \<and> gemini_lineWarnings ?G ''   '' 4 = []"
    by blast
  have gs: "scan_lines (mock_Scanner ?gc) = [?gl, '' {broken '', ''hello'', ''   '']"
    by (simp add: mock_Scanner_def bufferSize_def newline_def Let_def)
  have gerr: "scan_Err (mock_Scanner ?gc) (length (scan_lines (mock_Scanner ?gc))) = None"
    by (simp add: mock_Scanner_def bufferSize_def newline_def Let_def)
  have go: "Open ?G ''/test/history.jsonl'' = Inr (mock_Scanner ?gc)"
    by (simp add: mockLib_def)
  have gr: "gemini_linesRecords ?G 0 [?gl, '' {broken '', ''hello'', ''   ''] =
      gemini_convertHistoryEntryToSession ?G ?ge 1 # gemini_lineRecords ?G ''hello'' 3"
    using g1 g2 g4 by (simp add: gemini_linesRecords_def eval_nat_numeral)
  have gw: "gemini_linesWarnings ?G 0 [?gl, '' {broken '', ''hello'', ''   ''] =
      [LogWarnf ''Failed to parse history line %d: %v''
         [ArgInt 2, ArgError (Errorf ''failed to parse JSON: %w'' [ArgError syntaxError])]]"
    using g1 g2 g3 g4 by (simp add: gemini_linesWarnings_def eval_nat_numeral)
  have gn: "length (gemini_linesRecords ?G 0 (scan_lines (mock_Scanner ?gc))) < 10000"
    using g3 unfolding gs gr by (auto simp: map_eq_Cons_conv)
  from c[where L = ?G and path = "''/test/history.jsonl''" and scanner = "mock_Scanner ?gc"
      and ctx = background and cc = emptyConfig,
            THEN conjunct2, THEN conjunct2, THEN conjunct2, THEN conjunct2, THEN conjunct2,
      THEN conjunct2, THEN conjunct1] go gerr gn live
  have gf: "gemini_parseHistoryFileStreaming ?G background ''/test/history.jsonl'' emptyConfig =
      (Inr (gemini_linesRecords ?G 0 (scan_lines (mock_Scanner ?gc))),
       gemini_linesWarnings ?G 0 (scan_lines (mock_Scanner ?gc)))"
    by blast
  have w1: "map (\<lambda>s. map roleAndContent (Messages s))
       (recordsOf (fst (gemini_parseHistoryFileStreaming ?G background ''/test/history.jsonl''
          emptyConfig))) =
     [[(''user'', ''p''), (''assistant'', ''r'')], [(''user'', ''hello'')]]
     \<and> snd (gemini_parseHistoryFileStreaming ?G background ''/test/history.jsonl'' emptyConfig) =
     [LogWarnf ''Failed to parse history line %d: %v''
        [ArgInt 2, ArgError (Errorf ''failed to parse JSON: %w'' [ArgError syntaxError])]]"
    unfolding gf gs gr gw using g1 g3 by (simp add: recordsOf_def)
  have hu: \<open>DecodeValue ?L ?al = Inr (JObject [(''query'', JString ''q''), (''extra'', JString ''x'')])
     \<and> (''extra'', JString ''x'') \<in> set [(''query'', JString ''q''), (''extra'', JString ''x'')]
     \<and> matchField ?L gemini_fieldNames ''extra'' = None\<close>
    by (simp add: decode_defs mock_defs)
  from c[where L = ?L and t = ?al
      and members = "[(''query'', JString ''q''), (''extra'', JString ''x'')]"
      and key = "''extra''" and v = "JString ''x''", THEN conjunct2, THEN conjunct1] hu
  have w2: "isl (gemini_Decode ?L True ?al)"
    by blast
  have ha1: "TrimSpace ?L ?al = ?al \<and> ?al \<noteq> [] \<and> HasPrefix ?al ''{''
      \<and> amazonq_Decode ?L False ?al = Inr ?ae"
    by (simp add: decode_defs mock_defs)
  have ha2: "TrimSpace ?L '' {broken '' = ''{broken'' \<and> ''{broken'' \<noteq> [] \<and> HasPrefix ''{broken'' ''{''
      \<and> amazonq_Decode ?L False ''{broken'' = Inl syntaxError"
    by (simp add: decode_defs mock_defs)
  have ha3: "TrimSpace ?L ''hello'' = ''hello'' \<and> ''hello'' \<noteq> [] \<and> \<not> HasPrefix ''hello'' ''{''
      \<and> TrimSpace ?L ''hello'' \<noteq> []"
    by (simp add: mock_defs)
  have ha4: "TrimSpace ?L ''   '' = [] \<and> TrimSpace ?L [] = []"
    by (simp add: mock_defs)
  from c[where L = ?L and raw = ?al and t = ?al and n = 1 and a = ?ae,
            THEN conjunct2, THEN conjunct2, THEN conjunct2, THEN conjunct2, THEN conjunct2,
      THEN conjunct2, THEN conjunct2, THEN conjunct1] ha1
  have a1: "amazonq_lineRecords ?L ?al 1 = [amazonq_convertHistoryEntryToSession ?L ?ae 1]
      \<and> amazonq_lineWarnings ?L ?al 1 = []
      \<and> map roleAndContent (Messages (amazonq_convertHistoryEntryToSession ?L ?ae 1)) =
          [(''user'', ''q'')]"
    by (simp add: amazonq_zeroEntry_def)
  from c[where L = ?L and raw = "'' {broken ''" and t = "''{broken''" and n = 2
      and err = syntaxError,
            THEN conjunct2, THEN conjunct2, THEN conjunct2, THEN conjunct2, THEN conjunct2,
      THEN conjunct2, THEN conjunct2, THEN conjunct2, THEN conjunct2, THEN conjunct1] ha2
  have a2: "amazonq_lineRecords ?L '' {broken '' 2 = []
      \<and> amazonq_lineWarnings ?L '' {broken '' 2 =
          [LogWarnf ''Failed to parse Amazon Q history line %d: %v\<newline>''
             [ArgInt 2, ArgError (Errorf ''failed to parse JSON: %w'' [ArgError syntaxError])]]"
    by simp
  from c[where L = ?L and raw = "''hello''" and t = "''hello''" and n = 3,
            THEN conjunct2, THEN conjunct2, THEN conjunct2, THEN conjunct2, THEN conjunct2,
      THEN conjunct2, THEN conjunct2, THEN conjunct2, THEN conjunct2, THEN conjunct2,
      THEN conjunct1] ha3
  have a3: "map (\<lambda>s. map roleAndContent (Messages s)) (amazonq_lineRecords ?L ''hello'' 3) =
          [[(''user'', ''hello'')]]
      \<and> amazonq_lineWarnings ?L ''hello'' 3 = []"
    by blast
  from c[where L = ?L and raw = "''   ''" and n = 4,
            THEN conjunct2, THEN conjunct2, THEN conjunct2, THEN conjunct2, THEN conjunct2,
      THEN conjunct2, THEN conjunct2, THEN conjunct2, THEN conjunct2, THEN conjunct2,
      THEN conjunct2, THEN conjunct1] ha4
  have a4: "amazonq_lineRecords ?L ''   '' 4 = [] \<and> amazonq_lineWarnings ?L ''   '' 4 = []"
    by blast
  from c[where L = ?L and raw = "[]" and n = 5,
            THEN conjunct2, THEN conjunct2, THEN conjunct2, THEN conjunct2, THEN conjunct2,
      THEN conjunct2, THEN conjunct2, THEN conjunct2, THEN conjunct2, THEN conjunct2,
      THEN conjunct2, THEN conjunct1] ha4
  have a5: "amazonq_lineRecords ?L [] 5 = [] \<and> amazonq_lineWarnings ?L [] 5 = []"
    by blast
  have sp: "Split ?ac newline = [?al, '' {broken '', ''hello'', ''   '', []]"
    by (simp add: newline_def)
  have ar: "ReadFile ?fr ''/test/history.jsonl'' = Inr ?ac"
    by (simp add: mockFileReader_def)
  have arr: "amazonq_linesRecords ?L 0 [?al, '' {broken '', ''hello'', ''   '', []] =
      amazonq_convertHistoryEntryToSession ?L ?ae 1 # amazonq_lineRecords ?L ''hello'' 3"
    using a1 a2 a4 a5 by (simp add: amazonq_linesRecords_def eval_nat_numeral)
  have aw: "amazonq_linesWarnings ?L 0 [?al, '' {broken '', ''hello'', ''   '', []] =
      [LogWarnf ''Failed to parse Amazon Q history line %d: %v\<newline>''
         [ArgInt 2, ArgError (Errorf ''failed to parse JSON: %w'' [ArgError syntaxError])]]"
    using a1 a2 a3 a4 a5 by (simp add: amazonq_linesWarnings_def eval_nat_numeral)
  have an: "length (amazonq_linesRecords ?L 0 (Split ?ac newline)) < 10000"
    using a3 unfolding sp arr by (auto simp: map_eq_Cons_conv)
  from c[where L = ?L and fileReader = ?fr and path = "''/test/history.jsonl''"
      and content = ?ac and ctx = background and cc = emptyConfig,
            THEN conjunct2, THEN conjunct2, THEN conjunct2, THEN conjunct2, THEN conjunct2,
      THEN conjunct2, THEN conjunct2, THEN conjunct2, THEN conjunct2, THEN conjunct2,
      THEN conjunct2, THEN conjunct2, THEN conjunct2] ar an live
  have af: "amazonq_parseHistoryFileStreaming ?L ?fr background ''/test/history.jsonl'' emptyConfig =
      (Inr (amazonq_linesRecords ?L 0 (Split ?ac newline)),
       amazonq_linesWarnings ?L 0 (Split ?ac newline))"
    by blast
  have w3: "map (\<lambda>s. map roleAndContent (Messages s))
       (recordsOf (fst (amazonq_parseHistoryFileStreaming ?L ?fr background
          ''/test/history.jsonl'' emptyConfig))) =
     [[(''user'', ''q'')], [(''user'', ''hello'')]]
     \<and> snd (amazonq_parseHistoryFileStreaming ?L ?fr background ''/test/history.jsonl''
          emptyConfig) =
     [LogWarnf ''Failed to parse Amazon Q history line %d: %v\<newline>''
        [ArgInt 2, ArgError (Errorf ''failed to parse JSON: %w'' [ArgError syntaxError])]]"
    unfolding af sp arr aw using a1 a3 by (simp add: recordsOf_def)
  show ?thesis
    using gs w1 w2 sp w3 by blast
qed

section \<open>The size cap\<close>

lemma gemini_validate_withoutHistoryFile:
  "gemini_validateConfigDirectory L (g\<lparr>g_config := withoutHistoryFile (g_config g)\<rparr>) =
   gemini_validateConfigDirectory L g"
  by (simp add: gemini_validateConfigDirectory_def withoutHistoryFile_def split: sum.splits)

lemma gemini_sessionDir_withoutHistoryFile:
  "gemini_collectFromSessionDirConcurrent L (g\<lparr>g_config := withoutHistoryFile (g_config g)\<rparr>) ctx cc =
   gemini_collectFromSessionDirConcurrent L g ctx cc"
proof -
  have p: "gemini_parseSessionFileSafe L (g\<lparr>g_config := withoutHistoryFile (g_config g)\<rparr>) path cc =
      gemini_parseSessionFileSafe L g path cc" for path
    by (simp add: gemini_parseSessionFileSafe_def split: sum.splits)
  have l: "gemini_selectLoop L (g\<lparr>g_config := withoutHistoryFile (g_config g)\<rparr>) ctx cc paths i ss es =
      gemini_selectLoop L g ctx cc paths i ss es" for paths i ss es
    by (induction paths arbitrary: i ss es) (simp_all add: p split: option.splits sum.splits)
  have s: "SessionDir (withoutHistoryFile (g_config g)) = SessionDir (g_config g)"
    by (simp add: withoutHistoryFile_def)
  show ?thesis
    by (simp add: gemini_collectFromSessionDirConcurrent_def l s cong: sum.case_cong if_cong)
qed

lemma gemini_history_too_large:
  assumes "ExpandPath L (HistoryFile (g_config g)) = Inr historyPath"
    and "Stat (g_fileReader g) historyPath = Inr info" and "Size info > 100 * 1024 * 1024"
  shows "gemini_collectFromHistoryWithRetry L g ctx cc =
     (Inl (Errorf ''history file too large: %d bytes (max: %d)''
             [ArgInt (Size info), ArgInt (100 * 1024 * 1024)]), [])"
  using assms by (simp add: gemini_collectFromHistoryWithRetry_def maxFileSize_def)

lemma gemini_Collect_history_too_large:
  assumes "ExpandPath L (HistoryFile (g_config g)) = Inr historyPath"
    and "Stat (g_fileReader g) historyPath = Inr info" and "Size info > 100 * 1024 * 1024"
  shows "fst (gemini_Collect L g ctx (Some cc)) =
     fst (gemini_Collect L (g\<lparr>g_config := withoutHistoryFile (g_config g)\<rparr>) ctx (Some cc))"
proof -
  have h: "HistoryFile (withoutHistoryFile (g_config g)) = []"
    by (simp add: withoutHistoryFile_def)
  have s: "SessionDir (withoutHistoryFile (g_config g)) = SessionDir (g_config g)"
    by (simp add: withoutHistoryFile_def)
  show ?thesis
    unfolding gemini_Collect_def
    by (simp add: gemini_validate_withoutHistoryFile gemini_sessionDir_withoutHistoryFile h s
        gemini_history_too_large[OF assms] Let_def split: option.splits prod.splits sum.splits)
qed

lemma amazonq_validate_withoutHistoryFile:
  "amazonq_validateConfigDirectory L (a\<lparr>a_config := withoutHistoryFile (a_config a)\<rparr>) =
   amazonq_validateConfigDirectory L a"
  by (simp add: amazonq_validateConfigDirectory_def withoutHistoryFile_def split: sum.splits)

lemma amazonq_sessionDir_withoutHistoryFile:
  "amazonq_collectFromSessionDirConcurrent L (a\<lparr>a_config := withoutHistoryFile (a_config a)\<rparr>) ctx cc =
   amazonq_collectFromSessionDirConcurrent L a ctx cc"
proof -
  have p: "amazonq_parseSessionFileSafe L (a\<lparr>a_config := withoutHistoryFile (a_config a)\<rparr>) path cc =
      amazonq_parseSessionFileSafe L a path cc" for path
    by (simp add: amazonq_parseSessionFileSafe_def split: sum.splits)
  have l: "amazonq_selectLoop L (a\<lparr>a_config := withoutHistoryFile (a_config a)\<rparr>) ctx cc paths i ss es =
      amazonq_selectLoop L a ctx cc paths i ss es" for paths i ss es
    by (induction paths arbitrary: i ss es) (simp_all add: p split: option.splits sum.splits)
  have s: "SessionDir (withoutHistoryFile (a_config a)) = SessionDir (a_config a)"
    by (simp add: withoutHistoryFile_def)
  show ?thesis
    by (simp add: amazonq_collectFromSessionDirConcurrent_def l s cong: sum.case_cong if_cong)
qed

lemma amazonq_aws_withoutHistoryFile:
  "amazonq_collectFromAWSConfig L (a\<lparr>a_config := withoutHistoryFile (a_config a)\<rparr>) ctx cc =
   amazonq_collectFromAWSConfig L a ctx cc"
proof -
  have "amazonq_awsLoop L (a\<lparr>a_config := withoutHistoryFile (a_config a)\<rparr>) ctx paths i ss =
      amazonq_awsLoop L a ctx paths i ss" for paths i ss
    by (induction paths arbitrary: i ss) (simp_all split: option.splits sum.splits)
  then show ?thesis
    by (simp add: amazonq_collectFromAWSConfig_def)
qed

lemma amazonq_history_too_large:
  assumes "ExpandPath L (HistoryFile (a_config a)) = Inr historyPath"
    and "Stat (a_fileReader a) historyPath = Inr info" and "Size info > 100 * 1024 * 1024"
  shows "amazonq_collectFromHistoryWithRetry L a ctx cc =
     (Inl (Errorf ''history file too large: %d bytes (max: %d)''
             [ArgInt (Size info), ArgInt (100 * 1024 * 1024)]), [])"
  using assms by (simp add: amazonq_collectFromHistoryWithRetry_def amazonQMaxFileSize_def)

lemma amazonq_Collect_history_too_large:
  assumes "ExpandPath L (HistoryFile (a_config a)) = Inr historyPath"
    and "Stat (a_fileReader a) historyPath = Inr info" and "Size info > 100 * 1024 * 1024"
  shows "fst (amazonq_Collect L a ctx (Some cc)) =
     fst (amazonq_Collect L (a\<lparr>a_config := withoutHistoryFile (a_config a)\<rparr>) ctx (Some cc))"
proof -
  have h: "HistoryFile (withoutHistoryFile (a_config a)) = []"
    by (simp add: withoutHistoryFile_def)
  have s: "SessionDir (withoutHistoryFile (a_config a)) = SessionDir (a_config a)"
    by (simp add: withoutHistoryFile_def)
  show ?thesis
    unfolding amazonq_Collect_def
    by (simp add: amazonq_validate_withoutHistoryFile amazonq_sessionDir_withoutHistoryFile
        amazonq_aws_withoutHistoryFile h s
        amazonq_history_too_large[OF assms] Let_def split: option.splits prod.splits sum.splits)
qed

lemmas collector_defs =
  zeroConfig_def withoutHistoryFile_def ExpandPath_def IsNotExist_def

lemma gemini_min_zero: "gemini_min [maxWorkers, k, m] = 0 \<longleftrightarrow> k = 0 \<or> m = 0"
  by (auto simp: maxWorkers_def)

lemma minInts_zero: "minInts [amazonQMaxWorkers, k, m] = 0 \<longleftrightarrow> k = 0 \<or> m = 0"
  by (auto simp: amazonQMaxWorkers_def)

lemma gemini_selectLoop_sessions:
  "(\<And>i. ctx (SessionResult i) = None) \<Longrightarrow>
   \<exists>errors'. gemini_selectLoop L g ctx cc paths i sessions errors =
     Inr (sessions @ concat (map (gemini_fileRecords L g cc) paths), errors')"
proof (induction paths arbitrary: i sessions errors)
  case Nil
  then show ?case by simp
next
  case (Cons path paths)
  show ?case
  proof (cases "gemini_parseSessionFileSafe L g path cc")
    case (Inl err)
    with Cons.prems Cons.IH[of "i + 1" sessions] show ?thesis
      by (simp add: gemini_fileRecords_def)
  next
    case (Inr session)
    with Cons.prems Cons.IH[of "i + 1" sessions errors]
      Cons.IH[of "i + 1" "sessions @ [the session]" errors] show ?thesis
      by (cases session) (simp_all add: gemini_fileRecords_def)
  qed
qed

lemma amazonq_selectLoop_sessions:
  "(\<And>i. ctx (SessionResult i) = None) \<Longrightarrow>
   \<exists>errors'. amazonq_selectLoop L a ctx cc paths i sessions errors =
     Inr (sessions @ concat (map (amazonq_fileRecords L a cc) paths), errors')"
proof (induction paths arbitrary: i sessions errors)
  case Nil
  then show ?case by simp
next
  case (Cons path paths)
  show ?case
  proof (cases "amazonq_parseSessionFileSafe L a path cc")
    case (Inl err)
    with Cons.prems Cons.IH[of "i + 1" sessions] show ?thesis
      by (simp add: amazonq_fileRecords_def)
  next
    case (Inr session)
    with Cons.prems Cons.IH[of "i + 1" sessions errors]
      Cons.IH[of "i + 1" "sessions @ [the session]" errors] show ?thesis
      by (cases session) (simp_all add: amazonq_fileRecords_def)
  qed
qed

lemma gemini_sessionDir_records:
  assumes "ExpandPath L (SessionDir (g_config g)) = Inr dir"
    and "gemini_walk (WalkDir (g_fileReader g) dir) [] = Inr paths"
    and "0 < NumCPU L" and "\<forall>i. ctx (SessionResult i) = None"
  shows "fst (gemini_collectFromSessionDirConcurrent L g ctx cc) =
     Inr (concat (map (gemini_fileRecords L g cc) paths))"
proof -
  from assms(4) gemini_selectLoop_sessions[of ctx L g cc paths 0 "[]" "[]"]
  obtain errors' where "gemini_selectLoop L g ctx cc paths 0 [] [] =
      Inr (concat (map (gemini_fileRecords L g cc) paths), errors')"
    by auto
  with assms(1-3) show ?thesis
    by (cases "paths = []")
      (simp_all add: gemini_collectFromSessionDirConcurrent_def gemini_min_zero
        del: gemini_min.simps gemini_selectLoop.simps)
qed

lemma amazonq_sessionDir_records:
  assumes "ExpandPath L (SessionDir (a_config a)) = Inr dir"
    and "Stat (a_fileReader a) dir = Inr dirInfo"
    and "amazonq_walk L (WalkDir (a_fileReader a) dir) [] = Inr paths"
    and "0 < NumCPU L" and "\<forall>i. ctx (SessionResult i) = None"
  shows "fst (amazonq_collectFromSessionDirConcurrent L a ctx cc) =
     Inr (concat (map (amazonq_fileRecords L a cc) paths))"
proof -
  from assms(5) amazonq_selectLoop_sessions[of ctx L a cc paths 0 "[]" "[]"]
  obtain errors' where "amazonq_selectLoop L a ctx cc paths 0 [] [] =
      Inr (concat (map (amazonq_fileRecords L a cc) paths), errors')"
    by auto
  with assms(1-4) show ?thesis
    by (cases "paths = []")
      (simp_all add: amazonq_collectFromSessionDirConcurrent_def minInts_zero
        del: minInts.simps amazonq_selectLoop.simps)
qed

lemma gemini_Collect_records:
  assumes "gemini_validateConfigDirectory L g = None" and "SessionDir (g_config g) \<noteq> []"
    and "ExpandPath L (SessionDir (g_config g)) = Inr dir"
    and "gemini_walk (WalkDir (g_fileReader g) dir) [] = Inr paths"
    and "0 < NumCPU L" and "\<forall>i. ctx (SessionResult i) = None" and "DateRange cc = None"
  shows "fst (gemini_Collect L g ctx (Some cc)) =
     Returned ((if HistoryFile (g_config g) \<noteq> []
                then recordsOf (fst (gemini_collectFromHistoryWithRetry L g ctx cc)) else []) @
               concat (map (gemini_fileRecords L g cc) paths)) None"
proof -
  obtain r logs where d: "gemini_collectFromSessionDirConcurrent L g ctx cc = (r, logs)"
    by (cases "gemini_collectFromSessionDirConcurrent L g ctx cc")
  with gemini_sessionDir_records[OF assms(3-6), of cc]
  have r: "r = Inr (concat (map (gemini_fileRecords L g cc) paths))"
    by simp
  obtain h hlogs where h: "gemini_collectFromHistoryWithRetry L g ctx cc = (h, hlogs)"
    by (cases "gemini_collectFromHistoryWithRetry L g ctx cc")
  show ?thesis
    using assms(1,2,7) d r h
    by (cases h) (simp_all add: gemini_Collect_def recordsOf_def Let_def)
qed

lemma amazonq_Collect_records:
  assumes "amazonq_validateConfigDirectory L a = None" and "SessionDir (a_config a) \<noteq> []"
    and "ExpandPath L (SessionDir (a_config a)) = Inr dir"
    and "Stat (a_fileReader a) dir = Inr dirInfo"
    and "amazonq_walk L (WalkDir (a_fileReader a) dir) [] = Inr paths"
    and "0 < NumCPU L" and "\<forall>i. ctx (SessionResult i) = None" and "DateRange cc = None"
  shows "fst (amazonq_Collect L a ctx (Some cc)) =
     Returned (if (if HistoryFile (a_config a) \<noteq> []
                   then recordsOf (fst (amazonq_collectFromHistoryWithRetry L a ctx cc)) else []) @
                  concat (map (amazonq_fileRecords L a cc) paths) @
                  recordsOf (amazonq_collectFromAWSConfig L a ctx cc) = []
               then amazonq_generateDummyData L
               else (if HistoryFile (a_config a) \<noteq> []
                     then recordsOf (fst (amazonq_collectFromHistoryWithRetry L a ctx cc)) else []) @
                    concat (map (amazonq_fileRecords L a cc) paths) @
                    recordsOf (amazonq_collectFromAWSConfig L a ctx cc)) None"
proof -
  obtain r logs where d: "amazonq_collectFromSessionDirConcurrent L a ctx cc = (r, logs)"
    by (cases "amazonq_collectFromSessionDirConcurrent L a ctx cc")
  with amazonq_sessionDir_records[OF assms(3-7), of cc]
  have r: "r = Inr (concat (map (amazonq_fileRecords L a cc) paths))"
    by simp
  obtain h hlogs where h: "amazonq_collectFromHistoryWithRetry L a ctx cc = (h, hlogs)"
    by (cases "amazonq_collectFromHistoryWithRetry L a ctx cc")
  show ?thesis
    using assms(1,2,8) d r h
    by (cases h; cases "amazonq_collectFromAWSConfig L a ctx cc")
      (simp_all add: amazonq_Collect_def recordsOf_def Let_def)
qed

text \<open>
  C6. In the Gemini and in the Amazon Q collector a history file or a session file whose
  size is above 100MB is rejected with an error before it is read, so whatever it holds:
  the sessions \<^verbatim>\<open>Collect\<close> returns are those it returns when no history file is configured,
  and with a live context and no date range they are the sessions of the history file
  followed by those of the session files one by one, none for a file above the cap. Two
  paths have no such test. The loop over the AWS configuration files of the Amazon Q
  collector reads each file that exists whatever its size, among them
  \<^verbatim>\<open>~/.amazon-q/session.json\<close>. The Claude Code collector reads a session file and its
  history file whatever their size: a session file becomes a session, made from the
  decoded object or, when the file is not JSON, of one message that holds the whole file,
  and the history file is decoded and parsed.
\<close>

theorem oversized_file_outcomes:
  "(ExpandPath L (HistoryFile (g_config g)) = Inr historyPath \<and>
    Stat (g_fileReader g) historyPath = Inr info \<and> Size info > 100 * 1024 * 1024 \<longrightarrow>
      gemini_collectFromHistoryWithRetry L g ctx cc =
        (Inl (Errorf ''history file too large: %d bytes (max: %d)''
                [ArgInt (Size info), ArgInt (100 * 1024 * 1024)]), []) \<and>
      fst (gemini_Collect L g ctx (Some cc)) =
        fst (gemini_Collect L (g\<lparr>g_config := withoutHistoryFile (g_config g)\<rparr>) ctx (Some cc)))
   \<and> (Stat (g_fileReader g) path = Inr info \<and> Size info > 100 * 1024 * 1024 \<longrightarrow>
      gemini_parseSessionFileSafe L g path cc =
        Inl (Errorf ''file too large: %d bytes'' [ArgInt (Size info)]) \<and>
      gemini_fileRecords L g cc path = [])
   \<and> (gemini_validateConfigDirectory L g = None \<and> SessionDir (g_config g) \<noteq> [] \<and>
      ExpandPath L (SessionDir (g_config g)) = Inr dir \<and>
      gemini_walk (WalkDir (g_fileReader g) dir) [] = Inr paths \<and> 0 < NumCPU L \<and>
      (\<forall>i. ctx (SessionResult i) = None) \<and> DateRange cc = None \<longrightarrow>
      fst (gemini_Collect L g ctx (Some cc)) =
        Returned ((if HistoryFile (g_config g) \<noteq> []
                   then recordsOf (fst (gemini_collectFromHistoryWithRetry L g ctx cc)) else []) @
                  concat (map (gemini_fileRecords L g cc) paths)) None)
   \<and> (ExpandPath L (HistoryFile (a_config a)) = Inr historyPath \<and>
    Stat (a_fileReader a) historyPath = Inr info \<and> Size info > 100 * 1024 * 1024 \<longrightarrow>
      amazonq_collectFromHistoryWithRetry L a ctx cc =
        (Inl (Errorf ''history file too large: %d bytes (max: %d)''
                [ArgInt (Size info), ArgInt (100 * 1024 * 1024)]), []) \<and>
      fst (amazonq_Collect L a ctx (Some cc)) =
        fst (amazonq_Collect L (a\<lparr>a_config := withoutHistoryFile (a_config a)\<rparr>) ctx (Some cc)))
   \<and> (Stat (a_fileReader a) path = Inr info \<and> Size info > 100 * 1024 * 1024 \<longrightarrow>
      amazonq_parseSessionFileSafe L a path cc =
        Inl (Errorf ''file too large: %d bytes'' [ArgInt (Size info)]) \<and>
      amazonq_fileRecords L a cc path = [])
   \<and> (amazonq_validateConfigDirectory L a = None \<and> SessionDir (a_config a) \<noteq> [] \<and>
      ExpandPath L (SessionDir (a_config a)) = Inr dir \<and>
      Stat (a_fileReader a) dir = Inr dirInfo \<and>
      amazonq_walk L (WalkDir (a_fileReader a) dir) [] = Inr paths \<and> 0 < NumCPU L \<and>
      (\<forall>i. ctx (SessionResult i) = None) \<and> DateRange cc = None \<longrightarrow>
      fst (amazonq_Collect L a ctx (Some cc)) =
        Returned
          (if (if HistoryFile (a_config a) \<noteq> []
               then recordsOf (fst (amazonq_collectFromHistoryWithRetry L a ctx cc)) else []) @
              concat (map (amazonq_fileRecords L a cc) paths) @
              recordsOf (amazonq_collectFromAWSConfig L a ctx cc) = []
           then amazonq_generateDummyData L
           else (if HistoryFile (a_config a) \<noteq> []
                 then recordsOf (fst (amazonq_collectFromHistoryWithRetry L a ctx cc)) else []) @
                concat (map (amazonq_fileRecords L a cc) paths) @
                recordsOf (amazonq_collectFromAWSConfig L a ctx cc)) None)
   \<and> (ctx (AWSPath i) = None \<and> ExpandPath L awsPath = Inr expandedPath \<and>
      Stat (a_fileReader a) expandedPath = Inr info \<and> Size info > 100 * 1024 * 1024 \<and>
      ReadFile (a_fileReader a) expandedPath = Inr data \<longrightarrow>
      amazonq_awsLoop L a ctx (awsPath # rest) i sessions =
        amazonq_awsLoop L a ctx rest (i + 1)
          (sessions @ [amazonq_awsSession L expandedPath data]))
   \<and> (Stat (OS L) path = Inr info \<and> Size info > 100 * 1024 * 1024 \<and>
      ReadFile (OS L) path = Inr data \<and> UnmarshalObject L data = Inr sessionData \<longrightarrow>
      claude_parseSessionFile L path = Inr (Some (claude_parseSessionMap L sessionData)))
   \<and> (Stat (OS L) path = Inr info \<and> Size info > 100 * 1024 * 1024 \<and>
      ReadFile (OS L) path = Inr data \<and> UnmarshalObject L data = Inl err \<longrightarrow>
      (\<exists>session. claude_parseSessionFile L path = Inr (Some session) \<and>
                 map roleAndContent (Messages session) = [(''content'', data)]))
   \<and> (ctx HistoryEntry = None \<and> ctx HistoryRead = None \<and>
      ExpandPath L (HistoryFile (c_config c)) = Inr historyPath \<and>
      Stat (OS L) historyPath = Inr info \<and> Size info > 100 * 1024 * 1024 \<and>
      ReadFile (OS L) historyPath = Inr data \<and> UnmarshalObject L data = Inr historyData \<longrightarrow>
      claude_collectFromHistory L c ctx request = Inr (claude_parseHistoryData L historyData))"
proof -
  have gs: "Stat (g_fileReader g) path = Inr info \<and> Size info > 100 * 1024 * 1024 \<longrightarrow>
      gemini_parseSessionFileSafe L g path cc =
        Inl (Errorf ''file too large: %d bytes'' [ArgInt (Size info)]) \<and>
      gemini_fileRecords L g cc path = []"
    by (simp add: gemini_fileRecords_def gemini_parseSessionFileSafe_def maxFileSize_def)
  have as: "Stat (a_fileReader a) path = Inr info \<and> Size info > 100 * 1024 * 1024 \<longrightarrow>
      amazonq_parseSessionFileSafe L a path cc =
        Inl (Errorf ''file too large: %d bytes'' [ArgInt (Size info)]) \<and>
      amazonq_fileRecords L a cc path = []"
    by (simp add: amazonq_fileRecords_def amazonq_parseSessionFileSafe_def amazonQMaxFileSize_def)
  have aws: "ctx (AWSPath i) = None \<and> ExpandPath L awsPath = Inr expandedPath \<and>
      Stat (a_fileReader a) expandedPath = Inr info \<and> Size info > 100 * 1024 * 1024 \<and>
      ReadFile (a_fileReader a) expandedPath = Inr data \<longrightarrow>
      amazonq_awsLoop L a ctx (awsPath # rest) i sessions =
        amazonq_awsLoop L a ctx rest (i + 1)
          (sessions @ [amazonq_awsSession L expandedPath data])"
    by simp
  have cj: "Stat (OS L) path = Inr info \<and> Size info > 100 * 1024 * 1024 \<and>
      ReadFile (OS L) path = Inr data \<and> UnmarshalObject L data = Inr sessionData \<longrightarrow>
      claude_parseSessionFile L path = Inr (Some (claude_parseSessionMap L sessionData))"
    by (simp add: claude_parseSessionFile_def)
  have ct: "Stat (OS L) path = Inr info \<and> Size info > 100 * 1024 * 1024 \<and>
      ReadFile (OS L) path = Inr data \<and> UnmarshalObject L data = Inl err \<longrightarrow>
      (\<exists>session. claude_parseSessionFile L path = Inr (Some session) \<and>
                 map roleAndContent (Messages session) = [(''content'', data)])"
    by (simp add: claude_parseSessionFile_def claude_parseTextSession_def roleAndContent_def
        Let_def)
  have ch: "ctx HistoryEntry = None \<and> ctx HistoryRead = None \<and>
      ExpandPath L (HistoryFile (c_config c)) = Inr historyPath \<and>
      Stat (OS L) historyPath = Inr info \<and> Size info > 100 * 1024 * 1024 \<and>
      ReadFile (OS L) historyPath = Inr data \<and> UnmarshalObject L data = Inr historyData \<longrightarrow>
      claude_collectFromHistory L c ctx request = Inr (claude_parseHistoryData L historyData)"
    by (simp add: claude_collectFromHistory_def)
  have gh: "ExpandPath L (HistoryFile (g_config g)) = Inr historyPath \<and>
    Stat (g_fileReader g) historyPath = Inr info \<and> Size info > 100 * 1024 * 1024 \<longrightarrow>
      gemini_collectFromHistoryWithRetry L g ctx cc =
        (Inl (Errorf ''history file too large: %d bytes (max: %d)''
                [ArgInt (Size info), ArgInt (100 * 1024 * 1024)]), []) \<and>
      fst (gemini_Collect L g ctx (Some cc)) =
        fst (gemini_Collect L (g\<lparr>g_config := withoutHistoryFile (g_config g)\<rparr>) ctx (Some cc))"
    using gemini_history_too_large[of L g historyPath info ctx cc]
      gemini_Collect_history_too_large[of L g historyPath info ctx cc]
    by blast
  have ah: "ExpandPath L (HistoryFile (a_config a)) = Inr historyPath \<and>
    Stat (a_fileReader a) historyPath = Inr info \<and> Size info > 100 * 1024 * 1024 \<longrightarrow>
      amazonq_collectFromHistoryWithRetry L a ctx cc =
        (Inl (Errorf ''history file too large: %d bytes (max: %d)''
                [ArgInt (Size info), ArgInt (100 * 1024 * 1024)]), []) \<and>
      fst (amazonq_Collect L a ctx (Some cc)) =
        fst (amazonq_Collect L (a\<lparr>a_config := withoutHistoryFile (a_config a)\<rparr>) ctx (Some cc))"
    using amazonq_history_too_large[of L a historyPath info ctx cc]
      amazonq_Collect_history_too_large[of L a historyPath info ctx cc]
    by blast
  have gc: "gemini_validateConfigDirectory L g = None \<and> SessionDir (g_config g) \<noteq> [] \<and>
      ExpandPath L (SessionDir (g_config g)) = Inr dir \<and>
      gemini_walk (WalkDir (g_fileReader g) dir) [] = Inr paths \<and> 0 < NumCPU L \<and>
      (\<forall>i. ctx (SessionResult i) = None) \<and> DateRange cc = None \<longrightarrow>
      fst (gemini_Collect L g ctx (Some cc)) =
        Returned ((if HistoryFile (g_config g) \<noteq> []
                   then recordsOf (fst (gemini_collectFromHistoryWithRetry L g ctx cc)) else []) @
                  concat (map (gemini_fileRecords L g cc) paths)) None"
    using gemini_Collect_records[of L g dir paths ctx cc] by blast
  have ac: "amazonq_validateConfigDirectory L a = None \<and> SessionDir (a_config a) \<noteq> [] \<and>
      ExpandPath L (SessionDir (a_config a)) = Inr dir \<and>
      Stat (a_fileReader a) dir = Inr dirInfo \<and>
      amazonq_walk L (WalkDir (a_fileReader a) dir) [] = Inr paths \<and> 0 < NumCPU L \<and>
      (\<forall>i. ctx (SessionResult i) = None) \<and> DateRange cc = None \<longrightarrow>
      fst (amazonq_Collect L a ctx (Some cc)) =
        Returned
          (if (if HistoryFile (a_config a) \<noteq> []
               then recordsOf (fst (amazonq_collectFromHistoryWithRetry L a ctx cc)) else []) @
              concat (map (amazonq_fileRecords L a cc) paths) @
              recordsOf (amazonq_collectFromAWSConfig L a ctx cc) = []
           then amazonq_generateDummyData L
           else (if HistoryFile (a_config a) \<noteq> []
                 then recordsOf (fst (amazonq_collectFromHistoryWithRetry L a ctx cc)) else []) @
                concat (map (amazonq_fileRecords L a cc) paths) @
                recordsOf (amazonq_collectFromAWSConfig L a ctx cc)) None"
    using amazonq_Collect_records[of L a dir dirInfo paths ctx cc] by blast
  from gh gs gc ah as ac aws cj ct ch show ?thesis
    by (intro conjI)
qed

lemma oversizedContent_length: "length oversizedContent = 104857601"
  by (simp add: oversizedContent_def)

lemma oversizedJSON_length: "length oversizedJSON = 104857601"
  by (simp add: oversizedJSON_def)

theorem oversized_file_outcomes_witness:
  "fst (gemini_Collect (mockLib [] [])
          \<lparr>g_config = zeroConfig\<lparr>SessionDir := ''/test/sessions'',
                                  HistoryFile := ''/test/history.jsonl'', ConfigDir := ''/test''\<rparr>,
           g_fileReader =
             mockFileReader
               [(''/test/history.jsonl'', oversizedContent),
                (''/test/sessions/big.json'', oversizedContent),
                (''/test/sessions/ok.json'', ''hi'')]
               [''/test'', ''/test/sessions'']\<rparr>
          background (Some emptyConfig)) =
     Returned [gemini_parseTextSession (mockLib [] []) ''hi'' ''/test/sessions/ok.json''] None
   \<and> fst (amazonq_Collect (mockLib [] [])
          \<lparr>a_config = zeroConfig\<lparr>SessionDir := ''~/.amazon-q'',
                                  HistoryFile := ''~/.amazon-q/history.jsonl'',
                                  ConfigDir := ''~/.amazon-q''\<rparr>,
           a_fileReader =
             mockFileReader
               [(''/home/user/.amazon-q/history.jsonl'', oversizedContent),
                (''/home/user/.amazon-q/session.json'', oversizedContent)]
               [''/home/user/.amazon-q'']\<rparr>
          background (Some emptyConfig)) =
     Returned [amazonq_awsSession (mockLib [] []) ''/home/user/.amazon-q/session.json''
                 oversizedContent] None
   \<and> (\<exists>session.
        fst (claude_Collect
               (mockLib [(''/test/sessions/big.txt'', oversizedContent)]
                  [''/test'', ''/test/sessions''])
               \<lparr>c_config = zeroConfig\<lparr>SessionDir := ''/test/sessions'', ConfigDir := ''/test''\<rparr>\<rparr>
               background (Some emptyConfig)) = Returned [session] None
        \<and> map roleAndContent (Messages session) = [(''content'', oversizedContent)])
   \<and> fst (claude_Collect
            (jsonLib [(''/test/history.json'', oversizedJSON),
                      (''/test/sessions/big.json'', oversizedJSON)]
               [''/test'', ''/test/sessions''])
            \<lparr>c_config = zeroConfig\<lparr>SessionDir := ''/test/sessions'',
                                    HistoryFile := ''/test/history.json'', ConfigDir := ''/test''\<rparr>\<rparr>
            background (Some emptyConfig)) =
     Returned
       [claude_parseSessionMap
          (jsonLib [(''/test/history.json'', oversizedJSON),
                    (''/test/sessions/big.json'', oversizedJSON)]
             [''/test'', ''/test/sessions''])
          Map.empty,
        claude_parseSessionMap
          (jsonLib [(''/test/history.json'', oversizedJSON),
                    (''/test/sessions/big.json'', oversizedJSON)]
             [''/test'', ''/test/sessions''])
          [''sessions'' \<mapsto> JArray [JObject []]]] None"
proof -
  let ?L = "mockLib [] []"
  let ?info = "\<lparr>Size = 104857601, IsDir = False, ModTime = 0\<rparr>"
  note c = oversized_file_outcomes
  have live: "\<forall>i. background (SessionResult i) = None"
    by (simp add: background_def)
  have cpu: "0 < NumCPU ?L"
    by (simp add: mockLib_def)
  have nodate: "DateRange emptyConfig = None"
    by (simp add: emptyConfig_def)
  let ?gfr = "mockFileReader
               [(''/test/history.jsonl'', oversizedContent),
                (''/test/sessions/big.json'', oversizedContent),
                (''/test/sessions/ok.json'', ''hi'')]
               [''/test'', ''/test/sessions'']"
  let ?g = "\<lparr>g_config = zeroConfig\<lparr>SessionDir := ''/test/sessions'',
                                  HistoryFile := ''/test/history.jsonl'', ConfigDir := ''/test''\<rparr>,
           g_fileReader = ?gfr\<rparr>"
  have gh: "ExpandPath ?L (HistoryFile (g_config ?g)) = Inr ''/test/history.jsonl''
      \<and> Stat (g_fileReader ?g) ''/test/history.jsonl'' = Inr ?info
      \<and> Size ?info > 100 * 1024 * 1024"
    by (simp add: collector_defs mockFileReader_def oversizedContent_length)
  have gb: "Stat (g_fileReader ?g) ''/test/sessions/big.json'' = Inr ?info
      \<and> Size ?info > 100 * 1024 * 1024"
    by (simp add: mockFileReader_def oversizedContent_length)
  have gd: "gemini_validateConfigDirectory ?L ?g = None \<and> SessionDir (g_config ?g) \<noteq> []
      \<and> ExpandPath ?L (SessionDir (g_config ?g)) = Inr ''/test/sessions''
      \<and> gemini_walk (WalkDir (g_fileReader ?g) ''/test/sessions'') [] =
          Inr [''/test/sessions/big.json'', ''/test/sessions/ok.json'']"
    by (simp add: gemini_validateConfigDirectory_def collector_defs mockFileReader_def
        HasPrefix_def HasSuffix_def)
  from c[where L = ?L and g = ?g and historyPath = "''/test/history.jsonl''" and info = ?info
      and ctx = background and cc = emptyConfig, THEN conjunct1] gh
  have g1: "gemini_collectFromHistoryWithRetry ?L ?g background emptyConfig =
      (Inl (Errorf ''history file too large: %d bytes (max: %d)''
              [ArgInt 104857601, ArgInt (100 * 1024 * 1024)]), [])"
    by simp
  from c[where L = ?L and g = ?g and path = "''/test/sessions/big.json''" and info = ?info
      and cc = emptyConfig, THEN conjunct2, THEN conjunct1] gb
  have g2: "gemini_fileRecords ?L ?g emptyConfig ''/test/sessions/big.json'' = []"
    by blast
  have g3: "gemini_fileRecords ?L ?g emptyConfig ''/test/sessions/ok.json'' =
      [gemini_parseTextSession ?L ''hi'' ''/test/sessions/ok.json'']"
    by (simp add: gemini_fileRecords_def gemini_parseSessionFileSafe_def mockFileReader_def
        mockLib_def maxFileSize_def)
  from c[where L = ?L and g = ?g and dir = "''/test/sessions''"
      and paths = "[''/test/sessions/big.json'', ''/test/sessions/ok.json'']"
      and ctx = background and cc = emptyConfig, THEN conjunct2, THEN conjunct2, THEN conjunct1]
    gd cpu live nodate
  have g4: "fst (gemini_Collect ?L ?g background (Some emptyConfig)) =
      Returned ((if HistoryFile (g_config ?g) \<noteq> []
                 then recordsOf (fst (gemini_collectFromHistoryWithRetry ?L ?g background
                                        emptyConfig)) else []) @
                concat (map (gemini_fileRecords ?L ?g emptyConfig)
                          [''/test/sessions/big.json'', ''/test/sessions/ok.json''])) None"
    by blast
  have wg: "fst (gemini_Collect ?L ?g background (Some emptyConfig)) =
      Returned [gemini_parseTextSession ?L ''hi'' ''/test/sessions/ok.json''] None"
    unfolding g4 g1 by (simp add: g2 g3 recordsOf_def)
  let ?afr = "mockFileReader
               [(''/home/user/.amazon-q/history.jsonl'', oversizedContent),
                (''/home/user/.amazon-q/session.json'', oversizedContent)]
               [''/home/user/.amazon-q'']"
  let ?a = "\<lparr>a_config = zeroConfig\<lparr>SessionDir := ''~/.amazon-q'',
                                  HistoryFile := ''~/.amazon-q/history.jsonl'',
                                  ConfigDir := ''~/.amazon-q''\<rparr>,
           a_fileReader = ?afr\<rparr>"
  let ?dirInfo = "\<lparr>Size = 0, IsDir = True, ModTime = 0\<rparr>"
  have ah: "ExpandPath ?L (HistoryFile (a_config ?a)) = Inr ''/home/user/.amazon-q/history.jsonl''
      \<and> Stat (a_fileReader ?a) ''/home/user/.amazon-q/history.jsonl'' = Inr ?info
      \<and> Size ?info > 100 * 1024 * 1024"
    by (simp add: collector_defs mockLib_def mockFileReader_def oversizedContent_length)
  have ab1: "Stat (a_fileReader ?a) ''/home/user/.amazon-q/history.jsonl'' = Inr ?info
      \<and> Size ?info > 100 * 1024 * 1024"
    by (simp add: mockFileReader_def oversizedContent_length)
  have ab2: "Stat (a_fileReader ?a) ''/home/user/.amazon-q/session.json'' = Inr ?info
      \<and> Size ?info > 100 * 1024 * 1024"
    by (simp add: mockFileReader_def oversizedContent_length)
  have ad: "amazonq_validateConfigDirectory ?L ?a = None \<and> SessionDir (a_config ?a) \<noteq> []
      \<and> ExpandPath ?L (SessionDir (a_config ?a)) = Inr ''/home/user/.amazon-q''
      \<and> Stat (a_fileReader ?a) ''/home/user/.amazon-q'' = Inr ?dirInfo
      \<and> amazonq_walk ?L (WalkDir (a_fileReader ?a) ''/home/user/.amazon-q'') [] =
          Inr [''/home/user/.amazon-q/history.jsonl'', ''/home/user/.amazon-q/session.json'']"
    by (simp add: amazonq_validateConfigDirectory_def amazonq_isAmazonQFile_def
        amazonQPatterns_def collector_defs mock_defs)
  from c[where L = ?L and a = ?a and historyPath = "''/home/user/.amazon-q/history.jsonl''"
      and info = ?info and ctx = background and cc = emptyConfig,
      THEN conjunct2, THEN conjunct2, THEN conjunct2, THEN conjunct1] ah
  have a1: "amazonq_collectFromHistoryWithRetry ?L ?a background emptyConfig =
      (Inl (Errorf ''history file too large: %d bytes (max: %d)''
              [ArgInt 104857601, ArgInt (100 * 1024 * 1024)]), [])"
    by simp
  from c[where L = ?L and a = ?a and path = "''/home/user/.amazon-q/history.jsonl''"
      and info = ?info and cc = emptyConfig,
      THEN conjunct2, THEN conjunct2, THEN conjunct2, THEN conjunct2, THEN conjunct1] ab1
  have a2: "amazonq_fileRecords ?L ?a emptyConfig ''/home/user/.amazon-q/history.jsonl'' = []"
    by blast
  from c[where L = ?L and a = ?a and path = "''/home/user/.amazon-q/session.json''"
      and info = ?info and cc = emptyConfig,
      THEN conjunct2, THEN conjunct2, THEN conjunct2, THEN conjunct2, THEN conjunct1] ab2
  have a3: "amazonq_fileRecords ?L ?a emptyConfig ''/home/user/.amazon-q/session.json'' = []"
    by blast
  have aw0: "amazonq_collectFromAWSConfig ?L ?a background emptyConfig =
      amazonq_awsLoop ?L ?a background [''~/.amazon-q/session.json''] 3 []"
    by (simp add: amazonq_collectFromAWSConfig_def awsPaths_def collector_defs mockLib_def
        mockFileReader_def background_def numeral_3_eq_3 numeral_2_eq_2)
  have awh: "background (AWSPath 3) = None
      \<and> ExpandPath ?L ''~/.amazon-q/session.json'' = Inr ''/home/user/.amazon-q/session.json''
      \<and> Stat (a_fileReader ?a) ''/home/user/.amazon-q/session.json'' = Inr ?info
      \<and> Size ?info > 100 * 1024 * 1024
      \<and> ReadFile (a_fileReader ?a) ''/home/user/.amazon-q/session.json'' = Inr oversizedContent"
    by (simp add: collector_defs mockLib_def mockFileReader_def background_def
        oversizedContent_length)
  from c[where L = ?L and a = ?a and ctx = background and i = 3
      and awsPath = "''~/.amazon-q/session.json''"
      and expandedPath = "''/home/user/.amazon-q/session.json''" and info = ?info
      and data = oversizedContent and rest = "[]" and sessions = "[]",
      THEN conjunct2, THEN conjunct2, THEN conjunct2, THEN conjunct2, THEN conjunct2,
      THEN conjunct2, THEN conjunct1] awh
  have a4: "amazonq_awsLoop ?L ?a background [''~/.amazon-q/session.json''] 3 [] =
      Inr [amazonq_awsSession ?L ''/home/user/.amazon-q/session.json'' oversizedContent]"
    by simp
  from c[where L = ?L and a = ?a and dir = "''/home/user/.amazon-q''" and dirInfo = ?dirInfo
      and paths = "[''/home/user/.amazon-q/history.jsonl'', ''/home/user/.amazon-q/session.json'']"
      and ctx = background and cc = emptyConfig,
      THEN conjunct2, THEN conjunct2, THEN conjunct2, THEN conjunct2, THEN conjunct2,
      THEN conjunct1]
    ad cpu live nodate
  have a5: "fst (amazonq_Collect ?L ?a background (Some emptyConfig)) =
      Returned
        (if (if HistoryFile (a_config ?a) \<noteq> []
             then recordsOf (fst (amazonq_collectFromHistoryWithRetry ?L ?a background
                                    emptyConfig)) else []) @
            concat (map (amazonq_fileRecords ?L ?a emptyConfig)
                      [''/home/user/.amazon-q/history.jsonl'',
                       ''/home/user/.amazon-q/session.json'']) @
            recordsOf (amazonq_collectFromAWSConfig ?L ?a background emptyConfig) = []
         then amazonq_generateDummyData ?L
         else (if HistoryFile (a_config ?a) \<noteq> []
               then recordsOf (fst (amazonq_collectFromHistoryWithRetry ?L ?a background
                                      emptyConfig)) else []) @
              concat (map (amazonq_fileRecords ?L ?a emptyConfig)
                        [''/home/user/.amazon-q/history.jsonl'',
                         ''/home/user/.amazon-q/session.json'']) @
              recordsOf (amazonq_collectFromAWSConfig ?L ?a background emptyConfig)) None"
    by blast
  have wa: "fst (amazonq_Collect ?L ?a background (Some emptyConfig)) =
      Returned [amazonq_awsSession ?L ''/home/user/.amazon-q/session.json'' oversizedContent]
        None"
    unfolding a5 a1 aw0 a4 by (simp add: a2 a3 recordsOf_def)
  let ?T = "mockLib [(''/test/sessions/big.txt'', oversizedContent)] [''/test'', ''/test/sessions'']"
  let ?ct = "\<lparr>c_config = zeroConfig\<lparr>SessionDir := ''/test/sessions'', ConfigDir := ''/test''\<rparr>\<rparr>"
  have th: "Stat (OS ?T) ''/test/sessions/big.txt'' = Inr ?info \<and> Size ?info > 100 * 1024 * 1024
      \<and> ReadFile (OS ?T) ''/test/sessions/big.txt'' = Inr oversizedContent
      \<and> UnmarshalObject ?T oversizedContent = Inl syntaxError"
    by (simp add: mockLib_def mockFileReader_def oversizedContent_length)
  from c[where L = ?T and path = "''/test/sessions/big.txt''" and info = ?info
      and data = oversizedContent and err = syntaxError,
      THEN conjunct2, THEN conjunct2, THEN conjunct2, THEN conjunct2, THEN conjunct2,
      THEN conjunct2, THEN conjunct2, THEN conjunct2, THEN conjunct1, THEN mp, OF th]
  obtain session where t1: "claude_parseSessionFile ?T ''/test/sessions/big.txt'' =
      Inr (Some session)"
    and t2: "map roleAndContent (Messages session) = [(''content'', oversizedContent)]"
    by (elim exE conjE)
  have t3: "fst (claude_Collect ?T ?ct background (Some emptyConfig)) = Returned [session] None"
    using t1
    by (simp add: claude_Collect_def claude_collectFromSessionDir_def
        claude_matchesIncludePattern_def claude_matchesExcludePattern_def
        collector_defs mockLib_def mockFileReader_def background_def emptyConfig_def HasPrefix_def)
  have wt: "\<exists>session.
        fst (claude_Collect ?T ?ct background (Some emptyConfig)) = Returned [session] None
        \<and> map roleAndContent (Messages session) = [(''content'', oversizedContent)]"
    by (rule exI[of _ session], rule conjI, rule t3, rule t2)
  let ?J = "jsonLib [(''/test/history.json'', oversizedJSON),
                      (''/test/sessions/big.json'', oversizedJSON)]
               [''/test'', ''/test/sessions'']"
  let ?cj = "\<lparr>c_config = zeroConfig\<lparr>SessionDir := ''/test/sessions'',
                                    HistoryFile := ''/test/history.json'', ConfigDir := ''/test''\<rparr>\<rparr>"
  let ?m = "[''sessions'' \<mapsto> JArray [JObject []]]"
  have jh: "background HistoryEntry = None \<and> background HistoryRead = None
      \<and> ExpandPath ?J (HistoryFile (c_config ?cj)) = Inr ''/test/history.json''
      \<and> Stat (OS ?J) ''/test/history.json'' = Inr ?info \<and> Size ?info > 100 * 1024 * 1024
      \<and> ReadFile (OS ?J) ''/test/history.json'' = Inr oversizedJSON
      \<and> UnmarshalObject ?J oversizedJSON = Inr ?m"
    by (simp add: jsonLib_def mockLib_def mockFileReader_def background_def collector_defs
        oversizedJSON_length)
  have js: "Stat (OS ?J) ''/test/sessions/big.json'' = Inr ?info \<and> Size ?info > 100 * 1024 * 1024
      \<and> ReadFile (OS ?J) ''/test/sessions/big.json'' = Inr oversizedJSON
      \<and> UnmarshalObject ?J oversizedJSON = Inr ?m"
    by (simp add: jsonLib_def mockLib_def mockFileReader_def oversizedJSON_length)
  from c[where L = ?J and c = ?cj and ctx = background
      and historyPath = "''/test/history.json''" and info = ?info and data = oversizedJSON
      and historyData = ?m and request = "Some emptyConfig",
      THEN conjunct2, THEN conjunct2, THEN conjunct2, THEN conjunct2, THEN conjunct2,
      THEN conjunct2, THEN conjunct2, THEN conjunct2, THEN conjunct2] jh
  have j1: "claude_collectFromHistory ?J ?cj background (Some emptyConfig) =
      Inr (claude_parseHistoryData ?J ?m)"
    by blast
  from c[where L = ?J and path = "''/test/sessions/big.json''" and info = ?info
      and data = oversizedJSON and sessionData = ?m,
      THEN conjunct2, THEN conjunct2, THEN conjunct2, THEN conjunct2, THEN conjunct2,
      THEN conjunct2, THEN conjunct2, THEN conjunct1] js
  have j2: "claude_parseSessionFile ?J ''/test/sessions/big.json'' =
      Inr (Some (claude_parseSessionMap ?J ?m))"
    by blast
  have j3: "claude_parseHistoryData ?J ?m = [claude_parseSessionMap ?J Map.empty]"
    by (simp add: claude_parseHistoryData_def objectMap_def)
  have wj: "fst (claude_Collect ?J ?cj background (Some emptyConfig)) =
      Returned [claude_parseSessionMap ?J Map.empty, claude_parseSessionMap ?J ?m] None"
    using j1 j2 j3
    by (simp add: claude_Collect_def claude_collectFromSessionDir_def
        claude_matchesIncludePattern_def claude_matchesExcludePattern_def
        collector_defs jsonLib_def mockLib_def mockFileReader_def background_def emptyConfig_def
        HasPrefix_def)
  show ?thesis
    using wg wa wt wj by blast
qed

section \<open>The nil request\<close>

text \<open>
  C8. The Gemini and the Amazon Q collector answer a nil request with the error
  \<^verbatim>\<open>collection config is nil\<close> and no sessions, before anything else. The Claude Code
  collector has no such test: when the context is live and the configuration directory is
  there, it runs both strategies and then panics on the nil pointer.
\<close>

theorem nil_request_outcomes:
  "gemini_Collect L g ctx None = (Returned [] (Some (Errorf ''collection config is nil'' [])), [])
   \<and> amazonq_Collect L a ctx None = (Returned [] (Some (Errorf ''collection config is nil'' [])), [])
   \<and> (ctx CollectEntry = None \<and> ctx CollectMiddle = None \<and>
      ExpandPath L (ConfigDir (c_config c)) = Inr configDir \<and>
      Stat (OS L) configDir = Inr info \<longrightarrow>
      fst (claude_Collect L c ctx None) =
        Panicked ''invalid memory address or nil pointer dereference'')"
  by (simp add: gemini_Collect_def amazonq_Collect_def claude_Collect_def Let_def
      split: prod.splits)

theorem nil_request_outcomes_witness:
  "gemini_Collect (mockLib [] [''/test'']) \<lparr>g_config = zeroConfig\<lparr>ConfigDir := ''/test''\<rparr>,
       g_fileReader = mockFileReader [] [''/test'']\<rparr> background None =
     (Returned [] (Some (Errorf ''collection config is nil'' [])), [])
   \<and> amazonq_Collect (mockLib [] [''/test'']) \<lparr>a_config = zeroConfig\<lparr>ConfigDir := ''/test''\<rparr>,
       a_fileReader = mockFileReader [] [''/test'']\<rparr> background None =
     (Returned [] (Some (Errorf ''collection config is nil'' [])), [])
   \<and> background CollectEntry = None \<and> background CollectMiddle = None
   \<and> ExpandPath (mockLib [] [''/test''])
        (ConfigDir (c_config \<lparr>c_config = zeroConfig\<lparr>ConfigDir := ''/test''\<rparr>\<rparr>)) = Inr ''/test''
   \<and> Stat (OS (mockLib [] [''/test''])) ''/test'' = Inr \<lparr>Size = 0, IsDir = True, ModTime = 0\<rparr>
   \<and> fst (claude_Collect (mockLib [] [''/test''])
             \<lparr>c_config = zeroConfig\<lparr>ConfigDir := ''/test''\<rparr>\<rparr> background None) =
       Panicked ''invalid memory address or nil pointer dereference''"
proof -
  let ?L = "mockLib [] [''/test'']"
  let ?c = "\<lparr>c_config = zeroConfig\<lparr>ConfigDir := ''/test''\<rparr>\<rparr>"
  have h: "background CollectEntry = None \<and> background CollectMiddle = None
      \<and> ExpandPath ?L (ConfigDir (c_config ?c)) = Inr ''/test''
      \<and> Stat (OS ?L) ''/test'' = Inr \<lparr>Size = 0, IsDir = True, ModTime = 0\<rparr>"
    by (simp add: mock_defs collector_defs)
  from nil_request_outcomes[where L = ?L and ctx = background and c = ?c
      and configDir = "''/test''" and info = "\<lparr>Size = 0, IsDir = True, ModTime = 0\<rparr>"] h
  show ?thesis by simp
qed

section \<open>A missing configuration directory\<close>

lemma amazonq_validate_missing:
  assumes "ExpandPath L (ConfigDir (a_config a)) = Inr configDir"
    and "Stat (a_fileReader a) configDir = Inl err" and "IsNotExist err"
  shows "amazonq_validateConfigDirectory L a =
     Some (Errorf ''Amazon Q CLI config directory does not exist: %s'' [ArgString configDir])"
  using assms by (simp add: amazonq_validateConfigDirectory_def)

lemma gemini_validate_missing:
  assumes "ExpandPath L (ConfigDir (g_config g)) = Inr configDir"
    and "Stat (g_fileReader g) configDir = Inl err" and "IsNotExist err"
  shows "gemini_validateConfigDirectory L g =
     Some (Errorf ''gemini CLI config directory does not exist: %s'' [ArgString configDir])"
  using assms by (simp add: gemini_validateConfigDirectory_def)

text \<open>
  C2, as amended. When the configuration directory does not exist, the Amazon Q collector
  returns no error: it logs one warning and returns the records of the Fallback Generator,
  three of them. The Gemini and the Claude Code collector return an error that says so,
  and no records.
\<close>

theorem missing_config_directory:
  "(ExpandPath L (ConfigDir (a_config a)) = Inr configDir \<and>
    Stat (a_fileReader a) configDir = Inl err \<and> IsNotExist err \<longrightarrow>
      amazonq_Collect L a ctx (Some cc) =
        (Returned (amazonq_generateDummyData L) None,
         [LogWarnf ''Amazon Q CLI not found, returning dummy data: %v\<newline>''
            [ArgError (Errorf ''Amazon Q CLI config directory does not exist: %s''
                         [ArgString configDir])]]) \<and>
      length (amazonq_generateDummyData L) = 3)
   \<and> (ExpandPath L (ConfigDir (g_config g)) = Inr configDir \<and>
    Stat (g_fileReader g) configDir = Inl err \<and> IsNotExist err \<longrightarrow>
      gemini_Collect L g ctx (Some cc) =
        (Returned []
           (Some (Errorf ''config directory validation failed: %w''
                    [ArgError (Errorf ''gemini CLI config directory does not exist: %s''
                                 [ArgString configDir])])), []))
   \<and> (ctx CollectEntry = None \<and> ExpandPath L (ConfigDir (c_config c)) = Inr configDir \<and>
    Stat (OS L) configDir = Inl err \<and> IsNotExist err \<longrightarrow>
      claude_Collect L c ctx (Some cc) =
        (Returned []
           (Some (Errorf ''Claude Code config directory does not exist: %s''
                    [ArgString configDir])), []))"
proof -
  have d: "length (amazonq_generateDummyData L) = 3"
    by (simp add: amazonq_generateDummyData_def Let_def)
  show ?thesis
    using d amazonq_validate_missing[of L a configDir err]
      gemini_validate_missing[of L g configDir err]
    by (simp add: amazonq_Collect_def gemini_Collect_def claude_Collect_def)
qed

text \<open>
  C2 as stated fails on the Gemini collector. The directory \<^verbatim>\<open>/nonexistent\<close> is not on the
  file system, and \<^verbatim>\<open>Collect\<close> returns an error and no records.
\<close>

theorem gemini_missing_directory_is_an_error:
  "gemini_Collect (mockLib [] [])
     \<lparr>g_config = zeroConfig\<lparr>ConfigDir := ''/nonexistent''\<rparr>, g_fileReader = mockFileReader [] []\<rparr>
     background (Some emptyConfig) =
   (Returned []
      (Some (Errorf ''config directory validation failed: %w''
               [ArgError (Errorf ''gemini CLI config directory does not exist: %s''
                            [ArgString ''/nonexistent''])])), [])"
  by (simp add: gemini_Collect_def gemini_validateConfigDirectory_def mock_defs collector_defs)

theorem missing_config_directory_witness:
  "ExpandPath (mockLib [] []) ''/nonexistent/.amazon-q'' = Inr ''/nonexistent/.amazon-q''
   \<and> Stat (mockFileReader [] []) ''/nonexistent/.amazon-q'' = Inl ErrNotExist
   \<and> IsNotExist ErrNotExist
   \<and> background CollectEntry = None
   \<and> amazonq_Collect (mockLib [] [])
        \<lparr>a_config = zeroConfig\<lparr>ConfigDir := ''/nonexistent/.amazon-q''\<rparr>,
         a_fileReader = mockFileReader [] []\<rparr> background (Some emptyConfig) =
      (Returned (amazonq_generateDummyData (mockLib [] [])) None,
       [LogWarnf ''Amazon Q CLI not found, returning dummy data: %v\<newline>''
          [ArgError (Errorf ''Amazon Q CLI config directory does not exist: %s''
                       [ArgString ''/nonexistent/.amazon-q''])]])
   \<and> length (amazonq_generateDummyData (mockLib [] [])) = 3
   \<and> gemini_Collect (mockLib [] [])
        \<lparr>g_config = zeroConfig\<lparr>ConfigDir := ''/nonexistent/.amazon-q''\<rparr>,
         g_fileReader = mockFileReader [] []\<rparr> background (Some emptyConfig) =
      (Returned []
         (Some (Errorf ''config directory validation failed: %w''
                  [ArgError (Errorf ''gemini CLI config directory does not exist: %s''
                               [ArgString ''/nonexistent/.amazon-q''])])), [])
   \<and> claude_Collect (mockLib [] [])
        \<lparr>c_config = zeroConfig\<lparr>ConfigDir := ''/nonexistent/.amazon-q''\<rparr>\<rparr>
        background (Some emptyConfig) =
      (Returned []
         (Some (Errorf ''Claude Code config directory does not exist: %s''
                  [ArgString ''/nonexistent/.amazon-q''])), [])"
proof -
  let ?L = "mockLib [] []"
  let ?cfg = "zeroConfig\<lparr>ConfigDir := ''/nonexistent/.amazon-q''\<rparr>"
  have h: "ExpandPath ?L ''/nonexistent/.amazon-q'' = Inr ''/nonexistent/.amazon-q''
     \<and> Stat (mockFileReader [] []) ''/nonexistent/.amazon-q'' = Inl ErrNotExist
     \<and> Stat (OS ?L) ''/nonexistent/.amazon-q'' = Inl ErrNotExist
     \<and> IsNotExist ErrNotExist
     \<and> background CollectEntry = None"
    by (simp add: mock_defs collector_defs)
  have c: "ConfigDir ?cfg = ''/nonexistent/.amazon-q''"
    by (simp add: zeroConfig_def)
  from missing_config_directory[where L = ?L and ctx = background and cc = emptyConfig
      and a = "\<lparr>a_config = ?cfg, a_fileReader = mockFileReader [] []\<rparr>"
      and g = "\<lparr>g_config = ?cfg, g_fileReader = mockFileReader [] []\<rparr>"
      and c = "\<lparr>c_config = ?cfg\<rparr>"
      and configDir = "''/nonexistent/.amazon-q''" and err = ErrNotExist] h c
  show ?thesis by simp
qed

section \<open>The fallback on an empty result\<close>

lemma dummy_synthetic: "list_all synthetic (amazonq_generateDummyData L)"
  by (simp add: amazonq_generateDummyData_def synthetic_def Let_def)

lemma real_not_synthetic:
  "\<not> synthetic (amazonq_convertHistoryEntryToSession L entry n)"
  "map_option synthetic (amazonq_parseTextHistoryEntry L line n) \<noteq> Some True"
  "\<not> synthetic (amazonq_convertAmazonQSessionToModel L sd path)"
  "\<not> synthetic (amazonq_parseTextSession L content path)"
  "\<not> synthetic (amazonq_awsSession L path data)"
  by (simp_all add: synthetic_def amazonq_convertHistoryEntryToSession_def
      amazonq_parseTextHistoryEntry_def amazonq_convertAmazonQSessionToModel_def
      amazonq_parseTextSession_def amazonq_awsSession_def Let_def)

lemma amazonq_Collect_empty:
  assumes "amazonq_validateConfigDirectory L a = None"
    and "HistoryFile (a_config a) \<noteq> [] \<longrightarrow>
         recordsOf (fst (amazonq_collectFromHistoryWithRetry L a ctx cc)) = []"
    and "SessionDir (a_config a) \<noteq> [] \<longrightarrow>
         recordsOf (fst (amazonq_collectFromSessionDirConcurrent L a ctx cc)) = []"
    and "recordsOf (amazonq_collectFromAWSConfig L a ctx cc) = []"
  shows "fst (amazonq_Collect L a ctx (Some cc)) =
     Returned (amazonq_filterByDateRange (amazonq_generateDummyData L) (DateRange cc)) None"
  using assms
  by (auto simp: amazonq_Collect_def recordsOf_def Let_def amazonq_filterByDateRange_def
      split: sum.splits prod.splits option.splits)

lemma gemini_Collect_empty:
  assumes "gemini_validateConfigDirectory L g = None"
    and "HistoryFile (g_config g) \<noteq> [] \<longrightarrow>
         recordsOf (fst (gemini_collectFromHistoryWithRetry L g ctx cc)) = []"
    and "SessionDir (g_config g) \<noteq> [] \<longrightarrow>
         recordsOf (fst (gemini_collectFromSessionDirConcurrent L g ctx cc)) = []"
  shows "fst (gemini_Collect L g ctx (Some cc)) = Returned [] None"
  using assms
  by (auto simp: gemini_Collect_def recordsOf_def Let_def gemini_filterByDateRange_def
      split: sum.splits prod.splits option.splits)

lemma claude_Collect_empty:
  assumes "ctx CollectEntry = None" and "ctx CollectMiddle = None"
    and "ExpandPath L (ConfigDir (c_config c)) = Inr configDir"
    and "Stat (OS L) configDir = Inr info"
    and "HistoryFile (c_config c) \<noteq> [] \<longrightarrow>
         recordsOf (claude_collectFromHistory L c ctx (Some cc)) = []"
    and "SessionDir (c_config c) \<noteq> [] \<longrightarrow>
         recordsOf (fst (claude_collectFromSessionDir L c ctx (Some cc))) = []"
  shows "fst (claude_Collect L c ctx (Some cc)) = Returned [] None"
  using assms
  by (auto simp: claude_Collect_def recordsOf_def Let_def claude_filterByDateRange_def
      split: sum.splits prod.splits option.splits)

text \<open>
  C3, as amended. When the configuration directory is there and every strategy of the
  Amazon Q collector (the history file, the session directory, the AWS configuration
  files) ends with no session, \<^verbatim>\<open>Collect\<close> takes the three records of the Fallback Generator
  in their place and returns those of them that pass the date-range filter: all three when
  no range is given. Each of the three carries the metadata entry
  \<^verbatim>\<open>source_type = amazon_q_dummy\<close>, which no record made from a file carries. The Gemini and
  the Claude Code collector have no Fallback Generator and return no record then.
\<close>

theorem fallback_on_empty_result:
  "(amazonq_validateConfigDirectory L a = None \<and>
    (HistoryFile (a_config a) \<noteq> [] \<longrightarrow>
       recordsOf (fst (amazonq_collectFromHistoryWithRetry L a ctx cc)) = []) \<and>
    (SessionDir (a_config a) \<noteq> [] \<longrightarrow>
       recordsOf (fst (amazonq_collectFromSessionDirConcurrent L a ctx cc)) = []) \<and>
    recordsOf (amazonq_collectFromAWSConfig L a ctx cc) = [] \<longrightarrow>
      fst (amazonq_Collect L a ctx (Some cc)) =
        Returned (amazonq_filterByDateRange (amazonq_generateDummyData L) (DateRange cc)) None \<and>
      (DateRange cc = None \<longrightarrow>
         fst (amazonq_Collect L a ctx (Some cc)) = Returned (amazonq_generateDummyData L) None))
   \<and> length (amazonq_generateDummyData L) = 3
   \<and> list_all synthetic (amazonq_generateDummyData L)
   \<and> \<not> synthetic (amazonq_convertHistoryEntryToSession L entry n)
   \<and> map_option synthetic (amazonq_parseTextHistoryEntry L line n) \<noteq> Some True
   \<and> \<not> synthetic (amazonq_convertAmazonQSessionToModel L sessionData path)
   \<and> \<not> synthetic (amazonq_parseTextSession L content path)
   \<and> \<not> synthetic (amazonq_awsSession L path content)
   \<and> (gemini_validateConfigDirectory L g = None \<and>
    (HistoryFile (g_config g) \<noteq> [] \<longrightarrow>
       recordsOf (fst (gemini_collectFromHistoryWithRetry L g ctx cc)) = []) \<and>
    (SessionDir (g_config g) \<noteq> [] \<longrightarrow>
       recordsOf (fst (gemini_collectFromSessionDirConcurrent L g ctx cc)) = []) \<longrightarrow>
      fst (gemini_Collect L g ctx (Some cc)) = Returned [] None)
   \<and> (ctx CollectEntry = None \<and> ctx CollectMiddle = None \<and>
    ExpandPath L (ConfigDir (c_config c)) = Inr configDir \<and> Stat (OS L) configDir = Inr info \<and>
    (HistoryFile (c_config c) \<noteq> [] \<longrightarrow>
       recordsOf (claude_collectFromHistory L c ctx (Some cc)) = []) \<and>
    (SessionDir (c_config c) \<noteq> [] \<longrightarrow>
       recordsOf (fst (claude_collectFromSessionDir L c ctx (Some cc))) = []) \<longrightarrow>
      fst (claude_Collect L c ctx (Some cc)) = Returned [] None)"
proof -
  have d: "length (amazonq_generateDummyData L) = 3"
    by (simp add: amazonq_generateDummyData_def Let_def)
  have n: "DateRange cc = None \<longrightarrow>
      amazonq_filterByDateRange (amazonq_generateDummyData L) (DateRange cc) =
        amazonq_generateDummyData L"
    by (simp add: amazonq_filterByDateRange_def)
  show ?thesis
    using d n dummy_synthetic[of L] real_not_synthetic[of L]
      amazonq_Collect_empty[of L a ctx cc] gemini_Collect_empty[of L g ctx cc]
      claude_Collect_empty[of ctx L c configDir info cc]
    by (metis (no_types, lifting))
qed

lemmas amazonq_collect_defs =
  amazonq_Collect_def amazonq_validateConfigDirectory_def amazonq_collectFromAWSConfig_def
  awsPaths_def amazonq_collectFromHistoryWithRetry_def amazonq_collectFromSessionDirConcurrent_def

lemmas gemini_collect_defs =
  gemini_Collect_def gemini_validateConfigDirectory_def gemini_collectFromHistoryWithRetry_def
  gemini_collectFromSessionDirConcurrent_def

text \<open>
  C3 as stated fails twice. The Amazon Q collector filters the fallback records by date:
  with a range that starts now, all three, dated hours ago, are dropped and the
  returned set is empty. The Gemini collector, with nothing to collect, returns the empty
  set and generates nothing.
\<close>

theorem fallback_can_return_nothing:
  "fst (amazonq_Collect (mockLib [] [''/test/.amazon-q''])
          \<lparr>a_config = zeroConfig\<lparr>ConfigDir := ''/test/.amazon-q''\<rparr>,
           a_fileReader = mockFileReader [] [''/test/.amazon-q'']\<rparr> background
          (Some (emptyConfig\<lparr>DateRange :=
                   Some \<lparr>Start = Now (mockLib [] [''/test/.amazon-q'']), End = 0\<rparr>\<rparr>))) =
     Returned [] None
   \<and> fst (gemini_Collect (mockLib [] [''/test/.gemini''])
          \<lparr>g_config = zeroConfig\<lparr>ConfigDir := ''/test/.gemini''\<rparr>,
           g_fileReader = mockFileReader [] [''/test/.gemini'']\<rparr> background
          (Some emptyConfig)) =
     Returned [] None"
  by (simp add: amazonq_collect_defs gemini_collect_defs mock_defs collector_defs
      amazonq_generateDummyData_def amazonq_filterByDateRange_def amazonq_isWithinDateRange_def
      IsZero_def Before_def After_def Add_def Hour_def Minute_def Second_def Let_def)

theorem fallback_on_empty_result_witness:
  "amazonq_validateConfigDirectory (mockLib [] [''/test/.amazon-q''])
      \<lparr>a_config = zeroConfig\<lparr>ConfigDir := ''/test/.amazon-q'',
                                HistoryFile := ''/test/.amazon-q/history.json''\<rparr>,
       a_fileReader = mockFileReader [] [''/test/.amazon-q'']\<rparr> = None
   \<and> recordsOf (fst (amazonq_collectFromHistoryWithRetry (mockLib [] [''/test/.amazon-q''])
      \<lparr>a_config = zeroConfig\<lparr>ConfigDir := ''/test/.amazon-q'',
                                HistoryFile := ''/test/.amazon-q/history.json''\<rparr>,
       a_fileReader = mockFileReader [] [''/test/.amazon-q'']\<rparr> background emptyConfig)) = []
   \<and> recordsOf (amazonq_collectFromAWSConfig (mockLib [] [''/test/.amazon-q''])
      \<lparr>a_config = zeroConfig\<lparr>ConfigDir := ''/test/.amazon-q'',
                                HistoryFile := ''/test/.amazon-q/history.json''\<rparr>,
       a_fileReader = mockFileReader [] [''/test/.amazon-q'']\<rparr> background emptyConfig) = []
   \<and> fst (amazonq_Collect (mockLib [] [''/test/.amazon-q''])
      \<lparr>a_config = zeroConfig\<lparr>ConfigDir := ''/test/.amazon-q'',
                                HistoryFile := ''/test/.amazon-q/history.json''\<rparr>,
       a_fileReader = mockFileReader [] [''/test/.amazon-q'']\<rparr> background (Some emptyConfig)) =
      Returned (amazonq_generateDummyData (mockLib [] [''/test/.amazon-q''])) None
   \<and> length (amazonq_generateDummyData (mockLib [] [''/test/.amazon-q''])) = 3
   \<and> list_all synthetic (amazonq_generateDummyData (mockLib [] [''/test/.amazon-q'']))
   \<and> gemini_validateConfigDirectory (mockLib [] [''/test/.amazon-q''])
      \<lparr>g_config = zeroConfig\<lparr>ConfigDir := ''/test/.amazon-q''\<rparr>,
       g_fileReader = mockFileReader [] [''/test/.amazon-q'']\<rparr> = None
   \<and> fst (gemini_Collect (mockLib [] [''/test/.amazon-q''])
      \<lparr>g_config = zeroConfig\<lparr>ConfigDir := ''/test/.amazon-q''\<rparr>,
       g_fileReader = mockFileReader [] [''/test/.amazon-q'']\<rparr> background (Some emptyConfig)) =
      Returned [] None
   \<and> Stat (OS (mockLib [] [''/test/.amazon-q''])) ''/test/.amazon-q'' =
      Inr \<lparr>Size = 0, IsDir = True, ModTime = 0\<rparr>
   \<and> fst (claude_Collect (mockLib [] [''/test/.amazon-q''])
      \<lparr>c_config = zeroConfig\<lparr>ConfigDir := ''/test/.amazon-q''\<rparr>\<rparr> background
      (Some emptyConfig)) = Returned [] None"
proof -
  let ?L = "mockLib [] [''/test/.amazon-q'']"
  let ?fr = "mockFileReader [] [''/test/.amazon-q'']"
  let ?a = "\<lparr>a_config = zeroConfig\<lparr>ConfigDir := ''/test/.amazon-q'',
                                      HistoryFile := ''/test/.amazon-q/history.json''\<rparr>,
             a_fileReader = ?fr\<rparr>"
  let ?g = "\<lparr>g_config = zeroConfig\<lparr>ConfigDir := ''/test/.amazon-q''\<rparr>, g_fileReader = ?fr\<rparr>"
  let ?c = "\<lparr>c_config = zeroConfig\<lparr>ConfigDir := ''/test/.amazon-q''\<rparr>\<rparr>"
  let ?info = "\<lparr>Size = 0, IsDir = True, ModTime = 0\<rparr>"
  have ha: "amazonq_validateConfigDirectory ?L ?a = None
      \<and> recordsOf (fst (amazonq_collectFromHistoryWithRetry ?L ?a background emptyConfig)) = []
      \<and> SessionDir (a_config ?a) = []
      \<and> recordsOf (amazonq_collectFromAWSConfig ?L ?a background emptyConfig) = []
      \<and> DateRange emptyConfig = None"
    by (simp add: amazonq_collect_defs mock_defs collector_defs recordsOf_def)
  have hg: "gemini_validateConfigDirectory ?L ?g = None
      \<and> HistoryFile (g_config ?g) = [] \<and> SessionDir (g_config ?g) = []"
    by (simp add: gemini_collect_defs mock_defs collector_defs)
  have hc: "background CollectEntry = None \<and> background CollectMiddle = None
      \<and> ExpandPath ?L (ConfigDir (c_config ?c)) = Inr ''/test/.amazon-q''
      \<and> Stat (OS ?L) ''/test/.amazon-q'' = Inr ?info
      \<and> HistoryFile (c_config ?c) = [] \<and> SessionDir (c_config ?c) = []"
    by (simp add: mock_defs collector_defs)
  from fallback_on_empty_result[where L = ?L and a = ?a and g = ?g and c = ?c and ctx = background
      and cc = emptyConfig and configDir = "''/test/.amazon-q''" and info = ?info] ha hg hc
  show ?thesis by (simp add: amazonq_filterByDateRange_def)
qed

section \<open>Cancellation\<close>

lemma gemini_scanLoop_done:
  assumes "\<forall>site. ctx site \<noteq> None"
    and "gemini_scanLoop L ctx texts 0 [] [] = (Inr (sessions, k), logs)"
  shows "sessions = []"
proof (cases texts)
  case Nil
  with assms(2) show ?thesis by simp
next
  case (Cons raw rest)
  from assms(1) obtain err where "ctx (HistoryLine 0) = Some err" by fastforce
  with Cons assms(2) show ?thesis by simp
qed

lemma gemini_history_done:
  assumes "\<forall>site. ctx site \<noteq> None"
  shows "recordsOf (fst (gemini_collectFromHistoryWithRetry L g ctx cc)) = []"
proof -
  have "fst (gemini_parseHistoryFileStreaming L ctx p cc) = Inr xs \<Longrightarrow> xs = []" for p xs
    by (auto simp: gemini_parseHistoryFileStreaming_def
        split: sum.splits prod.splits option.splits dest: gemini_scanLoop_done[OF assms])
  then show ?thesis
    by (auto simp: gemini_collectFromHistoryWithRetry_def recordsOf_def split: sum.splits)
qed

lemma gemini_selectLoop_done:
  assumes "\<forall>site. ctx site \<noteq> None"
  shows "gemini_selectLoop L g ctx cc paths i ss es \<noteq> Inr x"
proof -
  from assms obtain err where "ctx (SessionResult i) = Some err" by fastforce
  then show ?thesis by (cases paths) simp_all
qed

lemma gemini_sessionDir_done:
  assumes "\<forall>site. ctx site \<noteq> None"
  shows "recordsOf (fst (gemini_collectFromSessionDirConcurrent L g ctx cc)) = []"
  using gemini_selectLoop_done[OF assms, of L g cc]
  by (auto simp: gemini_collectFromSessionDirConcurrent_def recordsOf_def split: sum.splits)

lemma Split_not_Nil: "Split str sep \<noteq> []"
  by (induction str) (auto split: list.splits)

lemma amazonq_lineLoop_done:
  assumes "\<forall>site. ctx site \<noteq> None"
  shows "amazonq_lineLoop L ctx (Split content newline) 0 [] [] \<noteq> (Inr sessions, logs)"
proof -
  from assms obtain err where e: "ctx (HistoryLine 0) = Some err" by fastforce
  obtain piece pieces where "Split content newline = piece # pieces"
    using Split_not_Nil[of content newline] by (cases "Split content newline") auto
  with e show ?thesis by simp
qed

lemma amazonq_history_done:
  assumes "\<forall>site. ctx site \<noteq> None"
  shows "recordsOf (fst (amazonq_collectFromHistoryWithRetry L a ctx cc)) = []"
proof -
  have "fst (amazonq_lineLoop L ctx (Split content newline) 0 [] []) \<noteq> Inr xs" for content xs
    using amazonq_lineLoop_done[OF assms, of L content xs]
    by (cases "amazonq_lineLoop L ctx (Split content newline) 0 [] []") auto
  then show ?thesis
    by (auto simp: amazonq_collectFromHistoryWithRetry_def amazonq_parseHistoryFileStreaming_def
        recordsOf_def split: sum.splits)
qed

lemma amazonq_selectLoop_done:
  assumes "\<forall>site. ctx site \<noteq> None"
  shows "amazonq_selectLoop L a ctx cc paths i ss es \<noteq> Inr x"
proof -
  from assms obtain err where "ctx (SessionResult i) = Some err" by fastforce
  then show ?thesis by (cases paths) simp_all
qed

lemma amazonq_sessionDir_done:
  assumes "\<forall>site. ctx site \<noteq> None"
  shows "recordsOf (fst (amazonq_collectFromSessionDirConcurrent L a ctx cc)) = []"
  using amazonq_selectLoop_done[OF assms, of L a cc]
  by (auto simp: amazonq_collectFromSessionDirConcurrent_def recordsOf_def split: sum.splits)

lemma amazonq_aws_done:
  assumes "\<forall>site. ctx site \<noteq> None"
  shows "recordsOf (amazonq_collectFromAWSConfig L a ctx cc) = []"
proof -
  from assms obtain err where "ctx (AWSPath 0) = Some err" by fastforce
  then show ?thesis
    by (simp add: amazonq_collectFromAWSConfig_def awsPaths_def recordsOf_def)
qed

lemma gemini_Collect_error_shape:
  "fst (gemini_Collect L g ctx cfg) = Returned ss (Some err) \<Longrightarrow> \<exists>fmt args. err = Errorf fmt args"
  by (auto simp: gemini_Collect_def Let_def split: option.splits prod.splits if_splits)

lemma amazonq_Collect_error_shape:
  "fst (amazonq_Collect L a ctx cfg) = Returned ss (Some err) \<Longrightarrow> \<exists>fmt args. err = Errorf fmt args"
  by (auto simp: amazonq_Collect_def Let_def split: option.splits prod.splits if_splits)

lemma gemini_Collect_partial:
  assumes "gemini_validateConfigDirectory L g = None"
    and "HistoryFile (g_config g) \<noteq> []"
    and "fst (gemini_collectFromHistoryWithRetry L g ctx cc) = Inr found"
    and "SessionDir (g_config g) \<noteq> []"
    and "fst (gemini_collectFromSessionDirConcurrent L g ctx cc) = Inl err"
    and "DateRange cc = None"
  shows "fst (gemini_Collect L g ctx (Some cc)) = Returned found None"
  using assms
  by (auto simp: gemini_Collect_def Let_def split: prod.splits sum.splits)

lemma claude_Collect_partial:
  assumes "ctx CollectEntry = None" and "ctx CollectMiddle = None"
    and "ExpandPath L (ConfigDir (c_config c)) = Inr configDir"
    and "Stat (OS L) configDir = Inr info"
    and "HistoryFile (c_config c) \<noteq> []"
    and "claude_collectFromHistory L c ctx (Some cc) = Inr found"
    and "SessionDir (c_config c) \<noteq> []"
    and "fst (claude_collectFromSessionDir L c ctx (Some cc)) = Inl err"
    and "DateRange cc = None"
  shows "fst (claude_Collect L c ctx (Some cc)) = Returned found None"
  using assms
  by (auto simp: claude_Collect_def Let_def split: prod.splits sum.splits)

text \<open>
  C1. What the collectors do with a done context. The Gemini and the Amazon Q collector
  never return an error of the context: \<^verbatim>\<open>Collect\<close> logs the error of each strategy as a
  warning and returns nil. With a context that is done at every poll and the configuration
  directory in place, the Gemini collector returns no records and no error, and the Amazon
  Q collector the fallback records and no error. When the history file has been read and
  the session directory then fails, on a cancelled context or otherwise, the Gemini and
  the Claude Code collector return the records of the history file and no error. The
  Claude Code collector returns the context's error and no records when its own poll, on
  entry or between the two strategies, finds the context done.
\<close>

theorem cancellation_outcomes:
  "fst (gemini_Collect L g ctx cfg) \<noteq> Returned ss (Some Canceled)
   \<and> fst (gemini_Collect L g ctx cfg) \<noteq> Returned ss (Some DeadlineExceeded)
   \<and> fst (amazonq_Collect L a ctx cfg) \<noteq> Returned ss (Some Canceled)
   \<and> fst (amazonq_Collect L a ctx cfg) \<noteq> Returned ss (Some DeadlineExceeded)
   \<and> ((\<forall>site. ctx site \<noteq> None) \<and> gemini_validateConfigDirectory L g = None \<longrightarrow>
      fst (gemini_Collect L g ctx (Some cc)) = Returned [] None)
   \<and> ((\<forall>site. ctx site \<noteq> None) \<and> amazonq_validateConfigDirectory L a = None \<longrightarrow>
      fst (amazonq_Collect L a ctx (Some cc)) =
        Returned (amazonq_filterByDateRange (amazonq_generateDummyData L) (DateRange cc)) None)
   \<and> (gemini_validateConfigDirectory L g = None \<and> HistoryFile (g_config g) \<noteq> [] \<and>
      fst (gemini_collectFromHistoryWithRetry L g ctx cc) = Inr found \<and>
      SessionDir (g_config g) \<noteq> [] \<and>
      fst (gemini_collectFromSessionDirConcurrent L g ctx cc) = Inl err \<and>
      DateRange cc = None \<longrightarrow>
      fst (gemini_Collect L g ctx (Some cc)) = Returned found None)
   \<and> (ctx CollectEntry = None \<and> ctx CollectMiddle = None \<and>
      ExpandPath L (ConfigDir (c_config c)) = Inr configDir \<and> Stat (OS L) configDir = Inr info \<and>
      HistoryFile (c_config c) \<noteq> [] \<and> claude_collectFromHistory L c ctx (Some cc) = Inr found \<and>
      SessionDir (c_config c) \<noteq> [] \<and>
      fst (claude_collectFromSessionDir L c ctx (Some cc)) = Inl err \<and> DateRange cc = None \<longrightarrow>
      fst (claude_Collect L c ctx (Some cc)) = Returned found None)
   \<and> (ctx CollectEntry = Some err \<longrightarrow> claude_Collect L c ctx cfg = (Returned [] (Some err), []))
   \<and> (ctx CollectEntry = None \<and> ExpandPath L (ConfigDir (c_config c)) = Inr configDir \<and>
      Stat (OS L) configDir = Inr info \<and> ctx CollectMiddle = Some err \<longrightarrow>
      fst (claude_Collect L c ctx cfg) = Returned [] (Some err))"
proof -
  have g1: "fst (gemini_Collect L g ctx cfg) \<noteq> Returned ss (Some Canceled)
      \<and> fst (gemini_Collect L g ctx cfg) \<noteq> Returned ss (Some DeadlineExceeded)"
    using gemini_Collect_error_shape[of L g ctx cfg ss] by fastforce
  have a1: "fst (amazonq_Collect L a ctx cfg) \<noteq> Returned ss (Some Canceled)
      \<and> fst (amazonq_Collect L a ctx cfg) \<noteq> Returned ss (Some DeadlineExceeded)"
    using amazonq_Collect_error_shape[of L a ctx cfg ss] by fastforce
  have g2: "(\<forall>site. ctx site \<noteq> None) \<and> gemini_validateConfigDirectory L g = None \<longrightarrow>
      fst (gemini_Collect L g ctx (Some cc)) = Returned [] None"
    using gemini_Collect_empty[of L g ctx cc] gemini_history_done[of ctx L g cc]
      gemini_sessionDir_done[of ctx L g cc]
    by blast
  have a2: "(\<forall>site. ctx site \<noteq> None) \<and> amazonq_validateConfigDirectory L a = None \<longrightarrow>
      fst (amazonq_Collect L a ctx (Some cc)) =
        Returned (amazonq_filterByDateRange (amazonq_generateDummyData L) (DateRange cc)) None"
    using amazonq_Collect_empty[of L a ctx cc] amazonq_history_done[of ctx L a cc]
      amazonq_sessionDir_done[of ctx L a cc] amazonq_aws_done[of ctx L a cc]
    by blast
  have c1: "ctx CollectEntry = Some err \<longrightarrow>
      claude_Collect L c ctx cfg = (Returned [] (Some err), [])"
    by (simp add: claude_Collect_def)
  have c2: "ctx CollectEntry = None \<and> ExpandPath L (ConfigDir (c_config c)) = Inr configDir \<and>
      Stat (OS L) configDir = Inr info \<and> ctx CollectMiddle = Some err \<longrightarrow>
      fst (claude_Collect L c ctx cfg) = Returned [] (Some err)"
    by (simp add: claude_Collect_def Let_def split: prod.splits)
  show ?thesis
    using g1 a1 g2 a2 c1 c2 gemini_Collect_partial[of L g ctx cc found err]
      claude_Collect_partial[of ctx L c configDir info cc found err]
    by blast
qed

theorem cancellation_outcomes_witness:
  \<open>(\<forall>site. cancelled site \<noteq> None)
   \<and> gemini_validateConfigDirectory
        (mockLib [(''/test/history.jsonl'',
                   ''{"id":"test","prompt":"test","timestamp":"2024-01-01T10:00:00Z"}'')] [''/test''])
        \<lparr>g_config = zeroConfig\<lparr>ConfigDir := ''/test'', HistoryFile := ''/test/history.jsonl''\<rparr>,
         g_fileReader = mockFileReader
           [(''/test/history.jsonl'',
             ''{"id":"test","prompt":"test","timestamp":"2024-01-01T10:00:00Z"}'')] [''/test'']\<rparr> = None
   \<and> gemini_Collect
        (mockLib [(''/test/history.jsonl'',
                   ''{"id":"test","prompt":"test","timestamp":"2024-01-01T10:00:00Z"}'')] [''/test''])
        \<lparr>g_config = zeroConfig\<lparr>ConfigDir := ''/test'', HistoryFile := ''/test/history.jsonl''\<rparr>,
         g_fileReader = mockFileReader
           [(''/test/history.jsonl'',
             ''{"id":"test","prompt":"test","timestamp":"2024-01-01T10:00:00Z"}'')] [''/test'']\<rparr>
        cancelled (Some (emptyConfig\<lparr>Sources := [SourceGeminiCLI]\<rparr>)) =
      (Returned [] None,
       [LogWarnf ''Collection warning: %v\<newline>''
          [ArgError (Errorf ''history collection failed: %w'' [ArgError Canceled])]])
   \<and> fst (amazonq_Collect (mockLib [] [''/test''])
        \<lparr>a_config = zeroConfig\<lparr>ConfigDir := ''/test''\<rparr>, a_fileReader = mockFileReader [] [''/test'']\<rparr>
        cancelled (Some emptyConfig)) =
      Returned (amazonq_generateDummyData (mockLib [] [''/test''])) None
   \<and> fst (gemini_collectFromSessionDirConcurrent
        (mockLib [(''/test/history.jsonl'', ''hello''), (''/test/sessions/s.json'', ''{}'')] [''/test''])
        \<lparr>g_config = zeroConfig\<lparr>ConfigDir := ''/test'', HistoryFile := ''/test/history.jsonl'',
                                  SessionDir := ''/test/sessions''\<rparr>,
         g_fileReader = mockFileReader
           [(''/test/history.jsonl'', ''hello''), (''/test/sessions/s.json'', ''{}'')] [''/test'']\<rparr>
        cancelledLater emptyConfig) = Inl Canceled
   \<and> fst (gemini_Collect
        (mockLib [(''/test/history.jsonl'', ''hello''), (''/test/sessions/s.json'', ''{}'')] [''/test''])
        \<lparr>g_config = zeroConfig\<lparr>ConfigDir := ''/test'', HistoryFile := ''/test/history.jsonl'',
                                  SessionDir := ''/test/sessions''\<rparr>,
         g_fileReader = mockFileReader
           [(''/test/history.jsonl'', ''hello''), (''/test/sessions/s.json'', ''{}'')] [''/test'']\<rparr>
        cancelledLater (Some emptyConfig)) =
      Returned [the (gemini_parseTextHistoryEntry (mockLib [] []) ''hello'' 1)] None
   \<and> claude_Collect (mockLib [] [''/test'']) \<lparr>c_config = zeroConfig\<lparr>ConfigDir := ''/test''\<rparr>\<rparr>
        cancelled (Some emptyConfig) = (Returned [] (Some Canceled), [])\<close>
proof -
  let ?content = \<open>''{"id":"test","prompt":"test","timestamp":"2024-01-01T10:00:00Z"}''\<close>
  let ?L = "mockLib [(''/test/history.jsonl'', ?content)] [''/test'']"
  let ?g = "\<lparr>g_config = zeroConfig\<lparr>ConfigDir := ''/test'', HistoryFile := ''/test/history.jsonl''\<rparr>,
             g_fileReader = mockFileReader [(''/test/history.jsonl'', ?content)] [''/test'']\<rparr>"
  let ?cc = "emptyConfig\<lparr>Sources := [SourceGeminiCLI]\<rparr>"
  let ?M = "mockLib [] [''/test'']"
  let ?a = "\<lparr>a_config = zeroConfig\<lparr>ConfigDir := ''/test''\<rparr>,
             a_fileReader = mockFileReader [] [''/test'']\<rparr>"
  let ?files = "[(''/test/history.jsonl'', ''hello''), (''/test/sessions/s.json'', ''{}'')]"
  let ?P = "mockLib ?files [''/test'']"
  let ?p = "\<lparr>g_config = zeroConfig\<lparr>ConfigDir := ''/test'', HistoryFile := ''/test/history.jsonl'',
                                      SessionDir := ''/test/sessions''\<rparr>,
             g_fileReader = mockFileReader ?files [''/test'']\<rparr>"
  let ?c = "\<lparr>c_config = zeroConfig\<lparr>ConfigDir := ''/test''\<rparr>\<rparr>"
  have dn: "\<forall>site. cancelled site \<noteq> None"
    by (simp add: cancelled_def)
  have vg: "gemini_validateConfigDirectory ?L ?g = None"
    by (simp add: gemini_validateConfigDirectory_def mock_defs collector_defs)
  have va: "amazonq_validateConfigDirectory ?M ?a = None"
    by (simp add: amazonq_validateConfigDirectory_def mock_defs collector_defs)
  have logs: "snd (gemini_Collect ?L ?g cancelled (Some ?cc)) =
      [LogWarnf ''Collection warning: %v\<newline>''
         [ArgError (Errorf ''history collection failed: %w'' [ArgError Canceled])]]"
    by (simp add: gemini_collect_defs gemini_line_defs mock_defs collector_defs maxFileSize_def
        cancelled_def Let_def)
  have vp: "gemini_validateConfigDirectory ?P ?p = None"
    by (simp add: gemini_validateConfigDirectory_def mock_defs collector_defs)
  have hp: "HistoryFile (g_config ?p) \<noteq> [] \<and> SessionDir (g_config ?p) \<noteq> []
      \<and> DateRange emptyConfig = None"
    by (simp add: collector_defs emptyConfig_def)
  have h1: "fst (gemini_collectFromHistoryWithRetry ?P ?p cancelledLater emptyConfig) =
      Inr [the (gemini_parseTextHistoryEntry (mockLib [] []) ''hello'' 1)]"
    by (simp add: gemini_collect_defs gemini_line_defs mock_defs collector_defs maxFileSize_def
        cancelledLater_def Let_def)
  have h2: "fst (gemini_collectFromSessionDirConcurrent ?P ?p cancelledLater emptyConfig) =
      Inl Canceled"
    by (simp add: gemini_collect_defs mock_defs collector_defs cancelledLater_def maxWorkers_def)
  have hc: "cancelled CollectEntry = Some Canceled"
    by (simp add: cancelled_def)
  note t1 = cancellation_outcomes[where L = ?L and g = ?g and ctx = cancelled and cc = ?cc]
  note t2 = cancellation_outcomes[where L = ?M and a = ?a and ctx = cancelled and cc = emptyConfig
      and c = ?c and err = Canceled and cfg = "Some emptyConfig"]
  note t3 = cancellation_outcomes[where L = ?P and g = ?p and ctx = cancelledLater
      and cc = emptyConfig and err = Canceled
      and found = "[the (gemini_parseTextHistoryEntry (mockLib [] []) ''hello'' 1)]"]
  from t1 dn vg have r1: "fst (gemini_Collect ?L ?g cancelled (Some ?cc)) = Returned [] None"
    by blast
  from t2 dn va have r2: "fst (amazonq_Collect ?M ?a cancelled (Some emptyConfig)) =
      Returned (amazonq_filterByDateRange (amazonq_generateDummyData ?M) (DateRange emptyConfig)) None"
    by blast
  from t3 vp hp h1 h2 have r3: "fst (gemini_Collect ?P ?p cancelledLater (Some emptyConfig)) =
      Returned [the (gemini_parseTextHistoryEntry (mockLib [] []) ''hello'' 1)] None"
    by blast
  from t2 hc have r4: "claude_Collect ?M ?c cancelled (Some emptyConfig) =
      (Returned [] (Some Canceled), [])"
    by blast
  have r1': "gemini_Collect ?L ?g cancelled (Some ?cc) =
      (Returned [] None,
       [LogWarnf ''Collection warning: %v\<newline>''
          [ArgError (Errorf ''history collection failed: %w'' [ArgError Canceled])]])"
    using r1 logs by (simp add: prod_eq_iff)
  have r2': "fst (amazonq_Collect ?M ?a cancelled (Some emptyConfig)) =
      Returned (amazonq_generateDummyData ?M) None"
    using r2 by (simp add: amazonq_filterByDateRange_def emptyConfig_def)
  show ?thesis
    using dn vg r1' r2' h2 r3 r4 by blast
qed

section \<open>The top-level orchestrator\<close>

lemma sourcesLoop_closed_form:
  assumes "\<forall>source \<in> set sources. \<not> isCrashed (sourceOutcome reg ctx cc configs source)"
  shows "fst (sourcesLoop reg ctx cc configs sources result logs) =
     Inr (result\<lparr>
       res_Sessions := res_Sessions result @
          concat (map (\<lambda>source. sessionsOf (sourceOutcome reg ctx cc configs source)) sources),
       res_Sources := res_Sources result @
          filter (\<lambda>source. isCollected (sourceOutcome reg ctx cc configs source)) sources,
       res_Errors := res_Errors result @
          concat (map (\<lambda>source. errorsOf (sourceOutcome reg ctx cc configs source)) sources)\<rparr>)"
  using assms
proof (induction sources arbitrary: result logs)
  case Nil
  show ?case by simp
next
  case (Cons source rest)
  from Cons.prems have rest: "\<forall>s \<in> set rest. \<not> isCrashed (sourceOutcome reg ctx cc configs s)"
    and here: "\<not> isCrashed (sourceOutcome reg ctx cc configs source)"
    by simp_all
  show ?case
  proof (cases "configs source")
    case None
    then show ?thesis
      using Cons.IH[OF rest]
      by (simp add: sourceOutcome_def sessionsOf_def errorsOf_def isCollected_def)
  next
    case (Some config)
    show ?thesis
    proof (cases "reg source")
      case None
      with Some show ?thesis
        using Cons.IH[OF rest]
        by (simp add: sourceOutcome_def sessionsOf_def errorsOf_def isCollected_def
            GetCollector_def)
    next
      case constructor: (Some constructor)
      obtain outcome collectLogs where c:
        "Collect (constructor config) ctx (Some cc) = (outcome, collectLogs)"
        by (cases "Collect (constructor config) ctx (Some cc)")
      show ?thesis
      proof (cases outcome)
        case (Panicked msg)
        with here Some constructor c show ?thesis
          by (simp add: sourceOutcome_def isCrashed_def)
      next
        case (Returned sessions err)
        with Some constructor c show ?thesis
          using Cons.IH[OF rest]
          by (cases err)
            (simp_all add: sourceOutcome_def sessionsOf_def errorsOf_def isCollected_def
              GetCollector_def)
      qed
    qed
  qed
qed

lemma gemini_Collect_no_panic: "fst (gemini_Collect L g ctx cfg) \<noteq> Panicked msg"
  by (auto simp: gemini_Collect_def Let_def split: option.splits prod.splits)

lemma amazonq_Collect_no_panic: "fst (amazonq_Collect L a ctx cfg) \<noteq> Panicked msg"
  by (auto simp: amazonq_Collect_def Let_def split: option.splits prod.splits)

lemma initRegistry_no_crash:
  "\<not> isCrashed (sourceOutcome (initRegistry L) ctx cc configs source)"
proof -
  have "isCrashed (case r of Panicked msg \<Rightarrow> Crashed msg
          | Returned sessions None \<Rightarrow> Collected sessions
          | Returned sessions (Some err) \<Rightarrow> Failed (f err)) \<Longrightarrow> \<exists>msg. r = Panicked msg" for r f
    by (auto simp: isCrashed_def split: collect_result.splits option.splits)
  then show ?thesis
    using gemini_Collect_no_panic[of L _ ctx "Some cc"] amazonq_Collect_no_panic[of L _ ctx "Some cc"]
    by (fastforce simp: sourceOutcome_def initRegistry_def Register_def geminiConstructor_def
        amazonqConstructor_def isCrashed_def split: option.splits if_splits)
qed

text \<open>
  C9. The orchestrator takes the requested sources in order. A source with no
  configuration, a source that is not registered and a source whose collector returns an
  error each add one entry to the error list and nothing else, and the sources after it
  are collected all the same; a source whose collector succeeds adds its sessions and its
  name. So, as long as no collector panics, the result is the one below: it is not nil, no
  error is returned with it, and its \<^verbatim>\<open>TotalCount\<close> is the number of its sessions. The
  collectors that the package registers never panic.
\<close>

theorem collect_all_isolates_failures:
  "((\<forall>source \<in> set (Sources cc). \<not> isCrashed (sourceOutcome reg ctx cc configs source)) \<longrightarrow>
      fst (CollectAllSources L reg ctx (Some cc) configs) =
        AllReturned
          (Some \<lparr>res_Sessions =
                   concat (map (\<lambda>source. sessionsOf (sourceOutcome reg ctx cc configs source))
                             (Sources cc)),
                 res_TotalCount =
                   length (concat (map (\<lambda>source. sessionsOf (sourceOutcome reg ctx cc configs source))
                                     (Sources cc))),
                 res_Sources =
                   filter (\<lambda>source. isCollected (sourceOutcome reg ctx cc configs source))
                     (Sources cc),
                 res_CollectedAt = Now L, res_Duration = 0,
                 res_Errors =
                   concat (map (\<lambda>source. errorsOf (sourceOutcome reg ctx cc configs source))
                             (Sources cc))\<rparr>)
          None)
   \<and> (\<not> isCollected (sourceOutcome reg ctx cc configs source) \<and>
      \<not> isCrashed (sourceOutcome reg ctx cc configs source) \<longrightarrow>
      length (errorsOf (sourceOutcome reg ctx cc configs source)) = 1 \<and>
      sessionsOf (sourceOutcome reg ctx cc configs source) = [])
   \<and> (isCollected (sourceOutcome reg ctx cc configs source) \<longrightarrow>
      errorsOf (sourceOutcome reg ctx cc configs source) = [])
   \<and> \<not> isCrashed (sourceOutcome (initRegistry L) ctx cc configs source)"
proof -
  have main: "(\<forall>source \<in> set (Sources cc). \<not> isCrashed (sourceOutcome reg ctx cc configs source)) \<longrightarrow>
      fst (CollectAllSources L reg ctx (Some cc) configs) =
        AllReturned
          (Some \<lparr>res_Sessions =
                   concat (map (\<lambda>source. sessionsOf (sourceOutcome reg ctx cc configs source))
                             (Sources cc)),
                 res_TotalCount =
                   length (concat (map (\<lambda>source. sessionsOf (sourceOutcome reg ctx cc configs source))
                                     (Sources cc))),
                 res_Sources =
                   filter (\<lambda>source. isCollected (sourceOutcome reg ctx cc configs source))
                     (Sources cc),
                 res_CollectedAt = Now L, res_Duration = 0,
                 res_Errors =
                   concat (map (\<lambda>source. errorsOf (sourceOutcome reg ctx cc configs source))
                             (Sources cc))\<rparr>)
          None"
  proof
    assume a: "\<forall>source \<in> set (Sources cc). \<not> isCrashed (sourceOutcome reg ctx cc configs source)"
    let ?zero = "\<lparr>res_Sessions = [], res_TotalCount = 0, res_Sources = [],
                   res_CollectedAt = Now L, res_Duration = 0, res_Errors = []\<rparr>"
    obtain r logs where r: "sourcesLoop reg ctx cc configs (Sources cc) ?zero [] = (r, logs)"
      by (cases "sourcesLoop reg ctx cc configs (Sources cc) ?zero []")
    from sourcesLoop_closed_form[OF a, of ?zero "[]"] r
    show "fst (CollectAllSources L reg ctx (Some cc) configs) =
        AllReturned
          (Some \<lparr>res_Sessions =
                   concat (map (\<lambda>source. sessionsOf (sourceOutcome reg ctx cc configs source))
                             (Sources cc)),
                 res_TotalCount =
                   length (concat (map (\<lambda>source. sessionsOf (sourceOutcome reg ctx cc configs source))
                                     (Sources cc))),
                 res_Sources =
                   filter (\<lambda>source. isCollected (sourceOutcome reg ctx cc configs source))
                     (Sources cc),
                 res_CollectedAt = Now L, res_Duration = 0,
                 res_Errors =
                   concat (map (\<lambda>source. errorsOf (sourceOutcome reg ctx cc configs source))
                             (Sources cc))\<rparr>)
          None"
      by (simp add: CollectAllSources_def Let_def)
  qed
  have one: "\<not> isCollected outcome \<and> \<not> isCrashed outcome \<longrightarrow>
      length (errorsOf outcome) = 1 \<and> sessionsOf outcome = []" for outcome
    by (cases outcome) (simp_all add: isCollected_def isCrashed_def errorsOf_def sessionsOf_def)
  have none: "isCollected outcome \<longrightarrow> errorsOf outcome = []" for outcome
    by (cases outcome) (simp_all add: isCollected_def errorsOf_def)
  show ?thesis
    using main one none initRegistry_no_crash[of L ctx cc configs source] by blast
qed

lemmas registry_defs =
  sourceOutcome_def initRegistry_def Register_def geminiConstructor_def amazonqConstructor_def
  NewImprovedGeminiCLICollector_def NewAmazonQCollector_def SourceGeminiCLI_def SourceAmazonQ_def
  sessionsOf_def errorsOf_def isCollected_def isCrashed_def

theorem collect_all_isolates_failures_witness:
  "\<not> isCrashed (sourceOutcome (initRegistry (mockLib [] [])) background
        (emptyConfig\<lparr>Sources := [''unknown_tool'', SourceGeminiCLI, SourceAmazonQ]\<rparr>)
        [''unknown_tool'' \<mapsto> OtherValue,
         SourceAmazonQ \<mapsto> ToolConfig (zeroConfig\<lparr>ConfigDir := ''/nonexistent''\<rparr>)]
        ''unknown_tool'')
   \<and> sourceOutcome (initRegistry (mockLib [] [])) background
        (emptyConfig\<lparr>Sources := [''unknown_tool'', SourceGeminiCLI, SourceAmazonQ]\<rparr>)
        [''unknown_tool'' \<mapsto> OtherValue,
         SourceAmazonQ \<mapsto> ToolConfig (zeroConfig\<lparr>ConfigDir := ''/nonexistent''\<rparr>)]
        SourceGeminiCLI =
      Failed (''no configuration for source %s'', [ArgString SourceGeminiCLI])
   \<and> sourceOutcome (initRegistry (mockLib [] [])) background
        (emptyConfig\<lparr>Sources := [''unknown_tool'', SourceGeminiCLI, SourceAmazonQ]\<rparr>)
        [''unknown_tool'' \<mapsto> OtherValue,
         SourceAmazonQ \<mapsto> ToolConfig (zeroConfig\<lparr>ConfigDir := ''/nonexistent''\<rparr>)]
        SourceAmazonQ =
      Collected (amazonq_generateDummyData (mockLib [] []))
   \<and> fst (CollectAllSources (mockLib [] []) (initRegistry (mockLib [] [])) background
        (Some (emptyConfig\<lparr>Sources := [''unknown_tool'', SourceGeminiCLI, SourceAmazonQ]\<rparr>))
        [''unknown_tool'' \<mapsto> OtherValue,
         SourceAmazonQ \<mapsto> ToolConfig (zeroConfig\<lparr>ConfigDir := ''/nonexistent''\<rparr>)]) =
      AllReturned
        (Some \<lparr>res_Sessions = amazonq_generateDummyData (mockLib [] []),
               res_TotalCount = 3,
               res_Sources = [SourceAmazonQ],
               res_CollectedAt = Now (mockLib [] []), res_Duration = 0,
               res_Errors =
                 [(''failed to create the collector of source %s: %v'',
                   [ArgString ''unknown_tool'',
                    ArgError (Errorf ''no collector registered for source: %s''
                                [ArgString ''unknown_tool''])]),
                  (''no configuration for source %s'', [ArgString SourceGeminiCLI])]\<rparr>)
        None"
proof -
  let ?L = "mockLib [] []"
  let ?cc = "emptyConfig\<lparr>Sources := [''unknown_tool'', SourceGeminiCLI, SourceAmazonQ]\<rparr>"
  let ?configs = "[''unknown_tool'' \<mapsto> OtherValue,
         SourceAmazonQ \<mapsto> ToolConfig (zeroConfig\<lparr>ConfigDir := ''/nonexistent''\<rparr>)]"
  let ?out = "sourceOutcome (initRegistry ?L) background ?cc ?configs"
  have o1: "?out ''unknown_tool'' =
      Failed (''failed to create the collector of source %s: %v'',
              [ArgString ''unknown_tool'',
               ArgError (Errorf ''no collector registered for source: %s''
                           [ArgString ''unknown_tool''])])"
    by (simp add: registry_defs)
  have o2: "?out SourceGeminiCLI =
      Failed (''no configuration for source %s'', [ArgString SourceGeminiCLI])"
    by (simp add: registry_defs)
  have o3: "?out SourceAmazonQ = Collected (amazonq_generateDummyData ?L)"
    by (simp add: registry_defs amazonq_Collect_def amazonq_validateConfigDirectory_def
        mock_defs collector_defs)
  have s: "Sources ?cc = [''unknown_tool'', SourceGeminiCLI, SourceAmazonQ]"
    by simp
  have d: "length (amazonq_generateDummyData ?L) = 3"
    by (simp add: amazonq_generateDummyData_def Let_def)
  have nc: "\<forall>source \<in> set (Sources ?cc). \<not> isCrashed (?out source)"
    unfolding s using o1 o2 o3 by (simp add: isCrashed_def)
  from collect_all_isolates_failures[where L = ?L and reg = "initRegistry ?L" and ctx = background
      and cc = ?cc and configs = ?configs] nc
  have "fst (CollectAllSources ?L (initRegistry ?L) background (Some ?cc) ?configs) =
        AllReturned
          (Some \<lparr>res_Sessions = concat (map (\<lambda>source. sessionsOf (?out source)) (Sources ?cc)),
                 res_TotalCount =
                   length (concat (map (\<lambda>source. sessionsOf (?out source)) (Sources ?cc))),
                 res_Sources = filter (\<lambda>source. isCollected (?out source)) (Sources ?cc),
                 res_CollectedAt = Now ?L, res_Duration = 0,
                 res_Errors = concat (map (\<lambda>source. errorsOf (?out source)) (Sources ?cc))\<rparr>)
          None"
    by blast
  then show ?thesis
    unfolding s using o1 o2 o3 d
    by (simp add: sessionsOf_def errorsOf_def isCollected_def isCrashed_def)
qed

end
